theory Spec2Isabelle
  imports Complex_Main "HOL-Library.AList"
begin

section \<open>Data model\<close>

text \<open>
  The progression and economy engine of the solar-system idle game. JavaScript numbers
  are modelled as exact rationals (floating-point rounding is not modelled), counts that
  the code only ever steps by one as integers. A JavaScript object used as a dictionary
  is an association list in insertion order: \<open>Object.entries\<close> walks it front to back,
  assignment to an existing key keeps its place and a new key goes to the end
  (\<open>AList.update\<close>), \<open>delete\<close> is \<open>AList.delete\<close>, and a read of a missing key is
  \<open>undefined\<close>, which the code always turns into 0 with \<open>|| 0\<close>.
\<close>

type_synonym 'v obj = "(string \<times> 'v) list"

definition get0 :: "rat obj \<Rightarrow> string \<Rightarrow> rat" where
  "get0 ob k = (case map_of ob k of None \<Rightarrow> 0 | Some v \<Rightarrow> v)"

definition geti0 :: "int obj \<Rightarrow> string \<Rightarrow> int" where
  "geti0 ob k = (case map_of ob k of None \<Rightarrow> 0 | Some v \<Rightarrow> v)"

record production =
  p_energy :: rat
  p_materials :: rat
  p_research :: rat

record stats =
  totalEnergyGenerated :: rat
  totalMaterialsMined :: rat
  totalResearchCompleted :: int
  totalStructuresBuilt :: int
  dysonSatellites :: int

record flags =
  victoryAchieved :: bool
  sandboxMode :: bool

text \<open>A construction queue item; \<open>qi_stamp\<close> is the \<open>Date.now()\<close> part of its id.\<close>

record queue_item =
  qi_structureId :: string
  qi_stamp :: int
  qi_buildTime :: rat
  qi_progress :: rat

record modifiers =
  m_energy :: rat
  m_materials :: rat
  m_research :: rat
  m_buildSpeed :: rat

record logistics =
  launchCapacity :: rat
  cargoCapacity :: rat
  population :: rat
  autoConstruction :: rat
  energyEfficiency :: rat
  dysonBonus :: rat
  exoticMaterials :: rat
  antimatter :: rat
  energyStorage :: rat
  solarMatter :: rat
  computation :: rat

record offline_report =
  offlineSeconds :: rat
  effectiveSeconds :: rat
  gains :: "rat obj"
  wasMaxed :: bool

text \<open>
  Events passed to \<open>StateManager.emit\<close>. The subscribers that change game state
  (those registered by \<open>ResourceSystem.init\<close> and \<open>ProgressionSystem.init\<close>) are called
  by the emitting function of the model, in the order \<open>main.js\<close> registers them; all
  other subscribers (scene, user interface, debounced saving) only read the state, so
  for them the event is just appended to the trace \<open>emitted\<close>.
\<close>

datatype event =
    ResourceChange string rat rat
  | StructureBuilt string int int
  | ResearchCompleteEv string
  | EraChange int int
  | SolarCaptureEv rat
  | MilestoneClaimed string
  | QueueAdd queue_item
  | QueueRemove queue_item nat
  | StateChange string
  | StatePathChange string
  | ProductionUpdate
  | ConstructionProgress string rat rat
  | ConstructionComplete string
  | ConstructionStart string
  | ConstructionCancel nat
  | ResearchStart string
  | ResearchProgress string rat rat
  | ResearchCancel string
  | SettingChange string
  | GameVictory
  | OfflineProgress offline_report
  | Notification string string

text \<open>
  The mutable state: \<open>StateManager.state\<close>, followed by the instance fields of
  \<open>ResourceSystem\<close> (\<open>rs_\<close>), \<open>ConstructionSystem\<close> (\<open>autoBuildProgress\<close>),
  \<open>ProgressionSystem\<close> (\<open>ps_\<close>) and \<open>IdleAccumulator\<close> (\<open>offlineProgress\<close>),
  and the trace of emitted events.
\<close>

record world =
  lastSaveAt :: "int option"
  resources :: "rat obj"
  production :: production
  structures :: "int obj"
  constructionQueue :: "queue_item list"
  completedResearch :: "string list"
  currentResearch :: "string option"
  researchProgress :: rat
  researchQueue :: "string list"
  researchProgressMap :: "rat obj"
  maxResearchSlots :: nat
  autoResearch :: bool
  currentEra :: int
  solarCapture :: rat
  claimedMilestones :: "string list"
  stats :: stats
  flags :: flags
  rs_modifiers :: modifiers
  rs_logistics :: logistics
  autoBuildProgress :: rat
  ps_researchQueue :: "string list"
  ps_researchProgressMap :: "rat obj"
  offlineProgress :: "offline_report option"
  emitted :: "event list"

subsection \<open>Static catalogs\<close>

text \<open>
  Per-unit production of a structure type and the effect bundle of a technology. A field
  the JavaScript literal leaves out is 0 here: the code tests every field for
  truthiness before using it, and 0 and \<open>undefined\<close> are both falsy.
\<close>

record unit_production =
  up_energy :: rat
  up_materials :: rat
  up_research :: rat
  up_buildSpeedBonus :: rat
  up_solarCapture :: rat
  up_launchCapacity :: rat
  up_cargoCapacity :: rat
  up_population :: rat
  up_autoConstruction :: rat
  up_energyEfficiency :: rat
  up_dysonBonus :: rat
  up_exoticMaterials :: rat
  up_antimatter :: rat
  up_energyStorage :: rat
  up_solarMatter :: rat
  up_computation :: rat

record structure_def =
  st_cost :: "rat obj"
  st_buildTime :: rat
  st_production :: unit_production
  st_limit :: "int option"
  st_requiresTech :: string

record effects =
  ef_energyGeneration :: rat
  ef_energyProduction :: rat
  ef_solarEfficiency :: rat
  ef_materialProduction :: rat
  ef_researchEfficiency :: rat
  ef_productionMultiplier :: rat
  ef_buildSpeed :: rat
  ef_constructionEfficiency :: rat
  ef_dysonEfficiency :: rat
  ef_researchSlots :: nat

record tech =
  t_id :: string
  t_era :: int
  t_cost_research :: rat
  t_unlocked :: bool
  t_unlocks :: "string list"
  t_prerequisites :: "string list"
  t_effects :: effects

datatype condition =
    StructureCount string int
  | TotalStructures int
  | SolarCaptureAtLeast rat
  | ResearchCount int
  | AllResearch
  | EraAtLeast int
  | OtherCondition

record milestone =
  ms_id :: string
  ms_condition :: condition
  ms_reward :: "rat obj"
  ms_isVictory :: bool

text \<open>
  The three data tables \<open>STRUCTURES\<close>, \<open>TECH_TREE\<close> and \<open>MILESTONES\<close> are parameters
  of the model, so that every theorem holds for the tables of the repository and for the
  tables of the specification's scenarios alike.
\<close>

record catalog =
  STRUCTURES :: "structure_def obj"
  TECH_TREE :: "tech obj"
  MILESTONES :: "milestone obj"

subsection \<open>Configuration constants (config.js)\<close>

definition MAX_OFFLINE_HOURS :: int where
  "MAX_OFFLINE_HOURS = 24"

definition OFFLINE_EFFICIENCY :: rat where
  "OFFLINE_EFFICIENCY = 1 / 2"

definition STARTING_RESOURCES :: "rat obj" where
  "STARTING_RESOURCES = [(''energy'', 100), (''materials'', 50), (''research'', 0)]"

definition BASE_PRODUCTION :: production where
  "BASE_PRODUCTION = \<lparr>p_energy = 1, p_materials = 1 / 2, p_research = 1 / 5\<rparr>"

text \<open>\<open>CONFIG.ERAS\<close>: era number and solar-capture threshold, in key order.\<close>

definition ERAS :: "(int \<times> rat) list" where
  "ERAS = [(1, 0), (2, 1 / 1000), (3, 1 / 100), (4, 1 / 10)]"

subsection \<open>The data tables of the repository\<close>

text \<open>
  The three tables of the repository (structures.js, techTree.js, milestones.js), in
  declaration order. Names, icons, descriptions and the effect keys that no code reads
  are left out; the value \<open>true\<close> of the \<open>sandbox_mode\<close> reward, which no code reads,
  is written 1.
\<close>

definition no_production :: unit_production where
  "no_production = \<lparr>up_energy = 0, up_materials = 0, up_research = 0, up_buildSpeedBonus = 0, up_solarCapture = 0, up_launchCapacity = 0,
     up_cargoCapacity = 0, up_population = 0, up_autoConstruction = 0, up_energyEfficiency = 0, up_dysonBonus = 0,
     up_exoticMaterials = 0, up_antimatter = 0, up_energyStorage = 0, up_solarMatter = 0, up_computation = 0\<rparr>"

definition no_effects :: effects where
  "no_effects = \<lparr>ef_energyGeneration = 0, ef_energyProduction = 0, ef_solarEfficiency = 0, ef_materialProduction = 0,
     ef_researchEfficiency = 0, ef_productionMultiplier = 0, ef_buildSpeed = 0, ef_constructionEfficiency = 0,
     ef_dysonEfficiency = 0, ef_researchSlots = 0\<rparr>"

definition repo_STRUCTURES :: "structure_def obj" where
  "repo_STRUCTURES =
    [(''launch_pad'', \<lparr>st_cost = [(''energy'', 50), (''materials'', 100)], st_buildTime = 10,
       st_production = no_production\<lparr>up_launchCapacity := 1\<rparr>,
       st_limit = Some 5, st_requiresTech = ''basic_rocketry''\<rparr>),
     (''solar_collector'', \<lparr>st_cost = [(''energy'', 20), (''materials'', 50)], st_buildTime = 5,
       st_production = no_production\<lparr>up_energy := 5\<rparr>,
       st_limit = None, st_requiresTech = ''solar_panels''\<rparr>),
     (''space_station'', \<lparr>st_cost = [(''energy'', 100), (''materials'', 200)], st_buildTime = 30,
       st_production = no_production\<lparr>up_research := 1\<rparr>,
       st_limit = Some 3, st_requiresTech = ''orbital_mechanics''\<rparr>),
     (''mining_outpost'', \<lparr>st_cost = [(''energy'', 80), (''materials'', 150)], st_buildTime = 20,
       st_production = no_production\<lparr>up_materials := 3\<rparr>,
       st_limit = Some 10, st_requiresTech = ''material_science''\<rparr>),
     (''habitat_module'', \<lparr>st_cost = [(''energy'', 60), (''materials'', 120)], st_buildTime = 15,
       st_production = no_production\<lparr>up_population := 10\<rparr>,
       st_limit = Some 20, st_requiresTech = ''life_support''\<rparr>),
     (''cargo_ship'', \<lparr>st_cost = [(''energy'', 200), (''materials'', 300)], st_buildTime = 25,
       st_production = no_production\<lparr>up_cargoCapacity := 100\<rparr>,
       st_limit = Some 20, st_requiresTech = ''ion_propulsion''\<rparr>),
     (''asteroid_miner'', \<lparr>st_cost = [(''energy'', 300), (''materials'', 400)], st_buildTime = 35,
       st_production = no_production\<lparr>up_materials := 15\<rparr>,
       st_limit = Some 50, st_requiresTech = ''asteroid_mining''\<rparr>),
     (''oneill_cylinder'', \<lparr>st_cost = [(''energy'', 1000), (''materials'', 2000)], st_buildTime = 120,
       st_production = no_production\<lparr>up_population := 1000, up_research := 2\<rparr>,
       st_limit = Some 10, st_requiresTech = ''rotating_habitats''\<rparr>),
     (''construction_hub'', \<lparr>st_cost = [(''energy'', 500), (''materials'', 800)], st_buildTime = 60,
       st_production = no_production\<lparr>up_buildSpeedBonus := 1 / 10\<rparr>,
       st_limit = Some 5, st_requiresTech = ''automated_construction''\<rparr>),
     (''mercury_base'', \<lparr>st_cost = [(''energy'', 800), (''materials'', 1500)], st_buildTime = 90,
       st_production = no_production\<lparr>up_energy := 20, up_materials := 5\<rparr>,
       st_limit = Some 3, st_requiresTech = ''mercury_operations''\<rparr>),
     (''orbital_solar_array'', \<lparr>st_cost = [(''energy'', 2000), (''materials'', 3000)], st_buildTime = 60,
       st_production = no_production\<lparr>up_energy := 100\<rparr>,
       st_limit = Some 100, st_requiresTech = ''solar_collectors_orbital''\<rparr>),
     (''dyson_satellite'', \<lparr>st_cost = [(''energy'', 100), (''materials'', 200)], st_buildTime = 2,
       st_production = no_production\<lparr>up_solarCapture := 1 / 10000, up_energy := 50\<rparr>,
       st_limit = None, st_requiresTech = ''dyson_swarm_basics''\<rparr>),
     (''replicator_hub'', \<lparr>st_cost = [(''energy'', 5000), (''materials'', 8000)], st_buildTime = 180,
       st_production = no_production\<lparr>up_materials := 50, up_autoConstruction := 1\<rparr>,
       st_limit = Some 10, st_requiresTech = ''self_replication''\<rparr>),
     (''energy_relay'', \<lparr>st_cost = [(''energy'', 3000), (''materials'', 2000)], st_buildTime = 45,
       st_production = no_production\<lparr>up_energyEfficiency := 1 / 20\<rparr>,
       st_limit = Some 20, st_requiresTech = ''energy_transmission''\<rparr>),
     (''stellar_forge'', \<lparr>st_cost = [(''energy'', 10000), (''materials'', 5000)], st_buildTime = 240,
       st_production = no_production\<lparr>up_materials := 100, up_exoticMaterials := 1\<rparr>,
       st_limit = Some 5, st_requiresTech = ''mega_engineering''\<rparr>),
     (''dyson_hub'', \<lparr>st_cost = [(''energy'', 50000), (''materials'', 30000)], st_buildTime = 300,
       st_production = no_production\<lparr>up_solarCapture := 1 / 100, up_energy := 5000, up_dysonBonus := 2\<rparr>,
       st_limit = Some 10, st_requiresTech = ''dyson_swarm_advanced''\<rparr>),
     (''antimatter_factory'', \<lparr>st_cost = [(''energy'', 100000), (''materials'', 50000)], st_buildTime = 600,
       st_production = no_production\<lparr>up_antimatter := 1, up_energyStorage := 10000\<rparr>,
       st_limit = Some 5, st_requiresTech = ''antimatter_production''\<rparr>),
     (''starlifter'', \<lparr>st_cost = [(''energy'', 200000), (''materials'', 100000)], st_buildTime = 900,
       st_production = no_production\<lparr>up_materials := 1000, up_solarMatter := 10\<rparr>,
       st_limit = Some 3, st_requiresTech = ''stellar_engineering''\<rparr>),
     (''computation_sphere'', \<lparr>st_cost = [(''energy'', 500000), (''materials'', 300000)], st_buildTime = 1200,
       st_production = no_production\<lparr>up_computation := 1000000, up_research := 100\<rparr>,
       st_limit = Some 3, st_requiresTech = ''matrioshka_brain''\<rparr>)]"

definition repo_TECH_TREE :: "tech obj" where
  "repo_TECH_TREE =
    [(''basic_rocketry'', \<lparr>t_id = ''basic_rocketry'', t_era = 1, t_cost_research = 0, t_unlocked = True,
       t_unlocks = [''structures:launch_pad''],
       t_prerequisites = [],
       t_effects = no_effects\<rparr>),
     (''solar_panels'', \<lparr>t_id = ''solar_panels'', t_era = 1, t_cost_research = 50, t_unlocked = False,
       t_unlocks = [''structures:solar_collector''],
       t_prerequisites = [''basic_rocketry''],
       t_effects = no_effects\<lparr>ef_energyGeneration := 1\<rparr>\<rparr>),
     (''orbital_mechanics'', \<lparr>t_id = ''orbital_mechanics'', t_era = 1, t_cost_research = 75, t_unlocked = False,
       t_unlocks = [''structures:space_station''],
       t_prerequisites = [''basic_rocketry''],
       t_effects = no_effects\<rparr>),
     (''material_science'', \<lparr>t_id = ''material_science'', t_era = 1, t_cost_research = 100, t_unlocked = False,
       t_unlocks = [''structures:mining_outpost''],
       t_prerequisites = [''basic_rocketry''],
       t_effects = no_effects\<lparr>ef_constructionEfficiency := 11 / 10\<rparr>\<rparr>),
     (''life_support'', \<lparr>t_id = ''life_support'', t_era = 1, t_cost_research = 150, t_unlocked = False,
       t_unlocks = [''structures:habitat_module''],
       t_prerequisites = [''orbital_mechanics''],
       t_effects = no_effects\<rparr>),
     (''ion_propulsion'', \<lparr>t_id = ''ion_propulsion'', t_era = 2, t_cost_research = 300, t_unlocked = False,
       t_unlocks = [''structures:cargo_ship''],
       t_prerequisites = [''solar_panels'', ''orbital_mechanics''],
       t_effects = no_effects\<rparr>),
     (''asteroid_mining'', \<lparr>t_id = ''asteroid_mining'', t_era = 2, t_cost_research = 400, t_unlocked = False,
       t_unlocks = [''structures:asteroid_miner''],
       t_prerequisites = [''material_science'', ''ion_propulsion''],
       t_effects = no_effects\<lparr>ef_materialProduction := 2\<rparr>\<rparr>),
     (''rotating_habitats'', \<lparr>t_id = ''rotating_habitats'', t_era = 2, t_cost_research = 500, t_unlocked = False,
       t_unlocks = [''structures:oneill_cylinder''],
       t_prerequisites = [''life_support'', ''material_science''],
       t_effects = no_effects\<rparr>),
     (''automated_construction'', \<lparr>t_id = ''automated_construction'', t_era = 2, t_cost_research = 600, t_unlocked = False,
       t_unlocks = [''structures:construction_hub''],
       t_prerequisites = [''asteroid_mining''],
       t_effects = no_effects\<lparr>ef_buildSpeed := 3 / 2\<rparr>\<rparr>),
     (''parallel_research'', \<lparr>t_id = ''parallel_research'', t_era = 2, t_cost_research = 450, t_unlocked = False,
       t_unlocks = [''research_slot''],
       t_prerequisites = [''orbital_mechanics'', ''material_science''],
       t_effects = no_effects\<lparr>ef_researchSlots := 1\<rparr>\<rparr>),
     (''mercury_operations'', \<lparr>t_id = ''mercury_operations'', t_era = 2, t_cost_research = 700, t_unlocked = False,
       t_unlocks = [''structures:mercury_base''],
       t_prerequisites = [''ion_propulsion'', ''material_science''],
       t_effects = no_effects\<lparr>ef_solarEfficiency := 3 / 2\<rparr>\<rparr>),
     (''solar_collectors_orbital'', \<lparr>t_id = ''solar_collectors_orbital'', t_era = 3, t_cost_research = 1500, t_unlocked = False,
       t_unlocks = [''structures:orbital_solar_array''],
       t_prerequisites = [''mercury_operations'', ''automated_construction''],
       t_effects = no_effects\<lparr>ef_energyProduction := 10\<rparr>\<rparr>),
     (''dyson_swarm_basics'', \<lparr>t_id = ''dyson_swarm_basics'', t_era = 3, t_cost_research = 2000, t_unlocked = False,
       t_unlocks = [''structures:dyson_satellite''],
       t_prerequisites = [''solar_collectors_orbital''],
       t_effects = no_effects\<rparr>),
     (''self_replication'', \<lparr>t_id = ''self_replication'', t_era = 3, t_cost_research = 3000, t_unlocked = False,
       t_unlocks = [''structures:replicator_hub''],
       t_prerequisites = [''automated_construction'', ''dyson_swarm_basics''],
       t_effects = no_effects\<lparr>ef_productionMultiplier := 2\<rparr>\<rparr>),
     (''energy_transmission'', \<lparr>t_id = ''energy_transmission'', t_era = 3, t_cost_research = 2500, t_unlocked = False,
       t_unlocks = [''structures:energy_relay''],
       t_prerequisites = [''solar_collectors_orbital''],
       t_effects = no_effects\<rparr>),
     (''mega_engineering'', \<lparr>t_id = ''mega_engineering'', t_era = 3, t_cost_research = 4000, t_unlocked = False,
       t_unlocks = [''structures:stellar_forge''],
       t_prerequisites = [''self_replication'', ''energy_transmission''],
       t_effects = no_effects\<rparr>),
     (''distributed_intelligence'', \<lparr>t_id = ''distributed_intelligence'', t_era = 3, t_cost_research = 3500, t_unlocked = False,
       t_unlocks = [''research_slot''],
       t_prerequisites = [''self_replication''],
       t_effects = no_effects\<lparr>ef_researchSlots := 1, ef_researchEfficiency := 5 / 4\<rparr>\<rparr>),
     (''dyson_swarm_advanced'', \<lparr>t_id = ''dyson_swarm_advanced'', t_era = 4, t_cost_research = 10000, t_unlocked = False,
       t_unlocks = [''structures:dyson_hub''],
       t_prerequisites = [''mega_engineering'', ''dyson_swarm_basics''],
       t_effects = no_effects\<lparr>ef_dysonEfficiency := 2\<rparr>\<rparr>),
     (''antimatter_production'', \<lparr>t_id = ''antimatter_production'', t_era = 4, t_cost_research = 15000, t_unlocked = False,
       t_unlocks = [''structures:antimatter_factory''],
       t_prerequisites = [''dyson_swarm_advanced''],
       t_effects = no_effects\<rparr>),
     (''stellar_engineering'', \<lparr>t_id = ''stellar_engineering'', t_era = 4, t_cost_research = 25000, t_unlocked = False,
       t_unlocks = [''structures:starlifter''],
       t_prerequisites = [''antimatter_production''],
       t_effects = no_effects\<rparr>),
     (''matrioshka_brain'', \<lparr>t_id = ''matrioshka_brain'', t_era = 4, t_cost_research = 50000, t_unlocked = False,
       t_unlocks = [''structures:computation_sphere''],
       t_prerequisites = [''stellar_engineering'', ''dyson_swarm_advanced''],
       t_effects = no_effects\<rparr>),
     (''k2_completion'', \<lparr>t_id = ''k2_completion'', t_era = 4, t_cost_research = 100000, t_unlocked = False,
       t_unlocks = [''sandbox_mode''],
       t_prerequisites = [''matrioshka_brain''],
       t_effects = no_effects\<rparr>)]"

definition repo_MILESTONES :: "milestone obj" where
  "repo_MILESTONES =
    [(''first_launch'', \<lparr>ms_id = ''first_launch'', ms_condition = StructureCount ''launch_pad'' 1,
       ms_reward = [(''energy'', 100), (''materials'', 50)], ms_isVictory = False\<rparr>),
     (''first_solar'', \<lparr>ms_id = ''first_solar'', ms_condition = StructureCount ''solar_collector'' 1,
       ms_reward = [(''energy'', 200)], ms_isVictory = False\<rparr>),
     (''first_station'', \<lparr>ms_id = ''first_station'', ms_condition = StructureCount ''space_station'' 1,
       ms_reward = [(''research'', 50)], ms_isVictory = False\<rparr>),
     (''first_mining'', \<lparr>ms_id = ''first_mining'', ms_condition = StructureCount ''mining_outpost'' 1,
       ms_reward = [(''materials'', 200)], ms_isVictory = False\<rparr>),
     (''first_habitat'', \<lparr>ms_id = ''first_habitat'', ms_condition = StructureCount ''habitat_module'' 1,
       ms_reward = [(''energy'', 100), (''materials'', 100)], ms_isVictory = False\<rparr>),
     (''capture_0001'', \<lparr>ms_id = ''capture_0001'', ms_condition = SolarCaptureAtLeast (1 / 10000),
       ms_reward = [(''research'', 100)], ms_isVictory = False\<rparr>),
     (''capture_001'', \<lparr>ms_id = ''capture_001'', ms_condition = SolarCaptureAtLeast (1 / 1000),
       ms_reward = [(''energy'', 5000), (''research'', 200)], ms_isVictory = False\<rparr>),
     (''capture_01'', \<lparr>ms_id = ''capture_01'', ms_condition = SolarCaptureAtLeast (1 / 100),
       ms_reward = [(''energy'', 20000), (''materials'', 10000), (''research'', 500)], ms_isVictory = False\<rparr>),
     (''capture_05'', \<lparr>ms_id = ''capture_05'', ms_condition = SolarCaptureAtLeast (1 / 20),
       ms_reward = [(''energy'', 100000), (''materials'', 50000)], ms_isVictory = False\<rparr>),
     (''capture_10'', \<lparr>ms_id = ''capture_10'', ms_condition = SolarCaptureAtLeast (1 / 10),
       ms_reward = [(''energy'', 500000), (''materials'', 200000), (''research'', 2000)], ms_isVictory = False\<rparr>),
     (''capture_25'', \<lparr>ms_id = ''capture_25'', ms_condition = SolarCaptureAtLeast (1 / 4),
       ms_reward = [(''energy'', 1000000), (''materials'', 500000)], ms_isVictory = False\<rparr>),
     (''capture_50'', \<lparr>ms_id = ''capture_50'', ms_condition = SolarCaptureAtLeast (1 / 2),
       ms_reward = [(''energy'', 5000000), (''materials'', 2000000), (''research'', 10000)], ms_isVictory = False\<rparr>),
     (''capture_75'', \<lparr>ms_id = ''capture_75'', ms_condition = SolarCaptureAtLeast (3 / 4),
       ms_reward = [(''energy'', 10000000), (''materials'', 5000000)], ms_isVictory = False\<rparr>),
     (''capture_100'', \<lparr>ms_id = ''capture_100'', ms_condition = SolarCaptureAtLeast (1),
       ms_reward = [(''sandbox_mode'', 1)], ms_isVictory = True\<rparr>),
     (''structures_10'', \<lparr>ms_id = ''structures_10'', ms_condition = TotalStructures 10,
       ms_reward = [(''materials'', 500)], ms_isVictory = False\<rparr>),
     (''structures_50'', \<lparr>ms_id = ''structures_50'', ms_condition = TotalStructures 50,
       ms_reward = [(''materials'', 2000), (''energy'', 1000)], ms_isVictory = False\<rparr>),
     (''structures_100'', \<lparr>ms_id = ''structures_100'', ms_condition = TotalStructures 100,
       ms_reward = [(''materials'', 5000), (''energy'', 3000)], ms_isVictory = False\<rparr>),
     (''structures_500'', \<lparr>ms_id = ''structures_500'', ms_condition = TotalStructures 500,
       ms_reward = [(''materials'', 20000), (''energy'', 10000)], ms_isVictory = False\<rparr>),
     (''structures_1000'', \<lparr>ms_id = ''structures_1000'', ms_condition = TotalStructures 1000,
       ms_reward = [(''materials'', 50000), (''energy'', 25000), (''research'', 5000)], ms_isVictory = False\<rparr>),
     (''dyson_100'', \<lparr>ms_id = ''dyson_100'', ms_condition = StructureCount ''dyson_satellite'' 100,
       ms_reward = [(''energy'', 10000)], ms_isVictory = False\<rparr>),
     (''dyson_1000'', \<lparr>ms_id = ''dyson_1000'', ms_condition = StructureCount ''dyson_satellite'' 1000,
       ms_reward = [(''energy'', 100000), (''materials'', 50000)], ms_isVictory = False\<rparr>),
     (''dyson_5000'', \<lparr>ms_id = ''dyson_5000'', ms_condition = StructureCount ''dyson_satellite'' 5000,
       ms_reward = [(''energy'', 500000), (''materials'', 200000)], ms_isVictory = False\<rparr>),
     (''dyson_10000'', \<lparr>ms_id = ''dyson_10000'', ms_condition = StructureCount ''dyson_satellite'' 10000,
       ms_reward = [(''energy'', 2000000), (''materials'', 1000000), (''research'', 50000)], ms_isVictory = False\<rparr>),
     (''research_5'', \<lparr>ms_id = ''research_5'', ms_condition = ResearchCount 5,
       ms_reward = [(''research'', 200)], ms_isVictory = False\<rparr>),
     (''research_10'', \<lparr>ms_id = ''research_10'', ms_condition = ResearchCount 10,
       ms_reward = [(''research'', 500)], ms_isVictory = False\<rparr>),
     (''research_all'', \<lparr>ms_id = ''research_all'', ms_condition = AllResearch,
       ms_reward = [(''energy'', 1000000), (''materials'', 500000), (''research'', 100000)], ms_isVictory = False\<rparr>),
     (''era_2'', \<lparr>ms_id = ''era_2'', ms_condition = EraAtLeast 2,
       ms_reward = [(''energy'', 1000), (''materials'', 500), (''research'', 100)], ms_isVictory = False\<rparr>),
     (''era_3'', \<lparr>ms_id = ''era_3'', ms_condition = EraAtLeast 3,
       ms_reward = [(''energy'', 10000), (''materials'', 5000), (''research'', 1000)], ms_isVictory = False\<rparr>),
     (''era_4'', \<lparr>ms_id = ''era_4'', ms_condition = EraAtLeast 4,
       ms_reward = [(''energy'', 100000), (''materials'', 50000), (''research'', 10000)], ms_isVictory = False\<rparr>)]"

definition repo :: catalog where
  "repo = \<lparr>STRUCTURES = repo_STRUCTURES, TECH_TREE = repo_TECH_TREE, MILESTONES = repo_MILESTONES\<rparr>"

section \<open>StateManager\<close>

definition emit :: "event \<Rightarrow> world \<Rightarrow> world" where
  "emit e s = s\<lparr>emitted := emitted s @ [e]\<rparr>"

definition getDefaultState :: world where
  "getDefaultState = \<lparr>
     lastSaveAt = None,
     resources = STARTING_RESOURCES,
     production = BASE_PRODUCTION,
     structures = [],
     constructionQueue = [],
     completedResearch = [''basic_rocketry''],
     currentResearch = None,
     researchProgress = 0,
     researchQueue = [],
     researchProgressMap = [],
     maxResearchSlots = 1,
     autoResearch = False,
     currentEra = 1,
     solarCapture = 0,
     claimedMilestones = [],
     stats = \<lparr>totalEnergyGenerated = 0, totalMaterialsMined = 0,
       totalResearchCompleted = 0, totalStructuresBuilt = 0, dysonSatellites = 0\<rparr>,
     flags = \<lparr>victoryAchieved = False, sandboxMode = False\<rparr>,
     rs_modifiers = \<lparr>m_energy = 1, m_materials = 1, m_research = 1, m_buildSpeed = 1\<rparr>,
     rs_logistics = \<lparr>launchCapacity = 0, cargoCapacity = 0, population = 0,
       autoConstruction = 0, energyEfficiency = 0, dysonBonus = 1, exoticMaterials = 0,
       antimatter = 0, energyStorage = 0, solarMatter = 0, computation = 0\<rparr>,
     autoBuildProgress = 0,
     ps_researchQueue = [],
     ps_researchProgressMap = [],
     offlineProgress = None,
     emitted = []\<rparr>"

definition addResource :: "string \<Rightarrow> rat \<Rightarrow> world \<Rightarrow> world" where
  "addResource type amount s =
     (let current = get0 (resources s) type;
          total = current + amount
      in emit (ResourceChange type amount total)
           (s\<lparr>resources := AList.update type total (resources s)\<rparr>))"

text \<open>\<open>spendResource\<close> returns its boolean together with the state it leaves.\<close>

definition spendResource :: "string \<Rightarrow> rat \<Rightarrow> world \<Rightarrow> bool \<times> world" where
  "spendResource type amount s =
     (let current = get0 (resources s) type
      in if current < amount then (False, s)
         else (True, emit (ResourceChange type (- amount) (current - amount))
                       (s\<lparr>resources := AList.update type (current - amount) (resources s)\<rparr>)))"

fun canAfford :: "rat obj \<Rightarrow> world \<Rightarrow> bool" where
  "canAfford [] s = True"
| "canAfford ((type, amount) # costs) s =
     (if get0 (resources s) type < amount then False else canAfford costs s)"

section \<open>ResourceSystem: spending\<close>

text \<open>
  \<open>ResourceSystem.spend\<close>: the loop over \<open>Object.entries(costs)\<close> calls
  \<open>spendResource\<close> for one kind after the other and returns false at the first refusal,
  keeping what the earlier iterations have already deducted.
\<close>

fun spend :: "rat obj \<Rightarrow> world \<Rightarrow> bool \<times> world" where
  "spend [] s = (True, s)"
| "spend ((type, amount) # costs) s =
     (case spendResource type amount s of
        (False, s') \<Rightarrow> (False, s')
      | (True, s') \<Rightarrow> spend costs s')"

section \<open>Milestones (milestones.js, ProgressionSystem)\<close>

definition getTotalStructures :: "int obj \<Rightarrow> int" where
  "getTotalStructures sts = foldl (\<lambda>sum count. sum + count) 0 (map snd sts)"

text \<open>
  \<open>checkMilestoneCondition\<close>, on the \<open>gameState\<close> object that \<open>checkMilestones\<close>
  builds from the state and the size of \<open>TECH_TREE\<close>.
\<close>

fun checkMilestoneCondition :: "catalog \<Rightarrow> condition \<Rightarrow> world \<Rightarrow> bool" where
  "checkMilestoneCondition cat (StructureCount structureId count) s =
     (geti0 (structures s) structureId \<ge> count)"
| "checkMilestoneCondition cat (TotalStructures count) s =
     (getTotalStructures (structures s) \<ge> count)"
| "checkMilestoneCondition cat (SolarCaptureAtLeast percent) s = (solarCapture s \<ge> percent)"
| "checkMilestoneCondition cat (ResearchCount count) s =
     (int (length (completedResearch s)) \<ge> count)"
| "checkMilestoneCondition cat AllResearch s =
     (length (completedResearch s) \<ge> length (TECH_TREE cat))"
| "checkMilestoneCondition cat (EraAtLeast era) s = (currentEra s \<ge> era)"
| "checkMilestoneCondition cat OtherCondition s = False"

definition getNewlyAchievedMilestones :: "catalog \<Rightarrow> world \<Rightarrow> milestone list" where
  "getNewlyAchievedMilestones cat s =
     filter (\<lambda>milestone.
        if ms_id milestone \<in> set (claimedMilestones s) then False
        else checkMilestoneCondition cat (ms_condition milestone) s)
       (map snd (MILESTONES cat))"

text \<open>\<open>StateManager.claimMilestone\<close>, with its boolean result.\<close>

definition sm_claimMilestone :: "string \<Rightarrow> world \<Rightarrow> bool \<times> world" where
  "sm_claimMilestone milestoneId s =
     (if milestoneId \<in> set (claimedMilestones s) then (False, s)
      else (True, emit (MilestoneClaimed milestoneId)
                    (s\<lparr>claimedMilestones := claimedMilestones s @ [milestoneId]\<rparr>)))"

text \<open>\<open>StateManager.set\<close> for the two flag paths the engine writes.\<close>

definition set_sandboxMode :: "world \<Rightarrow> world" where
  "set_sandboxMode s =
     emit (StatePathChange ''flags.sandboxMode'') (emit (StateChange ''flags.sandboxMode'')
       (s\<lparr>flags := (flags s)\<lparr>sandboxMode := True\<rparr>\<rparr>))"

definition set_victoryAchieved :: "world \<Rightarrow> world" where
  "set_victoryAchieved s =
     emit (StatePathChange ''flags.victoryAchieved'') (emit (StateChange ''flags.victoryAchieved'')
       (s\<lparr>flags := (flags s)\<lparr>victoryAchieved := True\<rparr>\<rparr>))"

definition triggerVictory :: "world \<Rightarrow> world" where
  "triggerVictory s = emit GameVictory (set_victoryAchieved s)"

fun grantRewards :: "rat obj \<Rightarrow> world \<Rightarrow> world" where
  "grantRewards [] s = s"
| "grantRewards ((resource, amount) # reward) s =
     grantRewards reward
       (if resource = ''sandbox_mode'' then set_sandboxMode s
        else addResource resource amount s)"

definition claimMilestone :: "milestone \<Rightarrow> world \<Rightarrow> world" where
  "claimMilestone milestone s =
     (case sm_claimMilestone (ms_id milestone) s of
        (False, s') \<Rightarrow> s'
      | (True, s1) \<Rightarrow>
          (let s2 = grantRewards (ms_reward milestone) s1;
               s3 = emit (Notification ''achievement'' (ms_id milestone)) s2
           in if ms_isVictory milestone then triggerVictory s3 else s3))"

definition checkMilestones :: "catalog \<Rightarrow> world \<Rightarrow> world" where
  "checkMilestones cat s =
     foldl (\<lambda>s' milestone. claimMilestone milestone s') s (getNewlyAchievedMilestones cat s)"

section \<open>Eras\<close>

definition setEra :: "int \<Rightarrow> world \<Rightarrow> world" where
  "setEra era s =
     (let oldEra = currentEra s
      in if era > oldEra then emit (EraChange oldEra era) (s\<lparr>currentEra := era\<rparr>) else s)"

definition advanceToEra :: "int \<Rightarrow> world \<Rightarrow> world" where
  "advanceToEra era s =
     (case map_of ERAS era of
        None \<Rightarrow> s
      | Some eraData \<Rightarrow> emit (Notification ''achievement'' ''era'') (setEra era s))"

text \<open>
  \<open>checkEraProgression\<close> reads \<open>currentEra\<close> and \<open>solarCapture\<close> once, before its loop
  over the entries of \<open>CONFIG.ERAS\<close>; the loop compares with these two snapshots.
\<close>

fun eraLoop :: "(int \<times> rat) list \<Rightarrow> int \<Rightarrow> rat \<Rightarrow> world \<Rightarrow> world" where
  "eraLoop [] currentEra0 solarCapture0 s = s"
| "eraLoop ((eraNum, threshold) # eras) currentEra0 solarCapture0 s =
     eraLoop eras currentEra0 solarCapture0
       (if eraNum > currentEra0 \<and> solarCapture0 \<ge> threshold then advanceToEra eraNum s else s)"

definition checkEraProgression :: "world \<Rightarrow> world" where
  "checkEraProgression s = eraLoop ERAS (currentEra s) (solarCapture s) s"

section \<open>ResourceSystem: production\<close>

definition setSolarCapture :: "catalog \<Rightarrow> rat \<Rightarrow> world \<Rightarrow> world" where
  "setSolarCapture cat percent s =
     (let oldCapture = solarCapture s;
          s' = s\<lparr>solarCapture := min 1 (max 0 percent)\<rparr>
      in if solarCapture s' \<noteq> oldCapture
         then checkMilestones cat (emit (SolarCaptureEv (solarCapture s')) s')
         else s')"

record tech_modifiers =
  tm_energy :: rat
  tm_materials :: rat
  tm_research :: rat
  tm_buildSpeed :: rat
  tm_dysonEfficiency :: rat

definition times_if :: "rat \<Rightarrow> rat \<Rightarrow> rat" where
  "times_if x m = (if x \<noteq> 0 then m * x else m)"

definition applyEffects :: "effects \<Rightarrow> tech_modifiers \<Rightarrow> tech_modifiers" where
  "applyEffects ef m =
     \<lparr>tm_energy =
        times_if (ef_productionMultiplier ef) (times_if (ef_solarEfficiency ef)
          (times_if (ef_energyProduction ef) (times_if (ef_energyGeneration ef) (tm_energy m)))),
      tm_materials =
        times_if (ef_productionMultiplier ef) (times_if (ef_materialProduction ef) (tm_materials m)),
      tm_research =
        times_if (ef_productionMultiplier ef) (times_if (ef_researchEfficiency ef) (tm_research m)),
      tm_buildSpeed =
        times_if (ef_constructionEfficiency ef) (times_if (ef_buildSpeed ef) (tm_buildSpeed m)),
      tm_dysonEfficiency = times_if (ef_dysonEfficiency ef) (tm_dysonEfficiency m)\<rparr>"

definition getTechModifiers :: "catalog \<Rightarrow> string list \<Rightarrow> tech_modifiers" where
  "getTechModifiers cat completed =
     foldl (\<lambda>m techId. case map_of (TECH_TREE cat) techId of
                          None \<Rightarrow> m
                        | Some tech \<Rightarrow> applyEffects (t_effects tech) m)
       \<lparr>tm_energy = 1, tm_materials = 1, tm_research = 1, tm_buildSpeed = 1,
        tm_dysonEfficiency = 1\<rparr> completed"

text \<open>The running totals of the loop over \<open>Object.entries(structures)\<close>.\<close>

record totals =
  tt_energy :: rat
  tt_materials :: rat
  tt_research :: rat
  tt_buildSpeedBonus :: rat
  tt_solarCapture :: rat
  tt_energyFromDyson :: rat
  tt_logistics :: logistics

definition plus_if :: "rat \<Rightarrow> int \<Rightarrow> rat \<Rightarrow> rat" where
  "plus_if x count t = (if x \<noteq> 0 then t + x * of_int count else t)"

fun addStructureProduction :: "catalog \<Rightarrow> string \<times> int \<Rightarrow> totals \<Rightarrow> totals" where
  "addStructureProduction cat (structureId, count) t =
     (if count \<le> 0 then t
      else (case map_of (STRUCTURES cat) structureId of
          None \<Rightarrow> t
        | Some structureDef \<Rightarrow>
           (let prod = st_production structureDef; lg = tt_logistics t
            in \<lparr>tt_energy =
                   (if up_energy prod \<noteq> 0 \<and> up_solarCapture prod = 0
                    then tt_energy t + up_energy prod * of_int count else tt_energy t),
                 tt_materials = plus_if (up_materials prod) count (tt_materials t),
                 tt_research = plus_if (up_research prod) count (tt_research t),
                 tt_buildSpeedBonus = plus_if (up_buildSpeedBonus prod) count (tt_buildSpeedBonus t),
                 tt_solarCapture = plus_if (up_solarCapture prod) count (tt_solarCapture t),
                 tt_energyFromDyson =
                   (if up_energy prod \<noteq> 0 \<and> up_solarCapture prod \<noteq> 0
                    then tt_energyFromDyson t + up_energy prod * of_int count
                    else tt_energyFromDyson t),
                 tt_logistics =
                   \<lparr>launchCapacity = plus_if (up_launchCapacity prod) count (launchCapacity lg),
                    cargoCapacity = plus_if (up_cargoCapacity prod) count (cargoCapacity lg),
                    population = plus_if (up_population prod) count (population lg),
                    autoConstruction = plus_if (up_autoConstruction prod) count (autoConstruction lg),
                    energyEfficiency = plus_if (up_energyEfficiency prod) count (energyEfficiency lg),
                    dysonBonus =
                      (if up_dysonBonus prod \<noteq> 0
                       then dysonBonus lg + (up_dysonBonus prod - 1) * of_int count
                       else dysonBonus lg),
                    exoticMaterials = plus_if (up_exoticMaterials prod) count (exoticMaterials lg),
                    antimatter = plus_if (up_antimatter prod) count (antimatter lg),
                    energyStorage = plus_if (up_energyStorage prod) count (energyStorage lg),
                    solarMatter = plus_if (up_solarMatter prod) count (solarMatter lg),
                    computation = plus_if (up_computation prod) count (computation lg)\<rparr>\<rparr>)))"

definition initialTotals :: totals where
  "initialTotals =
     \<lparr>tt_energy = p_energy BASE_PRODUCTION, tt_materials = p_materials BASE_PRODUCTION,
      tt_research = p_research BASE_PRODUCTION, tt_buildSpeedBonus = 0, tt_solarCapture = 0,
      tt_energyFromDyson = 0,
      tt_logistics = \<lparr>launchCapacity = 0, cargoCapacity = 0, population = 0,
        autoConstruction = 0, energyEfficiency = 0, dysonBonus = 1, exoticMaterials = 0,
        antimatter = 0, energyStorage = 0, solarMatter = 0, computation = 0\<rparr>\<rparr>"

definition recalculateProduction :: "catalog \<Rightarrow> world \<Rightarrow> world" where
  "recalculateProduction cat s =
     (let t = foldl (\<lambda>t entry. addStructureProduction cat entry t) initialTotals (structures s);
          lg = tt_logistics t;
          techModifiers = getTechModifiers cat (completedResearch s);
          cargoMultiplier = 1 + cargoCapacity lg / 1000;
          populationMultiplier = 1 + population lg / 10000;
          energyEfficiencyMultiplier = 1 + energyEfficiency lg;
          exoticMaterialMultiplier = 1 + exoticMaterials lg * (2 / 100);
          antimatterMultiplier = 1 + antimatter lg * (1 / 10);
          storageMultiplier = 1 + energyStorage lg / 100000;
          solarMatterMultiplier = 1 + solarMatter lg * (5 / 1000);
          computationMultiplier = 1 + computation lg / 1000000 * (25 / 100);
          energyModifier = m_energy (rs_modifiers s) * tm_energy techModifiers
            * energyEfficiencyMultiplier * antimatterMultiplier * storageMultiplier;
          materialsModifier = m_materials (rs_modifiers s) * tm_materials techModifiers
            * cargoMultiplier * exoticMaterialMultiplier * solarMatterMultiplier;
          researchModifier = m_research (rs_modifiers s) * tm_research techModifiers
            * populationMultiplier * computationMultiplier;
          energyFromDyson = tt_energyFromDyson t
            * (energyModifier * dysonBonus lg * tm_dysonEfficiency techModifiers);
          solarCapture' = tt_solarCapture t * (dysonBonus lg * tm_dysonEfficiency techModifiers);
          energy = tt_energy t * energyModifier + energyFromDyson;
          s1 = s\<lparr>rs_modifiers := (rs_modifiers s)\<lparr>m_buildSpeed :=
                 (1 + tt_buildSpeedBonus t + launchCapacity lg * (2 / 100))
                   * tm_buildSpeed techModifiers\<rparr>\<rparr>;
          s2 = s1\<lparr>production := \<lparr>p_energy = energy,
                 p_materials = tt_materials t * materialsModifier,
                 p_research = tt_research t * researchModifier\<rparr>\<rparr>;
          s3 = setSolarCapture cat solarCapture' s2;
          s4 = s3\<lparr>rs_logistics := lg\<rparr>
      in emit ProductionUpdate s4)"

section \<open>StateManager: structures and the construction queue\<close>

text \<open>
  \<open>addStructure\<close> with the default \<open>count = 1\<close>. The \<open>structure:built\<close> event reaches
  \<open>ResourceSystem.recalculateProduction\<close> and then \<open>ProgressionSystem.checkMilestones\<close>.
\<close>

definition addStructure :: "catalog \<Rightarrow> string \<Rightarrow> world \<Rightarrow> world" where
  "addStructure cat structureId s =
     (let total = geti0 (structures s) structureId + 1;
          s1 = s\<lparr>structures := AList.update structureId total (structures s)\<rparr>;
          s2 = s1\<lparr>stats := (stats s1)\<lparr>totalStructuresBuilt := totalStructuresBuilt (stats s1) + 1\<rparr>\<rparr>;
          s3 = (if structureId = ''dyson_satellite''
                then s2\<lparr>stats := (stats s2)\<lparr>dysonSatellites := total\<rparr>\<rparr> else s2)
      in checkMilestones cat (recalculateProduction cat (emit (StructureBuilt structureId 1 total) s3)))"

definition addToQueue :: "queue_item \<Rightarrow> world \<Rightarrow> world" where
  "addToQueue item s = emit (QueueAdd item) (s\<lparr>constructionQueue := constructionQueue s @ [item]\<rparr>)"

text \<open>\<open>removeFromQueue\<close>: \<open>splice(index, 1)\<close> removes nothing when the index is past the end.\<close>

definition removeFromQueue :: "nat \<Rightarrow> world \<Rightarrow> world" where
  "removeFromQueue index s =
     (if index < length (constructionQueue s)
      then emit (QueueRemove (constructionQueue s ! index) index)
             (s\<lparr>constructionQueue := take index (constructionQueue s) @ drop (Suc index) (constructionQueue s)\<rparr>)
      else s)"

section \<open>ResourceSystem: per-tick income\<close>

definition rs_update :: "rat \<Rightarrow> world \<Rightarrow> world" where
  "rs_update deltaTime s =
     (let prod = production s;
          s1 = (if p_energy prod > 0
                then (let a = addResource ''energy'' (p_energy prod * deltaTime) s
                      in a\<lparr>stats := (stats a)\<lparr>totalEnergyGenerated :=
                            totalEnergyGenerated (stats a) + p_energy prod * deltaTime\<rparr>\<rparr>)
                else s);
          s2 = (if p_materials prod > 0
                then (let a = addResource ''materials'' (p_materials prod * deltaTime) s1
                      in a\<lparr>stats := (stats a)\<lparr>totalMaterialsMined :=
                            totalMaterialsMined (stats a) + p_materials prod * deltaTime\<rparr>\<rparr>)
                else s1)
      in if p_research prod > 0
         then addResource ''research'' (p_research prod * deltaTime) s2 else s2)"

section \<open>ConstructionSystem\<close>

text \<open>
  A function of the construction system that reads a field of \<open>STRUCTURES[id]\<close> for an
  id the table does not have throws a TypeError. The result is then \<open>Inl\<close> with the
  state the exception leaves behind (what was mutated before the throw stays mutated).
\<close>

datatype js_error = TypeError

datatype reason = unknown_structure | tech_not_unlocked | limit_reached | cannot_afford | queue_full

datatype build_result = Success queue_item | Failure reason

definition isTechUnlocked :: "string \<Rightarrow> world \<Rightarrow> bool" where
  "isTechUnlocked techId s = (techId \<in> set (completedResearch s))"

definition getQueuedCount :: "string \<Rightarrow> world \<Rightarrow> int" where
  "getQueuedCount structureId s =
     int (length (filter (\<lambda>item. qi_structureId item = structureId) (constructionQueue s)))"

definition getMaxQueueSize :: "world \<Rightarrow> int" where
  "getMaxQueueSize s = 10 + \<lfloor>launchCapacity (rs_logistics s)\<rfloor>"

text \<open>\<open>build(structureId)\<close>; \<open>now\<close> is the value of \<open>Date.now()\<close> used in the item id.\<close>

definition build :: "catalog \<Rightarrow> int \<Rightarrow> string \<Rightarrow> world \<Rightarrow> build_result \<times> world" where
  "build cat now structureId s =
     (case map_of (STRUCTURES cat) structureId of
        None \<Rightarrow> (Failure unknown_structure, s)
      | Some structure \<Rightarrow>
          if \<not> isTechUnlocked (st_requiresTech structure) s then (Failure tech_not_unlocked, s)
          else if (case st_limit structure of
                     None \<Rightarrow> False
                   | Some limit \<Rightarrow>
                       geti0 (structures s) structureId + getQueuedCount structureId s \<ge> limit)
          then (Failure limit_reached, s)
          else if \<not> canAfford (st_cost structure) s then (Failure cannot_afford, s)
          else if int (length (constructionQueue s)) \<ge> getMaxQueueSize s then (Failure queue_full, s)
          else (let s1 = snd (spend (st_cost structure) s);
                    queueItem = \<lparr>qi_structureId = structureId, qi_stamp = now,
                      qi_buildTime = st_buildTime structure, qi_progress = 0\<rparr>;
                    s2 = addToQueue queueItem s1
                in (Success queueItem, emit (ConstructionStart structureId) s2)))"

text \<open>
  \<open>completeConstruction(item)\<close>: the queue head is removed and the structure counted
  before \<open>structure.name\<close> is read for the notification.
\<close>

definition completeConstruction :: "catalog \<Rightarrow> queue_item \<Rightarrow> world \<Rightarrow> js_error \<times> world + world" where
  "completeConstruction cat item s =
     (let s1 = removeFromQueue 0 s;
          s2 = addStructure cat (qi_structureId item) s1;
          s3 = emit (ConstructionComplete (qi_structureId item)) s2
      in case map_of (STRUCTURES cat) (qi_structureId item) of
           None \<Rightarrow> Inl (TypeError, s3)
         | Some structure \<Rightarrow> Inr (emit (Notification ''success'' (qi_structureId item)) s3))"

text \<open>
  The \<open>while\<close> loop of \<open>applyAutoConstruction\<close>: an iteration that does not throw
  removes the queue head, so the queue length is the termination measure.
\<close>

lemma constructionQueue_emit [simp]: "constructionQueue (emit e s) = constructionQueue s"
  by (simp add: emit_def)

lemma constructionQueue_addResource [simp]:
  "constructionQueue (addResource k a s) = constructionQueue s"
  by (simp add: addResource_def Let_def)

lemma constructionQueue_grantRewards [simp]:
  "constructionQueue (grantRewards rw s) = constructionQueue s"
  by (induction rw s rule: grantRewards.induct) (simp_all add: set_sandboxMode_def)

lemma constructionQueue_claimMilestone [simp]:
  "constructionQueue (claimMilestone m s) = constructionQueue s"
  by (simp add: claimMilestone_def sm_claimMilestone_def triggerVictory_def
      set_victoryAchieved_def Let_def)

lemma constructionQueue_claimAll [simp]:
  "constructionQueue (foldl (\<lambda>s' m. claimMilestone m s') s ms) = constructionQueue s"
  by (induction ms arbitrary: s) simp_all

lemma constructionQueue_checkMilestones [simp]:
  "constructionQueue (checkMilestones cat s) = constructionQueue s"
  by (simp add: checkMilestones_def)

lemma constructionQueue_setSolarCapture [simp]:
  "constructionQueue (setSolarCapture cat p s) = constructionQueue s"
  by (simp add: setSolarCapture_def Let_def)

lemma constructionQueue_recalculateProduction [simp]:
  "constructionQueue (recalculateProduction cat s) = constructionQueue s"
  by (simp add: recalculateProduction_def Let_def)

lemma constructionQueue_addStructure [simp]:
  "constructionQueue (addStructure cat sid s) = constructionQueue s"
  by (simp add: addStructure_def Let_def)

lemma constructionQueue_completeConstruction:
  "completeConstruction cat item s = Inr s' \<Longrightarrow> constructionQueue s' = tl (constructionQueue s)"
  by (cases "constructionQueue s")
     (auto simp: completeConstruction_def removeFromQueue_def Let_def split: option.splits)

function autoLoop :: "catalog \<Rightarrow> world \<Rightarrow> js_error \<times> world + world" where
  "autoLoop cat s =
     (if autoBuildProgress s \<ge> 1 \<and> length (constructionQueue s) > 0
      then (case completeConstruction cat (hd (constructionQueue s)) s of
              Inl e \<Rightarrow> Inl e
            | Inr s' \<Rightarrow> autoLoop cat (s'\<lparr>autoBuildProgress := autoBuildProgress s' - 1\<rparr>))
      else Inr s)"
  by pat_completeness auto
termination
  by (relation "measure (\<lambda>(cat, s). length (constructionQueue s))")
     (auto dest: constructionQueue_completeConstruction)

declare autoLoop.simps [simp del]

definition applyAutoConstruction :: "catalog \<Rightarrow> rat \<Rightarrow> world \<Rightarrow> js_error \<times> world + world" where
  "applyAutoConstruction cat deltaTime s =
     (if length (constructionQueue s) = 0 then Inr s
      else (let autoConstructionRate = autoConstruction (rs_logistics s)
            in if autoConstructionRate \<le> 0 then Inr s
               else autoLoop cat
                      (s\<lparr>autoBuildProgress :=
                           autoBuildProgress s + (autoConstructionRate / 60) * deltaTime\<rparr>)))"

text \<open>\<open>ConstructionSystem.update\<close>: only the head of the queue accrues progress.\<close>

definition cs_update :: "catalog \<Rightarrow> rat \<Rightarrow> world \<Rightarrow> js_error \<times> world + world" where
  "cs_update cat deltaTime s =
     (case constructionQueue s of
        [] \<Rightarrow> applyAutoConstruction cat deltaTime s
      | item0 # rest \<Rightarrow>
          (let buildSpeed = m_buildSpeed (rs_modifiers s);
               item = item0\<lparr>qi_progress := qi_progress item0 + deltaTime * buildSpeed\<rparr>;
               s1 = emit (ConstructionProgress (qi_structureId item) (qi_progress item) (qi_buildTime item))
                      (s\<lparr>constructionQueue := item # rest\<rparr>)
           in if qi_progress item \<ge> qi_buildTime item
              then (case completeConstruction cat item s1 of
                      Inl e \<Rightarrow> Inl e
                    | Inr s2 \<Rightarrow> applyAutoConstruction cat deltaTime s2)
              else applyAutoConstruction cat deltaTime s1))"

fun refund :: "rat obj \<Rightarrow> rat \<Rightarrow> world \<Rightarrow> world" where
  "refund [] refundMultiplier s = s"
| "refund ((resource, amount) # cost) refundMultiplier s =
     refund cost refundMultiplier
       (addResource resource (of_int \<lfloor>amount * refundMultiplier\<rfloor>) s)"

definition cancel :: "catalog \<Rightarrow> int \<Rightarrow> world \<Rightarrow> js_error \<times> world + bool \<times> world" where
  "cancel cat index s =
     (if index < 0 \<or> index \<ge> int (length (constructionQueue s)) then Inr (False, s)
      else (let item = constructionQueue s ! nat index
            in case map_of (STRUCTURES cat) (qi_structureId item) of
                 None \<Rightarrow> Inl (TypeError, s)
               | Some structure \<Rightarrow>
                   (let refundMultiplier = (if qi_progress item > 0 then 1 / 2 else 1);
                        s1 = refund (st_cost structure) refundMultiplier s;
                        s2 = removeFromQueue (nat index) s1
                    in Inr (True, emit (ConstructionCancel (nat index)) s2))))"

section \<open>IdleAccumulator\<close>

text \<open>
  \<open>calculateOfflineProgress\<close>; \<open>now\<close> is \<open>Date.now()\<close> in milliseconds. The returned
  report is the value left in \<open>offlineProgress\<close>. A \<open>lastSaveAt\<close> of 0 is falsy, like
  \<open>null\<close>.
\<close>

fun applyGains :: "rat obj \<Rightarrow> world \<Rightarrow> world" where
  "applyGains [] s = s"
| "applyGains ((resource, amount) # gs) s =
     applyGains gs (if amount > 0 then addResource resource amount s else s)"

definition calculateOfflineProgress :: "int \<Rightarrow> world \<Rightarrow> world" where
  "calculateOfflineProgress now s =
     (case lastSaveAt s of
        None \<Rightarrow> s\<lparr>offlineProgress := None\<rparr>
      | Some saved \<Rightarrow>
          if saved = 0 then s\<lparr>offlineProgress := None\<rparr>
          else if now - saved < 60000 then s\<lparr>offlineProgress := None\<rparr>
          else (let maxOfflineMs = MAX_OFFLINE_HOURS * 60 * 60 * 1000;
                    offlineMs = min (now - saved) maxOfflineMs;
                    offlineSecs = of_int offlineMs / 1000;
                    effectiveSecs = offlineSecs * OFFLINE_EFFICIENCY;
                    prod = production s;
                    gs = [(''energy'', of_int \<lfloor>p_energy prod * effectiveSecs\<rfloor>),
                          (''materials'', of_int \<lfloor>p_materials prod * effectiveSecs\<rfloor>),
                          (''research'', of_int \<lfloor>p_research prod * effectiveSecs\<rfloor>)];
                    s1 = applyGains gs s;
                    report = \<lparr>offlineSeconds = offlineSecs, effectiveSeconds = effectiveSecs,
                      gains = gs, wasMaxed = (offlineMs \<ge> maxOfflineMs)\<rparr>
                in emit (OfflineProgress report) (s1\<lparr>offlineProgress := Some report\<rparr>)))"

section \<open>ProgressionSystem: research\<close>

definition isResearched :: "string \<Rightarrow> world \<Rightarrow> bool" where
  "isResearched techId s = (techId \<in> set (completedResearch s))"

definition canResearch :: "catalog \<Rightarrow> string \<Rightarrow> world \<Rightarrow> bool" where
  "canResearch cat techId s =
     (case map_of (TECH_TREE cat) techId of
        None \<Rightarrow> False
      | Some tech \<Rightarrow>
          if isResearched techId s then False
          else list_all (\<lambda>prereq. isResearched prereq s) (t_prerequisites tech))"

text \<open>
  \<open>syncStateWithQueue\<close> copies the system's queue and progress map into the state. With
  an empty queue the legacy field \<open>researchProgress\<close> is read under the key
  \<open>undefined\<close>; an empty-string id is falsy for \<open>currentResearch\<close>.
\<close>

definition syncStateWithQueue :: "world \<Rightarrow> world" where
  "syncStateWithQueue s =
     s\<lparr>researchQueue := ps_researchQueue s,
       researchProgressMap := ps_researchProgressMap s,
       currentResearch := (case ps_researchQueue s of
                             [] \<Rightarrow> None
                           | t # _ \<Rightarrow> if t = [] then None else Some t),
       researchProgress := (case ps_researchQueue s of
                              [] \<Rightarrow> get0 (ps_researchProgressMap s) ''undefined''
                            | t # _ \<Rightarrow> get0 (ps_researchProgressMap s) t)\<rparr>"

text \<open>\<open>state.maxResearchSlots || 1\<close>.\<close>

definition maxSlots :: "world \<Rightarrow> nat" where
  "maxSlots s = (if maxResearchSlots s = 0 then 1 else maxResearchSlots s)"

definition startResearch :: "catalog \<Rightarrow> string \<Rightarrow> world \<Rightarrow> bool \<times> world" where
  "startResearch cat techId s =
     (case map_of (TECH_TREE cat) techId of
        None \<Rightarrow> (False, s)
      | Some tech \<Rightarrow>
          if isResearched techId s then (False, s)
          else if techId \<in> set (ps_researchQueue s) then (False, s)
          else if \<not> canResearch cat techId s then (False, s)
          else if length (ps_researchQueue s) \<ge> maxSlots s
          then (False, emit (Notification ''warning'' ''Research Queue Full'') s)
          else (let s1 = s\<lparr>ps_researchQueue := ps_researchQueue s @ [techId],
                          ps_researchProgressMap := AList.update techId 0 (ps_researchProgressMap s)\<rparr>;
                    s2 = syncStateWithQueue s1
                in (True, emit (ResearchStart techId) s2)))"

text \<open>\<open>getAvailableTechs\<close> of techTree.js, in the declaration order of the table.\<close>

definition getAvailableTechs :: "catalog \<Rightarrow> string list \<Rightarrow> tech list" where
  "getAvailableTechs cat researchedTechs =
     filter (\<lambda>tech.
        if t_id tech \<in> set researchedTechs then False
        else if t_unlocked tech then True
        else list_all (\<lambda>prereq. prereq \<in> set researchedTechs) (t_prerequisites tech))
       (map snd (TECH_TREE cat))"

definition tryAutoResearch :: "catalog \<Rightarrow> world \<Rightarrow> world" where
  "tryAutoResearch cat s =
     (if \<not> autoResearch s then s
      else if length (ps_researchQueue s) \<ge> maxSlots s then s
      else (case filter (\<lambda>tech. t_id tech \<notin> set (ps_researchQueue s))
                   (getAvailableTechs cat (completedResearch s)) of
              [] \<Rightarrow> s
            | nextTech # _ \<Rightarrow> snd (startResearch cat (t_id nextTech) s)))"

definition addResearchSlot :: "world \<Rightarrow> world" where
  "addResearchSlot s =
     emit (Notification ''success'' ''Research Capacity Increased!'')
       (s\<lparr>maxResearchSlots := maxSlots s + 1\<rparr>)"

text \<open>
  \<open>StateManager.completeResearch\<close>. The \<open>research:complete\<close> event reaches
  \<open>ResourceSystem.recalculateProduction\<close> and then the subscriber of
  \<open>ProgressionSystem.init\<close>, which runs \<open>checkMilestones\<close> and \<open>tryAutoResearch\<close>.
\<close>

definition onResearchComplete :: "catalog \<Rightarrow> world \<Rightarrow> world" where
  "onResearchComplete cat s = tryAutoResearch cat (checkMilestones cat (recalculateProduction cat s))"

definition sm_completeResearch :: "catalog \<Rightarrow> string \<Rightarrow> world \<Rightarrow> world" where
  "sm_completeResearch cat techId s =
     (if techId \<in> set (completedResearch s) then s
      else (let s1 = s\<lparr>completedResearch := completedResearch s @ [techId],
                      currentResearch := None, researchProgress := 0\<rparr>;
                s2 = s1\<lparr>stats := (stats s1)\<lparr>totalResearchCompleted :=
                        totalResearchCompleted (stats s1) + 1\<rparr>\<rparr>
            in onResearchComplete cat (emit (ResearchCompleteEv techId) s2)))"

text \<open>
  \<open>ProgressionSystem.completeResearch\<close>: the item leaves the queue, the state manager
  marks it completed and dispatches \<open>research:complete\<close>, and only then are the research
  slots of the effect bundle added, one \<open>addResearchSlot\<close> call each.
\<close>

definition completeResearch :: "catalog \<Rightarrow> string \<Rightarrow> world \<Rightarrow> world" where
  "completeResearch cat techId s =
     (case map_of (TECH_TREE cat) techId of
        None \<Rightarrow> s
      | Some tech \<Rightarrow>
          (let s1 = s\<lparr>ps_researchQueue := remove1 techId (ps_researchQueue s),
                      ps_researchProgressMap := AList.delete techId (ps_researchProgressMap s)\<rparr>;
               s2 = sm_completeResearch cat techId s1;
               s3 = syncStateWithQueue s2;
               s4 = (addResearchSlot ^^ ef_researchSlots (t_effects tech)) s3
           in if t_unlocks tech \<noteq> [] then emit (Notification ''success'' techId) s4 else s4))"

text \<open>
  The first loop of \<open>progressAllResearch\<close>: every queued technology of the table gets
  \<open>perItemRate * deltaTime\<close>; those that reach their cost are collected in \<open>completed\<close>.
\<close>

fun accrue :: "catalog \<Rightarrow> rat \<Rightarrow> rat \<Rightarrow> string list \<Rightarrow> string list \<Rightarrow> world \<Rightarrow> string list \<times> world" where
  "accrue cat perItemRate deltaTime [] completed s = (completed, s)"
| "accrue cat perItemRate deltaTime (techId # queue) completed s =
     (case map_of (TECH_TREE cat) techId of
        None \<Rightarrow> accrue cat perItemRate deltaTime queue completed s
      | Some tech \<Rightarrow>
          (let p = get0 (ps_researchProgressMap s) techId + perItemRate * deltaTime;
               s1 = s\<lparr>ps_researchProgressMap := AList.update techId p (ps_researchProgressMap s)\<rparr>;
               cost = t_cost_research tech
           in if p \<ge> cost then accrue cat perItemRate deltaTime queue (completed @ [techId]) s1
              else accrue cat perItemRate deltaTime queue completed
                     (emit (ResearchProgress techId p cost) s1)))"

definition progressAllResearch :: "catalog \<Rightarrow> rat \<Rightarrow> world \<Rightarrow> world" where
  "progressAllResearch cat deltaTime s =
     (if length (ps_researchQueue s) = 0 then s
      else (let totalResearchRate = p_research (production s)
            in if totalResearchRate \<le> 0 then s
               else (let perItemRate = totalResearchRate / of_nat (length (ps_researchQueue s))
                     in case accrue cat perItemRate deltaTime (ps_researchQueue s) [] s of
                          (completed, s1) \<Rightarrow>
                            syncStateWithQueue
                              (foldl (\<lambda>s' techId. completeResearch cat techId s') s1 completed))))"

definition cancelResearch :: "string \<Rightarrow> world \<Rightarrow> bool \<times> world" where
  "cancelResearch techId s =
     (if techId \<notin> set (ps_researchQueue s) then (False, s)
      else (let s1 = s\<lparr>ps_researchQueue := remove1 techId (ps_researchQueue s),
                      ps_researchProgressMap := AList.delete techId (ps_researchProgressMap s)\<rparr>
            in (True, emit (ResearchCancel techId) (syncStateWithQueue s1))))"

definition setAutoResearch :: "catalog \<Rightarrow> bool \<Rightarrow> world \<Rightarrow> world" where
  "setAutoResearch cat enabled s =
     (let s1 = emit (SettingChange ''autoResearch'') (s\<lparr>autoResearch := enabled\<rparr>)
      in if enabled then tryAutoResearch cat s1 else s1)"

definition ps_update :: "catalog \<Rightarrow> rat \<Rightarrow> world \<Rightarrow> world" where
  "ps_update cat deltaTime s =
     (let s1 = (if length (ps_researchQueue s) > 0 then progressAllResearch cat deltaTime s else s)
      in tryAutoResearch cat (checkEraProgression s1))"

section \<open>The game loop and the inbound commands\<close>

text \<open>
  \<open>Game.update\<close> runs the three systems in order; a TypeError thrown by the
  construction system leaves the rest of the frame undone.
\<close>

definition tick :: "catalog \<Rightarrow> rat \<Rightarrow> world \<Rightarrow> js_error \<times> world + world" where
  "tick cat deltaTime s =
     (case cs_update cat deltaTime (rs_update deltaTime s) of
        Inl e \<Rightarrow> Inl e
      | Inr s' \<Rightarrow> Inr (ps_update cat deltaTime s'))"

datatype command =
    Tick rat
  | Build int string
  | Cancel int
  | StartResearch string
  | CancelResearch string
  | SetAutoResearch bool
  | OfflineReconcile int

text \<open>The state a command leaves behind, whether it returns or throws.\<close>

definition after :: "js_error \<times> world + world \<Rightarrow> world" where
  "after r = (case r of Inl (e, s) \<Rightarrow> s | Inr s \<Rightarrow> s)"

fun exec :: "catalog \<Rightarrow> command \<Rightarrow> world \<Rightarrow> world" where
  "exec cat (Tick deltaTime) s = after (tick cat deltaTime s)"
| "exec cat (Build now structureId) s = snd (build cat now structureId s)"
| "exec cat (Cancel index) s =
     (case cancel cat index s of Inl (e, s') \<Rightarrow> s' | Inr (b, s') \<Rightarrow> s')"
| "exec cat (StartResearch techId) s = snd (startResearch cat techId s)"
| "exec cat (CancelResearch techId) s = snd (cancelResearch techId s)"
| "exec cat (SetAutoResearch enabled) s = setAutoResearch cat enabled s"
| "exec cat (OfflineReconcile now) s = calculateOfflineProgress now s"

definition run :: "catalog \<Rightarrow> command list \<Rightarrow> world \<Rightarrow> world" where
  "run cat cmds s = foldl (\<lambda>s' cmd. exec cat cmd s') s cmds"

section \<open>Concrete states used in the examples\<close>

text \<open>The default state with enough materials for a launch pad.\<close>

definition rich :: world where
  "rich = getDefaultState\<lparr>resources := [(''energy'', 100), (''materials'', 150), (''research'', 0)]\<rparr>"

text \<open>A queue item is known when the structure table has its type.\<close>

definition known :: "catalog \<Rightarrow> queue_item \<Rightarrow> bool" where
  "known cat item = (map_of (STRUCTURES cat) (qi_structureId item) \<noteq> None)"

text \<open>
  The number of loop iterations of \<open>applyAutoConstruction\<close> for a counter value and a
  queue: one per whole unit of the counter, at most one per queued item.
\<close>

definition completions :: "rat \<Rightarrow> queue_item list \<Rightarrow> nat" where
  "completions counter queue = min (nat \<lfloor>counter\<rfloor>) (length queue)"

definition drained :: "world \<Rightarrow> nat" where
  "drained s = completions (autoBuildProgress s) (constructionQueue s)"

text \<open>
  The progress step of \<open>ConstructionSystem.update\<close>: the queue head with
  \<open>deltaTime * buildSpeed\<close> added to its progress, and the state once the head has been
  updated in place and \<open>construction:progress\<close> emitted (before the completion test).
\<close>

definition progressedHead :: "rat \<Rightarrow> world \<Rightarrow> queue_item \<Rightarrow> queue_item" where
  "progressedHead deltaTime s item0 =
     item0\<lparr>qi_progress := qi_progress item0 + deltaTime * m_buildSpeed (rs_modifiers s)\<rparr>"

definition afterProgress :: "rat \<Rightarrow> world \<Rightarrow> world" where
  "afterProgress deltaTime s =
     (case constructionQueue s of
        [] \<Rightarrow> s
      | item0 # rest \<Rightarrow>
          emit (ConstructionProgress (qi_structureId item0)
                  (qi_progress (progressedHead deltaTime s item0)) (qi_buildTime item0))
            (s\<lparr>constructionQueue := progressedHead deltaTime s item0 # rest\<rparr>))"

text \<open>
  One replicator hub (auto-construction rate 1 per minute) and an empty queue; ten hubs
  (rate 10) and three solar collectors queued.
\<close>

definition idle_hub :: world where
  "idle_hub = getDefaultState\<lparr>structures := [(''replicator_hub'', 1)],
     production := \<lparr>p_energy = 1, p_materials = 101 / 2, p_research = 1 / 5\<rparr>,
     rs_logistics := (rs_logistics getDefaultState)\<lparr>autoConstruction := 1\<rparr>\<rparr>"

definition collector :: queue_item where
  "collector = \<lparr>qi_structureId = ''solar_collector'', qi_stamp = 0, qi_buildTime = 5, qi_progress = 0\<rparr>"

definition busy_hubs :: world where
  "busy_hubs = getDefaultState\<lparr>structures := [(''replicator_hub'', 10)],
     constructionQueue := [collector, collector, collector],
     rs_logistics := (rs_logistics getDefaultState)\<lparr>autoConstruction := 10\<rparr>\<rparr>"

text \<open>
  \<open>production[kind]\<close> for the three resource kinds, and the quantities that
  \<open>calculateOfflineProgress\<close> computes from \<open>now\<close> and \<open>lastSaveAt\<close>: the clamped gap in
  milliseconds, the effective seconds, the gains object and the report.
\<close>

definition rate_of :: "production \<Rightarrow> string \<Rightarrow> rat" where
  "rate_of p k =
     (if k = ''energy'' then p_energy p
      else if k = ''materials'' then p_materials p
      else if k = ''research'' then p_research p else 0)"

definition offlineMsOf :: "int \<Rightarrow> int \<Rightarrow> int" where
  "offlineMsOf now saved = min (now - saved) (MAX_OFFLINE_HOURS * 60 * 60 * 1000)"

definition effectiveOf :: "int \<Rightarrow> int \<Rightarrow> rat" where
  "effectiveOf now saved = of_int (offlineMsOf now saved) / 1000 * OFFLINE_EFFICIENCY"

definition gainsOf :: "production \<Rightarrow> rat \<Rightarrow> rat obj" where
  "gainsOf p effective =
     map (\<lambda>k. (k, of_int \<lfloor>rate_of p k * effective\<rfloor>)) [''energy'', ''materials'', ''research'']"

definition reportOf :: "int \<Rightarrow> int \<Rightarrow> world \<Rightarrow> offline_report" where
  "reportOf now saved s =
     \<lparr>offlineSeconds = of_int (offlineMsOf now saved) / 1000,
      effectiveSeconds = effectiveOf now saved,
      gains = gainsOf (production s) (effectiveOf now saved),
      wasMaxed = (now - saved \<ge> MAX_OFFLINE_HOURS * 60 * 60 * 1000)\<rparr>"

text \<open>
  A launch pad under construction (3 seconds in) in a session saved at millisecond 1000;
  the default state saved at millisecond 1000.
\<close>

definition pad_started :: queue_item where
  "pad_started = \<lparr>qi_structureId = ''launch_pad'', qi_stamp = 0, qi_buildTime = 10, qi_progress = 3\<rparr>"

definition away_building :: world where
  "away_building = getDefaultState\<lparr>lastSaveAt := Some 1000, constructionQueue := [pad_started]\<rparr>"

definition away :: world where
  "away = getDefaultState\<lparr>lastSaveAt := Some 1000\<rparr>"

text \<open>The eras whose threshold a solar-capture value meets, in the order of \<open>CONFIG.ERAS\<close>.\<close>

definition qualifyingEras :: "rat \<Rightarrow> int list" where
  "qualifyingEras capture = map fst (filter (\<lambda>(era, threshold). capture \<ge> threshold) ERAS)"

text \<open>The default state (era 1) with 5% solar capture, which meets the thresholds of eras 1 to 3.\<close>

definition crossing :: world where
  "crossing = getDefaultState\<lparr>solarCapture := 1 / 20\<rparr>"

section \<open>Milestones on the event trace: notions and examples\<close>

text \<open>
  The ids of the \<open>milestone:claimed\<close> events of a trace, in order, and the number of its
  \<open>game:victory\<close> events. \<open>victoryId\<close> tells whether the catalog flags a milestone id as
  the victory condition. \<open>sinv\<close> is the invariant that ties the claimed set of the state
  to the trace; \<open>neutral\<close> events are those that are neither.
\<close>

fun claimedEvents :: "event list \<Rightarrow> string list" where
  "claimedEvents [] = []"
| "claimedEvents (MilestoneClaimed milestoneId # es) = milestoneId # claimedEvents es"
| "claimedEvents (e # es) = claimedEvents es"

definition victories :: "event list \<Rightarrow> nat" where
  "victories es = length (filter (\<lambda>e. e = GameVictory) es)"

definition victoryId :: "catalog \<Rightarrow> string \<Rightarrow> bool" where
  "victoryId cat milestoneId =
     list_ex (\<lambda>m. ms_id m = milestoneId \<and> ms_isVictory m) (map snd (MILESTONES cat))"

definition mview :: "world \<Rightarrow> string list \<times> string list \<times> nat" where
  "mview s = (claimedMilestones s, claimedEvents (emitted s), victories (emitted s))"

definition sinv :: "catalog \<Rightarrow> string list \<Rightarrow> string list \<times> string list \<times> nat \<Rightarrow> bool" where
  "sinv cat claimed0 v =
     (case v of (claimed, evs, n) \<Rightarrow>
        distinct (map (\<lambda>entry. ms_id (snd entry)) (MILESTONES cat))
        \<and> distinct claimed \<and> claimed = claimed0 @ evs
        \<and> n = length (filter (victoryId cat) evs))"

fun neutral :: "event \<Rightarrow> bool" where
  "neutral (MilestoneClaimed milestoneId) = False"
| "neutral GameVictory = False"
| "neutral e = True"

text \<open>
  A returning player one dyson satellite short of full capture: the last satellite is
  finished in the queue, and every milestone below the last two is already claimed.
\<close>

definition satellite :: queue_item where
  "satellite = \<lparr>qi_structureId = ''dyson_satellite'', qi_stamp = 0, qi_buildTime = 2, qi_progress = 2\<rparr>"

definition near_victory :: world where
  "near_victory = getDefaultState\<lparr>structures := [(''dyson_satellite'', 9999)],
     constructionQueue := [satellite],
     completedResearch := [''basic_rocketry'', ''dyson_swarm_basics''],
     currentEra := 4,
     solarCapture := 9999 / 10000,
     claimedMilestones := [''capture_0001'', ''capture_001'', ''capture_01'', ''capture_05'',
       ''capture_10'', ''capture_25'', ''capture_50'', ''capture_75'', ''structures_10'',
       ''structures_50'', ''structures_100'', ''structures_500'', ''structures_1000'',
       ''dyson_100'', ''dyson_1000'', ''dyson_5000'', ''era_2'', ''era_3'', ''era_4'']\<rparr>"

section \<open>Research progress: notions and examples\<close>

text \<open>
  A technology id is in the table; its research cost; it is finished when it is completed
  and no longer in progress. \<open>share\<close> is the \<open>perItemRate * deltaTime\<close> of
  \<open>progressAllResearch\<close>: the research production of the state divided by the number of
  queued items, times the length of the tick. \<open>advanced\<close> says what a tick from \<open>s\<close> to
  \<open>s'\<close> did for a technology that was in progress: below its cost it is still in progress
  with its share added, otherwise it is finished.
\<close>

definition inTable :: "catalog \<Rightarrow> string \<Rightarrow> bool" where
  "inTable cat techId = (map_of (TECH_TREE cat) techId \<noteq> None)"

definition costOf :: "catalog \<Rightarrow> string \<Rightarrow> rat" where
  "costOf cat techId =
     (case map_of (TECH_TREE cat) techId of None \<Rightarrow> 0 | Some tech \<Rightarrow> t_cost_research tech)"

definition finished :: "world \<Rightarrow> string \<Rightarrow> bool" where
  "finished s techId = (techId \<in> set (completedResearch s) \<and> techId \<notin> set (ps_researchQueue s))"

definition share :: "world \<Rightarrow> rat \<Rightarrow> rat" where
  "share s deltaTime =
     p_research (production s) / of_nat (length (ps_researchQueue s)) * deltaTime"

definition advanced :: "catalog \<Rightarrow> rat \<Rightarrow> world \<Rightarrow> world \<Rightarrow> string \<Rightarrow> bool" where
  "advanced cat deltaTime s s' techId =
     (if get0 (ps_researchProgressMap s) techId + share s deltaTime < costOf cat techId
      then techId \<in> set (ps_researchQueue s')
         \<and> get0 (ps_researchProgressMap s') techId
             = get0 (ps_researchProgressMap s) techId + share s deltaTime
      else finished s' techId)"

text \<open>
  The scenario of two technologies of costs 20 and 30 researched together at 10 research
  per second: one institute on top of the base rate, two research slots, both
  technologies started.
\<close>

definition lab :: catalog where
  "lab = \<lparr>STRUCTURES =
      [(''institute'', \<lparr>st_cost = [(''materials'', 100)], st_buildTime = 10,
         st_production = no_production\<lparr>up_research := 49 / 5\<rparr>,
         st_limit = None, st_requiresTech = ''basic_rocketry''\<rparr>)],
     TECH_TREE =
      [(''alpha'', \<lparr>t_id = ''alpha'', t_era = 1, t_cost_research = 20, t_unlocked = False,
         t_unlocks = [], t_prerequisites = [], t_effects = no_effects\<rparr>),
       (''beta'', \<lparr>t_id = ''beta'', t_era = 1, t_cost_research = 30, t_unlocked = False,
         t_unlocks = [], t_prerequisites = [], t_effects = no_effects\<rparr>)],
     MILESTONES = []\<rparr>"

definition two_slots :: world where
  "two_slots = getDefaultState\<lparr>structures := [(''institute'', 1)],
     production := \<lparr>p_energy = 1, p_materials = 1 / 2, p_research = 10\<rparr>,
     maxResearchSlots := 2\<rparr>"

definition two_items :: world where
  "two_items = run lab [StartResearch ''alpha'', StartResearch ''beta''] two_slots"

section \<open>Research slots: notions and examples\<close>







section \<open>Frame lemmas: what each operation leaves untouched\<close>

lemma emit_frame [simp]:
  "currentEra (emit e s) = currentEra s"
  "maxResearchSlots (emit e s) = maxResearchSlots s"
  "ps_researchQueue (emit e s) = ps_researchQueue s"
  "ps_researchProgressMap (emit e s) = ps_researchProgressMap s"
  "autoResearch (emit e s) = autoResearch s"
  "completedResearch (emit e s) = completedResearch s"
  "structures (emit e s) = structures s"
  "autoBuildProgress (emit e s) = autoBuildProgress s"
  "solarCapture (emit e s) = solarCapture s"
  "production (emit e s) = production s"
  "rs_logistics (emit e s) = rs_logistics s"
  "rs_modifiers (emit e s) = rs_modifiers s"
  "lastSaveAt (emit e s) = lastSaveAt s"
  "researchQueue (emit e s) = researchQueue s"
  "researchProgressMap (emit e s) = researchProgressMap s"
  "offlineProgress (emit e s) = offlineProgress s"
  "resources (emit e s) = resources s"
  "flags (emit e s) = flags s"
  "claimedMilestones (emit e s) = claimedMilestones s"
  "stats (emit e s) = stats s"
  by (simp_all add: emit_def)

lemma addResource_frame [simp]:
  "currentEra (addResource k a s) = currentEra s"
  "maxResearchSlots (addResource k a s) = maxResearchSlots s"
  "ps_researchQueue (addResource k a s) = ps_researchQueue s"
  "ps_researchProgressMap (addResource k a s) = ps_researchProgressMap s"
  "autoResearch (addResource k a s) = autoResearch s"
  "completedResearch (addResource k a s) = completedResearch s"
  "structures (addResource k a s) = structures s"
  "autoBuildProgress (addResource k a s) = autoBuildProgress s"
  "solarCapture (addResource k a s) = solarCapture s"
  "production (addResource k a s) = production s"
  "rs_logistics (addResource k a s) = rs_logistics s"
  "rs_modifiers (addResource k a s) = rs_modifiers s"
  "lastSaveAt (addResource k a s) = lastSaveAt s"
  "researchQueue (addResource k a s) = researchQueue s"
  "researchProgressMap (addResource k a s) = researchProgressMap s"
  "offlineProgress (addResource k a s) = offlineProgress s"
  "flags (addResource k a s) = flags s"
  "claimedMilestones (addResource k a s) = claimedMilestones s"
  "stats (addResource k a s) = stats s"
  by (simp_all add: addResource_def Let_def)

lemma set_sandboxMode_frame [simp]:
  "currentEra (set_sandboxMode s) = currentEra s"
  "maxResearchSlots (set_sandboxMode s) = maxResearchSlots s"
  "ps_researchQueue (set_sandboxMode s) = ps_researchQueue s"
  "ps_researchProgressMap (set_sandboxMode s) = ps_researchProgressMap s"
  "autoResearch (set_sandboxMode s) = autoResearch s"
  "completedResearch (set_sandboxMode s) = completedResearch s"
  "structures (set_sandboxMode s) = structures s"
  "autoBuildProgress (set_sandboxMode s) = autoBuildProgress s"
  "solarCapture (set_sandboxMode s) = solarCapture s"
  "production (set_sandboxMode s) = production s"
  "rs_logistics (set_sandboxMode s) = rs_logistics s"
  "rs_modifiers (set_sandboxMode s) = rs_modifiers s"
  "lastSaveAt (set_sandboxMode s) = lastSaveAt s"
  "researchQueue (set_sandboxMode s) = researchQueue s"
  "researchProgressMap (set_sandboxMode s) = researchProgressMap s"
  "offlineProgress (set_sandboxMode s) = offlineProgress s"
  "resources (set_sandboxMode s) = resources s"
  "claimedMilestones (set_sandboxMode s) = claimedMilestones s"
  "stats (set_sandboxMode s) = stats s"
  by (simp_all add: set_sandboxMode_def)

lemma triggerVictory_frame [simp]:
  "currentEra (triggerVictory s) = currentEra s"
  "maxResearchSlots (triggerVictory s) = maxResearchSlots s"
  "ps_researchQueue (triggerVictory s) = ps_researchQueue s"
  "ps_researchProgressMap (triggerVictory s) = ps_researchProgressMap s"
  "autoResearch (triggerVictory s) = autoResearch s"
  "completedResearch (triggerVictory s) = completedResearch s"
  "structures (triggerVictory s) = structures s"
  "autoBuildProgress (triggerVictory s) = autoBuildProgress s"
  "solarCapture (triggerVictory s) = solarCapture s"
  "production (triggerVictory s) = production s"
  "rs_logistics (triggerVictory s) = rs_logistics s"
  "rs_modifiers (triggerVictory s) = rs_modifiers s"
  "lastSaveAt (triggerVictory s) = lastSaveAt s"
  "researchQueue (triggerVictory s) = researchQueue s"
  "researchProgressMap (triggerVictory s) = researchProgressMap s"
  "offlineProgress (triggerVictory s) = offlineProgress s"
  "resources (triggerVictory s) = resources s"
  "claimedMilestones (triggerVictory s) = claimedMilestones s"
  "stats (triggerVictory s) = stats s"
  by (simp_all add: triggerVictory_def set_victoryAchieved_def)

lemma grantRewards_frame [simp]:
  "currentEra (grantRewards rw s) = currentEra s"
  "maxResearchSlots (grantRewards rw s) = maxResearchSlots s"
  "ps_researchQueue (grantRewards rw s) = ps_researchQueue s"
  "ps_researchProgressMap (grantRewards rw s) = ps_researchProgressMap s"
  "autoResearch (grantRewards rw s) = autoResearch s"
  "completedResearch (grantRewards rw s) = completedResearch s"
  "structures (grantRewards rw s) = structures s"
  "autoBuildProgress (grantRewards rw s) = autoBuildProgress s"
  "solarCapture (grantRewards rw s) = solarCapture s"
  "production (grantRewards rw s) = production s"
  "rs_logistics (grantRewards rw s) = rs_logistics s"
  "rs_modifiers (grantRewards rw s) = rs_modifiers s"
  "lastSaveAt (grantRewards rw s) = lastSaveAt s"
  "researchQueue (grantRewards rw s) = researchQueue s"
  "researchProgressMap (grantRewards rw s) = researchProgressMap s"
  "offlineProgress (grantRewards rw s) = offlineProgress s"
  "claimedMilestones (grantRewards rw s) = claimedMilestones s"
  "stats (grantRewards rw s) = stats s"
  by (induction rw s rule: grantRewards.induct) simp_all

lemma claimMilestone_frame [simp]:
  "currentEra (claimMilestone m s) = currentEra s"
  "maxResearchSlots (claimMilestone m s) = maxResearchSlots s"
  "ps_researchQueue (claimMilestone m s) = ps_researchQueue s"
  "ps_researchProgressMap (claimMilestone m s) = ps_researchProgressMap s"
  "autoResearch (claimMilestone m s) = autoResearch s"
  "completedResearch (claimMilestone m s) = completedResearch s"
  "structures (claimMilestone m s) = structures s"
  "autoBuildProgress (claimMilestone m s) = autoBuildProgress s"
  "solarCapture (claimMilestone m s) = solarCapture s"
  "production (claimMilestone m s) = production s"
  "rs_logistics (claimMilestone m s) = rs_logistics s"
  "rs_modifiers (claimMilestone m s) = rs_modifiers s"
  "lastSaveAt (claimMilestone m s) = lastSaveAt s"
  "researchQueue (claimMilestone m s) = researchQueue s"
  "researchProgressMap (claimMilestone m s) = researchProgressMap s"
  "offlineProgress (claimMilestone m s) = offlineProgress s"
  "stats (claimMilestone m s) = stats s"
  by (simp_all add: claimMilestone_def sm_claimMilestone_def Let_def)

lemma claimAll_frame [simp]:
  "currentEra (foldl (\<lambda>s' m. claimMilestone m s') s ms) = currentEra s"
  "maxResearchSlots (foldl (\<lambda>s' m. claimMilestone m s') s ms) = maxResearchSlots s"
  "ps_researchQueue (foldl (\<lambda>s' m. claimMilestone m s') s ms) = ps_researchQueue s"
  "ps_researchProgressMap (foldl (\<lambda>s' m. claimMilestone m s') s ms) = ps_researchProgressMap s"
  "autoResearch (foldl (\<lambda>s' m. claimMilestone m s') s ms) = autoResearch s"
  "completedResearch (foldl (\<lambda>s' m. claimMilestone m s') s ms) = completedResearch s"
  "structures (foldl (\<lambda>s' m. claimMilestone m s') s ms) = structures s"
  "autoBuildProgress (foldl (\<lambda>s' m. claimMilestone m s') s ms) = autoBuildProgress s"
  "solarCapture (foldl (\<lambda>s' m. claimMilestone m s') s ms) = solarCapture s"
  "production (foldl (\<lambda>s' m. claimMilestone m s') s ms) = production s"
  "rs_logistics (foldl (\<lambda>s' m. claimMilestone m s') s ms) = rs_logistics s"
  "rs_modifiers (foldl (\<lambda>s' m. claimMilestone m s') s ms) = rs_modifiers s"
  "lastSaveAt (foldl (\<lambda>s' m. claimMilestone m s') s ms) = lastSaveAt s"
  "researchQueue (foldl (\<lambda>s' m. claimMilestone m s') s ms) = researchQueue s"
  "researchProgressMap (foldl (\<lambda>s' m. claimMilestone m s') s ms) = researchProgressMap s"
  "offlineProgress (foldl (\<lambda>s' m. claimMilestone m s') s ms) = offlineProgress s"
  "stats (foldl (\<lambda>s' m. claimMilestone m s') s ms) = stats s"
  by (induction ms arbitrary: s) simp_all

lemma checkMilestones_frame [simp]:
  "currentEra (checkMilestones cat s) = currentEra s"
  "maxResearchSlots (checkMilestones cat s) = maxResearchSlots s"
  "ps_researchQueue (checkMilestones cat s) = ps_researchQueue s"
  "ps_researchProgressMap (checkMilestones cat s) = ps_researchProgressMap s"
  "autoResearch (checkMilestones cat s) = autoResearch s"
  "completedResearch (checkMilestones cat s) = completedResearch s"
  "structures (checkMilestones cat s) = structures s"
  "autoBuildProgress (checkMilestones cat s) = autoBuildProgress s"
  "solarCapture (checkMilestones cat s) = solarCapture s"
  "production (checkMilestones cat s) = production s"
  "rs_logistics (checkMilestones cat s) = rs_logistics s"
  "rs_modifiers (checkMilestones cat s) = rs_modifiers s"
  "lastSaveAt (checkMilestones cat s) = lastSaveAt s"
  "researchQueue (checkMilestones cat s) = researchQueue s"
  "researchProgressMap (checkMilestones cat s) = researchProgressMap s"
  "offlineProgress (checkMilestones cat s) = offlineProgress s"
  "stats (checkMilestones cat s) = stats s"
  by (simp_all add: checkMilestones_def)

lemma setSolarCapture_frame [simp]:
  "currentEra (setSolarCapture cat p s) = currentEra s"
  "maxResearchSlots (setSolarCapture cat p s) = maxResearchSlots s"
  "ps_researchQueue (setSolarCapture cat p s) = ps_researchQueue s"
  "ps_researchProgressMap (setSolarCapture cat p s) = ps_researchProgressMap s"
  "autoResearch (setSolarCapture cat p s) = autoResearch s"
  "completedResearch (setSolarCapture cat p s) = completedResearch s"
  "structures (setSolarCapture cat p s) = structures s"
  "autoBuildProgress (setSolarCapture cat p s) = autoBuildProgress s"
  "production (setSolarCapture cat p s) = production s"
  "rs_logistics (setSolarCapture cat p s) = rs_logistics s"
  "rs_modifiers (setSolarCapture cat p s) = rs_modifiers s"
  "lastSaveAt (setSolarCapture cat p s) = lastSaveAt s"
  "researchQueue (setSolarCapture cat p s) = researchQueue s"
  "researchProgressMap (setSolarCapture cat p s) = researchProgressMap s"
  "offlineProgress (setSolarCapture cat p s) = offlineProgress s"
  "stats (setSolarCapture cat p s) = stats s"
  by (simp_all add: setSolarCapture_def Let_def)

lemma recalculateProduction_frame [simp]:
  "currentEra (recalculateProduction cat s) = currentEra s"
  "maxResearchSlots (recalculateProduction cat s) = maxResearchSlots s"
  "ps_researchQueue (recalculateProduction cat s) = ps_researchQueue s"
  "ps_researchProgressMap (recalculateProduction cat s) = ps_researchProgressMap s"
  "autoResearch (recalculateProduction cat s) = autoResearch s"
  "completedResearch (recalculateProduction cat s) = completedResearch s"
  "structures (recalculateProduction cat s) = structures s"
  "autoBuildProgress (recalculateProduction cat s) = autoBuildProgress s"
  "lastSaveAt (recalculateProduction cat s) = lastSaveAt s"
  "researchQueue (recalculateProduction cat s) = researchQueue s"
  "researchProgressMap (recalculateProduction cat s) = researchProgressMap s"
  "offlineProgress (recalculateProduction cat s) = offlineProgress s"
  "stats (recalculateProduction cat s) = stats s"
  by (simp_all add: recalculateProduction_def Let_def)

lemma addStructure_frame [simp]:
  "currentEra (addStructure cat sid s) = currentEra s"
  "maxResearchSlots (addStructure cat sid s) = maxResearchSlots s"
  "ps_researchQueue (addStructure cat sid s) = ps_researchQueue s"
  "ps_researchProgressMap (addStructure cat sid s) = ps_researchProgressMap s"
  "autoResearch (addStructure cat sid s) = autoResearch s"
  "completedResearch (addStructure cat sid s) = completedResearch s"
  "autoBuildProgress (addStructure cat sid s) = autoBuildProgress s"
  "lastSaveAt (addStructure cat sid s) = lastSaveAt s"
  "researchQueue (addStructure cat sid s) = researchQueue s"
  "researchProgressMap (addStructure cat sid s) = researchProgressMap s"
  "offlineProgress (addStructure cat sid s) = offlineProgress s"
  by (simp_all add: addStructure_def Let_def)

lemma after_simps [simp]: "after (Inr s) = s" "after (Inl (e, s)) = s"
  by (simp_all add: after_def)

lemma pairD: "p = (a, b) \<Longrightarrow> a = fst p \<and> b = snd p"
  by simp

lemma spendResource_frame [simp]:
  "lastSaveAt (snd (spendResource k a s)) = lastSaveAt s"
  "production (snd (spendResource k a s)) = production s"
  "structures (snd (spendResource k a s)) = structures s"
  "constructionQueue (snd (spendResource k a s)) = constructionQueue s"
  "completedResearch (snd (spendResource k a s)) = completedResearch s"
  "researchQueue (snd (spendResource k a s)) = researchQueue s"
  "researchProgressMap (snd (spendResource k a s)) = researchProgressMap s"
  "maxResearchSlots (snd (spendResource k a s)) = maxResearchSlots s"
  "autoResearch (snd (spendResource k a s)) = autoResearch s"
  "currentEra (snd (spendResource k a s)) = currentEra s"
  "solarCapture (snd (spendResource k a s)) = solarCapture s"
  "claimedMilestones (snd (spendResource k a s)) = claimedMilestones s"
  "stats (snd (spendResource k a s)) = stats s"
  "flags (snd (spendResource k a s)) = flags s"
  "rs_modifiers (snd (spendResource k a s)) = rs_modifiers s"
  "rs_logistics (snd (spendResource k a s)) = rs_logistics s"
  "autoBuildProgress (snd (spendResource k a s)) = autoBuildProgress s"
  "ps_researchQueue (snd (spendResource k a s)) = ps_researchQueue s"
  "ps_researchProgressMap (snd (spendResource k a s)) = ps_researchProgressMap s"
  "offlineProgress (snd (spendResource k a s)) = offlineProgress s"
  by (simp_all add: spendResource_def Let_def)

lemma spend_frame [simp]:
  "lastSaveAt (snd (spend costs s)) = lastSaveAt s"
  "production (snd (spend costs s)) = production s"
  "structures (snd (spend costs s)) = structures s"
  "constructionQueue (snd (spend costs s)) = constructionQueue s"
  "completedResearch (snd (spend costs s)) = completedResearch s"
  "researchQueue (snd (spend costs s)) = researchQueue s"
  "researchProgressMap (snd (spend costs s)) = researchProgressMap s"
  "maxResearchSlots (snd (spend costs s)) = maxResearchSlots s"
  "autoResearch (snd (spend costs s)) = autoResearch s"
  "currentEra (snd (spend costs s)) = currentEra s"
  "solarCapture (snd (spend costs s)) = solarCapture s"
  "claimedMilestones (snd (spend costs s)) = claimedMilestones s"
  "stats (snd (spend costs s)) = stats s"
  "flags (snd (spend costs s)) = flags s"
  "rs_modifiers (snd (spend costs s)) = rs_modifiers s"
  "rs_logistics (snd (spend costs s)) = rs_logistics s"
  "autoBuildProgress (snd (spend costs s)) = autoBuildProgress s"
  "ps_researchQueue (snd (spend costs s)) = ps_researchQueue s"
  "ps_researchProgressMap (snd (spend costs s)) = ps_researchProgressMap s"
  "offlineProgress (snd (spend costs s)) = offlineProgress s"
  by (induction costs s rule: spend.induct) (auto split: prod.splits bool.splits dest!: pairD)

lemma addToQueue_frame [simp]:
  "lastSaveAt (addToQueue item s) = lastSaveAt s"
  "resources (addToQueue item s) = resources s"
  "production (addToQueue item s) = production s"
  "structures (addToQueue item s) = structures s"
  "completedResearch (addToQueue item s) = completedResearch s"
  "researchQueue (addToQueue item s) = researchQueue s"
  "researchProgressMap (addToQueue item s) = researchProgressMap s"
  "maxResearchSlots (addToQueue item s) = maxResearchSlots s"
  "autoResearch (addToQueue item s) = autoResearch s"
  "currentEra (addToQueue item s) = currentEra s"
  "solarCapture (addToQueue item s) = solarCapture s"
  "claimedMilestones (addToQueue item s) = claimedMilestones s"
  "stats (addToQueue item s) = stats s"
  "flags (addToQueue item s) = flags s"
  "rs_modifiers (addToQueue item s) = rs_modifiers s"
  "rs_logistics (addToQueue item s) = rs_logistics s"
  "autoBuildProgress (addToQueue item s) = autoBuildProgress s"
  "ps_researchQueue (addToQueue item s) = ps_researchQueue s"
  "ps_researchProgressMap (addToQueue item s) = ps_researchProgressMap s"
  "offlineProgress (addToQueue item s) = offlineProgress s"
  by (simp_all add: addToQueue_def)

lemma removeFromQueue_frame [simp]:
  "lastSaveAt (removeFromQueue i s) = lastSaveAt s"
  "resources (removeFromQueue i s) = resources s"
  "production (removeFromQueue i s) = production s"
  "structures (removeFromQueue i s) = structures s"
  "completedResearch (removeFromQueue i s) = completedResearch s"
  "researchQueue (removeFromQueue i s) = researchQueue s"
  "researchProgressMap (removeFromQueue i s) = researchProgressMap s"
  "maxResearchSlots (removeFromQueue i s) = maxResearchSlots s"
  "autoResearch (removeFromQueue i s) = autoResearch s"
  "currentEra (removeFromQueue i s) = currentEra s"
  "solarCapture (removeFromQueue i s) = solarCapture s"
  "claimedMilestones (removeFromQueue i s) = claimedMilestones s"
  "stats (removeFromQueue i s) = stats s"
  "flags (removeFromQueue i s) = flags s"
  "rs_modifiers (removeFromQueue i s) = rs_modifiers s"
  "rs_logistics (removeFromQueue i s) = rs_logistics s"
  "autoBuildProgress (removeFromQueue i s) = autoBuildProgress s"
  "ps_researchQueue (removeFromQueue i s) = ps_researchQueue s"
  "ps_researchProgressMap (removeFromQueue i s) = ps_researchProgressMap s"
  "offlineProgress (removeFromQueue i s) = offlineProgress s"
  by (simp_all add: removeFromQueue_def)

lemma build_frame [simp]:
  "lastSaveAt (snd (build cat now sid s)) = lastSaveAt s"
  "production (snd (build cat now sid s)) = production s"
  "structures (snd (build cat now sid s)) = structures s"
  "completedResearch (snd (build cat now sid s)) = completedResearch s"
  "researchQueue (snd (build cat now sid s)) = researchQueue s"
  "researchProgressMap (snd (build cat now sid s)) = researchProgressMap s"
  "maxResearchSlots (snd (build cat now sid s)) = maxResearchSlots s"
  "autoResearch (snd (build cat now sid s)) = autoResearch s"
  "currentEra (snd (build cat now sid s)) = currentEra s"
  "solarCapture (snd (build cat now sid s)) = solarCapture s"
  "claimedMilestones (snd (build cat now sid s)) = claimedMilestones s"
  "stats (snd (build cat now sid s)) = stats s"
  "flags (snd (build cat now sid s)) = flags s"
  "rs_modifiers (snd (build cat now sid s)) = rs_modifiers s"
  "rs_logistics (snd (build cat now sid s)) = rs_logistics s"
  "autoBuildProgress (snd (build cat now sid s)) = autoBuildProgress s"
  "ps_researchQueue (snd (build cat now sid s)) = ps_researchQueue s"
  "ps_researchProgressMap (snd (build cat now sid s)) = ps_researchProgressMap s"
  "offlineProgress (snd (build cat now sid s)) = offlineProgress s"
  by (simp_all add: build_def Let_def split: option.splits)

lemma completeConstruction_frame [simp]:
  "lastSaveAt (after (completeConstruction cat item s)) = lastSaveAt s"
  "completedResearch (after (completeConstruction cat item s)) = completedResearch s"
  "researchQueue (after (completeConstruction cat item s)) = researchQueue s"
  "researchProgressMap (after (completeConstruction cat item s)) = researchProgressMap s"
  "maxResearchSlots (after (completeConstruction cat item s)) = maxResearchSlots s"
  "autoResearch (after (completeConstruction cat item s)) = autoResearch s"
  "currentEra (after (completeConstruction cat item s)) = currentEra s"
  "autoBuildProgress (after (completeConstruction cat item s)) = autoBuildProgress s"
  "ps_researchQueue (after (completeConstruction cat item s)) = ps_researchQueue s"
  "ps_researchProgressMap (after (completeConstruction cat item s)) = ps_researchProgressMap s"
  "offlineProgress (after (completeConstruction cat item s)) = offlineProgress s"
  by (simp_all add: completeConstruction_def Let_def split: option.splits)

lemma afterD: "r = Inr s' \<Longrightarrow> s' = after r" "r = Inl (e, s') \<Longrightarrow> s' = after r"
  by simp_all

lemma autoLoop_frame [simp]:
  "lastSaveAt (after (autoLoop cat s)) = lastSaveAt s"
  "completedResearch (after (autoLoop cat s)) = completedResearch s"
  "researchQueue (after (autoLoop cat s)) = researchQueue s"
  "researchProgressMap (after (autoLoop cat s)) = researchProgressMap s"
  "maxResearchSlots (after (autoLoop cat s)) = maxResearchSlots s"
  "autoResearch (after (autoLoop cat s)) = autoResearch s"
  "currentEra (after (autoLoop cat s)) = currentEra s"
  "ps_researchQueue (after (autoLoop cat s)) = ps_researchQueue s"
  "ps_researchProgressMap (after (autoLoop cat s)) = ps_researchProgressMap s"
  "offlineProgress (after (autoLoop cat s)) = offlineProgress s"
  by (induction cat s rule: autoLoop.induct; subst autoLoop.simps;
      auto split: sum.splits dest!: afterD)+

lemma applyAutoConstruction_frame [simp]:
  "lastSaveAt (after (applyAutoConstruction cat dt s)) = lastSaveAt s"
  "completedResearch (after (applyAutoConstruction cat dt s)) = completedResearch s"
  "researchQueue (after (applyAutoConstruction cat dt s)) = researchQueue s"
  "researchProgressMap (after (applyAutoConstruction cat dt s)) = researchProgressMap s"
  "maxResearchSlots (after (applyAutoConstruction cat dt s)) = maxResearchSlots s"
  "autoResearch (after (applyAutoConstruction cat dt s)) = autoResearch s"
  "currentEra (after (applyAutoConstruction cat dt s)) = currentEra s"
  "ps_researchQueue (after (applyAutoConstruction cat dt s)) = ps_researchQueue s"
  "ps_researchProgressMap (after (applyAutoConstruction cat dt s)) = ps_researchProgressMap s"
  "offlineProgress (after (applyAutoConstruction cat dt s)) = offlineProgress s"
  by (simp_all add: applyAutoConstruction_def Let_def)

lemma cs_update_frame [simp]:
  "lastSaveAt (after (cs_update cat dt s)) = lastSaveAt s"
  "completedResearch (after (cs_update cat dt s)) = completedResearch s"
  "researchQueue (after (cs_update cat dt s)) = researchQueue s"
  "researchProgressMap (after (cs_update cat dt s)) = researchProgressMap s"
  "maxResearchSlots (after (cs_update cat dt s)) = maxResearchSlots s"
  "autoResearch (after (cs_update cat dt s)) = autoResearch s"
  "currentEra (after (cs_update cat dt s)) = currentEra s"
  "ps_researchQueue (after (cs_update cat dt s)) = ps_researchQueue s"
  "ps_researchProgressMap (after (cs_update cat dt s)) = ps_researchProgressMap s"
  "offlineProgress (after (cs_update cat dt s)) = offlineProgress s"
  by (auto simp: cs_update_def Let_def split: list.splits sum.splits dest!: afterD)

lemma refund_frame [simp]:
  "lastSaveAt (refund cost m s) = lastSaveAt s"
  "production (refund cost m s) = production s"
  "structures (refund cost m s) = structures s"
  "constructionQueue (refund cost m s) = constructionQueue s"
  "completedResearch (refund cost m s) = completedResearch s"
  "researchQueue (refund cost m s) = researchQueue s"
  "researchProgressMap (refund cost m s) = researchProgressMap s"
  "maxResearchSlots (refund cost m s) = maxResearchSlots s"
  "autoResearch (refund cost m s) = autoResearch s"
  "currentEra (refund cost m s) = currentEra s"
  "solarCapture (refund cost m s) = solarCapture s"
  "claimedMilestones (refund cost m s) = claimedMilestones s"
  "stats (refund cost m s) = stats s"
  "flags (refund cost m s) = flags s"
  "rs_modifiers (refund cost m s) = rs_modifiers s"
  "rs_logistics (refund cost m s) = rs_logistics s"
  "autoBuildProgress (refund cost m s) = autoBuildProgress s"
  "ps_researchQueue (refund cost m s) = ps_researchQueue s"
  "ps_researchProgressMap (refund cost m s) = ps_researchProgressMap s"
  "offlineProgress (refund cost m s) = offlineProgress s"
  by (induction cost m s rule: refund.induct) simp_all

lemma rs_update_frame [simp]:
  "lastSaveAt (rs_update dt s) = lastSaveAt s"
  "production (rs_update dt s) = production s"
  "structures (rs_update dt s) = structures s"
  "constructionQueue (rs_update dt s) = constructionQueue s"
  "completedResearch (rs_update dt s) = completedResearch s"
  "researchQueue (rs_update dt s) = researchQueue s"
  "researchProgressMap (rs_update dt s) = researchProgressMap s"
  "maxResearchSlots (rs_update dt s) = maxResearchSlots s"
  "autoResearch (rs_update dt s) = autoResearch s"
  "currentEra (rs_update dt s) = currentEra s"
  "solarCapture (rs_update dt s) = solarCapture s"
  "claimedMilestones (rs_update dt s) = claimedMilestones s"
  "flags (rs_update dt s) = flags s"
  "rs_modifiers (rs_update dt s) = rs_modifiers s"
  "rs_logistics (rs_update dt s) = rs_logistics s"
  "autoBuildProgress (rs_update dt s) = autoBuildProgress s"
  "ps_researchQueue (rs_update dt s) = ps_researchQueue s"
  "ps_researchProgressMap (rs_update dt s) = ps_researchProgressMap s"
  "offlineProgress (rs_update dt s) = offlineProgress s"
  by (simp_all add: rs_update_def Let_def)

lemma applyGains_frame [simp]:
  "lastSaveAt (applyGains gs s) = lastSaveAt s"
  "production (applyGains gs s) = production s"
  "structures (applyGains gs s) = structures s"
  "constructionQueue (applyGains gs s) = constructionQueue s"
  "completedResearch (applyGains gs s) = completedResearch s"
  "researchQueue (applyGains gs s) = researchQueue s"
  "researchProgressMap (applyGains gs s) = researchProgressMap s"
  "maxResearchSlots (applyGains gs s) = maxResearchSlots s"
  "autoResearch (applyGains gs s) = autoResearch s"
  "currentEra (applyGains gs s) = currentEra s"
  "solarCapture (applyGains gs s) = solarCapture s"
  "claimedMilestones (applyGains gs s) = claimedMilestones s"
  "stats (applyGains gs s) = stats s"
  "flags (applyGains gs s) = flags s"
  "rs_modifiers (applyGains gs s) = rs_modifiers s"
  "rs_logistics (applyGains gs s) = rs_logistics s"
  "autoBuildProgress (applyGains gs s) = autoBuildProgress s"
  "ps_researchQueue (applyGains gs s) = ps_researchQueue s"
  "ps_researchProgressMap (applyGains gs s) = ps_researchProgressMap s"
  "offlineProgress (applyGains gs s) = offlineProgress s"
  by (induction gs s rule: applyGains.induct) simp_all

lemma calculateOfflineProgress_frame [simp]:
  "lastSaveAt (calculateOfflineProgress now s) = lastSaveAt s"
  "production (calculateOfflineProgress now s) = production s"
  "structures (calculateOfflineProgress now s) = structures s"
  "constructionQueue (calculateOfflineProgress now s) = constructionQueue s"
  "completedResearch (calculateOfflineProgress now s) = completedResearch s"
  "researchQueue (calculateOfflineProgress now s) = researchQueue s"
  "researchProgressMap (calculateOfflineProgress now s) = researchProgressMap s"
  "maxResearchSlots (calculateOfflineProgress now s) = maxResearchSlots s"
  "autoResearch (calculateOfflineProgress now s) = autoResearch s"
  "currentEra (calculateOfflineProgress now s) = currentEra s"
  "solarCapture (calculateOfflineProgress now s) = solarCapture s"
  "claimedMilestones (calculateOfflineProgress now s) = claimedMilestones s"
  "stats (calculateOfflineProgress now s) = stats s"
  "flags (calculateOfflineProgress now s) = flags s"
  "rs_modifiers (calculateOfflineProgress now s) = rs_modifiers s"
  "rs_logistics (calculateOfflineProgress now s) = rs_logistics s"
  "autoBuildProgress (calculateOfflineProgress now s) = autoBuildProgress s"
  "ps_researchQueue (calculateOfflineProgress now s) = ps_researchQueue s"
  "ps_researchProgressMap (calculateOfflineProgress now s) = ps_researchProgressMap s"
  by (simp_all add: calculateOfflineProgress_def Let_def split: option.splits)

lemma syncStateWithQueue_frame [simp]:
  "lastSaveAt (syncStateWithQueue s) = lastSaveAt s"
  "resources (syncStateWithQueue s) = resources s"
  "production (syncStateWithQueue s) = production s"
  "structures (syncStateWithQueue s) = structures s"
  "constructionQueue (syncStateWithQueue s) = constructionQueue s"
  "completedResearch (syncStateWithQueue s) = completedResearch s"
  "maxResearchSlots (syncStateWithQueue s) = maxResearchSlots s"
  "autoResearch (syncStateWithQueue s) = autoResearch s"
  "currentEra (syncStateWithQueue s) = currentEra s"
  "solarCapture (syncStateWithQueue s) = solarCapture s"
  "claimedMilestones (syncStateWithQueue s) = claimedMilestones s"
  "stats (syncStateWithQueue s) = stats s"
  "flags (syncStateWithQueue s) = flags s"
  "rs_modifiers (syncStateWithQueue s) = rs_modifiers s"
  "rs_logistics (syncStateWithQueue s) = rs_logistics s"
  "autoBuildProgress (syncStateWithQueue s) = autoBuildProgress s"
  "ps_researchQueue (syncStateWithQueue s) = ps_researchQueue s"
  "ps_researchProgressMap (syncStateWithQueue s) = ps_researchProgressMap s"
  "offlineProgress (syncStateWithQueue s) = offlineProgress s"
  by (simp_all add: syncStateWithQueue_def)

lemma startResearch_frame [simp]:
  "lastSaveAt (snd (startResearch cat t s)) = lastSaveAt s"
  "resources (snd (startResearch cat t s)) = resources s"
  "production (snd (startResearch cat t s)) = production s"
  "structures (snd (startResearch cat t s)) = structures s"
  "constructionQueue (snd (startResearch cat t s)) = constructionQueue s"
  "completedResearch (snd (startResearch cat t s)) = completedResearch s"
  "maxResearchSlots (snd (startResearch cat t s)) = maxResearchSlots s"
  "autoResearch (snd (startResearch cat t s)) = autoResearch s"
  "currentEra (snd (startResearch cat t s)) = currentEra s"
  "solarCapture (snd (startResearch cat t s)) = solarCapture s"
  "claimedMilestones (snd (startResearch cat t s)) = claimedMilestones s"
  "stats (snd (startResearch cat t s)) = stats s"
  "flags (snd (startResearch cat t s)) = flags s"
  "rs_modifiers (snd (startResearch cat t s)) = rs_modifiers s"
  "rs_logistics (snd (startResearch cat t s)) = rs_logistics s"
  "autoBuildProgress (snd (startResearch cat t s)) = autoBuildProgress s"
  "offlineProgress (snd (startResearch cat t s)) = offlineProgress s"
  by (simp_all add: startResearch_def Let_def split: option.splits)

lemma tryAutoResearch_frame [simp]:
  "lastSaveAt (tryAutoResearch cat s) = lastSaveAt s"
  "resources (tryAutoResearch cat s) = resources s"
  "production (tryAutoResearch cat s) = production s"
  "structures (tryAutoResearch cat s) = structures s"
  "constructionQueue (tryAutoResearch cat s) = constructionQueue s"
  "completedResearch (tryAutoResearch cat s) = completedResearch s"
  "maxResearchSlots (tryAutoResearch cat s) = maxResearchSlots s"
  "autoResearch (tryAutoResearch cat s) = autoResearch s"
  "currentEra (tryAutoResearch cat s) = currentEra s"
  "solarCapture (tryAutoResearch cat s) = solarCapture s"
  "claimedMilestones (tryAutoResearch cat s) = claimedMilestones s"
  "stats (tryAutoResearch cat s) = stats s"
  "flags (tryAutoResearch cat s) = flags s"
  "rs_modifiers (tryAutoResearch cat s) = rs_modifiers s"
  "rs_logistics (tryAutoResearch cat s) = rs_logistics s"
  "autoBuildProgress (tryAutoResearch cat s) = autoBuildProgress s"
  "offlineProgress (tryAutoResearch cat s) = offlineProgress s"
  by (simp_all add: tryAutoResearch_def split: list.splits)

lemma addResearchSlot_frame [simp]:
  "lastSaveAt (addResearchSlot s) = lastSaveAt s"
  "resources (addResearchSlot s) = resources s"
  "production (addResearchSlot s) = production s"
  "structures (addResearchSlot s) = structures s"
  "constructionQueue (addResearchSlot s) = constructionQueue s"
  "completedResearch (addResearchSlot s) = completedResearch s"
  "researchQueue (addResearchSlot s) = researchQueue s"
  "researchProgressMap (addResearchSlot s) = researchProgressMap s"
  "autoResearch (addResearchSlot s) = autoResearch s"
  "currentEra (addResearchSlot s) = currentEra s"
  "solarCapture (addResearchSlot s) = solarCapture s"
  "claimedMilestones (addResearchSlot s) = claimedMilestones s"
  "stats (addResearchSlot s) = stats s"
  "flags (addResearchSlot s) = flags s"
  "rs_modifiers (addResearchSlot s) = rs_modifiers s"
  "rs_logistics (addResearchSlot s) = rs_logistics s"
  "autoBuildProgress (addResearchSlot s) = autoBuildProgress s"
  "ps_researchQueue (addResearchSlot s) = ps_researchQueue s"
  "ps_researchProgressMap (addResearchSlot s) = ps_researchProgressMap s"
  "offlineProgress (addResearchSlot s) = offlineProgress s"
  by (simp_all add: addResearchSlot_def)

lemma addResearchSlots_frame [simp]:
  "lastSaveAt ((addResearchSlot ^^ n) s) = lastSaveAt s"
  "resources ((addResearchSlot ^^ n) s) = resources s"
  "production ((addResearchSlot ^^ n) s) = production s"
  "structures ((addResearchSlot ^^ n) s) = structures s"
  "constructionQueue ((addResearchSlot ^^ n) s) = constructionQueue s"
  "completedResearch ((addResearchSlot ^^ n) s) = completedResearch s"
  "researchQueue ((addResearchSlot ^^ n) s) = researchQueue s"
  "researchProgressMap ((addResearchSlot ^^ n) s) = researchProgressMap s"
  "autoResearch ((addResearchSlot ^^ n) s) = autoResearch s"
  "currentEra ((addResearchSlot ^^ n) s) = currentEra s"
  "solarCapture ((addResearchSlot ^^ n) s) = solarCapture s"
  "claimedMilestones ((addResearchSlot ^^ n) s) = claimedMilestones s"
  "stats ((addResearchSlot ^^ n) s) = stats s"
  "flags ((addResearchSlot ^^ n) s) = flags s"
  "rs_modifiers ((addResearchSlot ^^ n) s) = rs_modifiers s"
  "rs_logistics ((addResearchSlot ^^ n) s) = rs_logistics s"
  "autoBuildProgress ((addResearchSlot ^^ n) s) = autoBuildProgress s"
  "ps_researchQueue ((addResearchSlot ^^ n) s) = ps_researchQueue s"
  "ps_researchProgressMap ((addResearchSlot ^^ n) s) = ps_researchProgressMap s"
  "offlineProgress ((addResearchSlot ^^ n) s) = offlineProgress s"
  by (induction n) simp_all

lemma onResearchComplete_frame [simp]:
  "lastSaveAt (onResearchComplete cat s) = lastSaveAt s"
  "structures (onResearchComplete cat s) = structures s"
  "constructionQueue (onResearchComplete cat s) = constructionQueue s"
  "completedResearch (onResearchComplete cat s) = completedResearch s"
  "maxResearchSlots (onResearchComplete cat s) = maxResearchSlots s"
  "autoResearch (onResearchComplete cat s) = autoResearch s"
  "currentEra (onResearchComplete cat s) = currentEra s"
  "autoBuildProgress (onResearchComplete cat s) = autoBuildProgress s"
  "offlineProgress (onResearchComplete cat s) = offlineProgress s"
  by (simp_all add: onResearchComplete_def)

lemma sm_completeResearch_frame [simp]:
  "lastSaveAt (sm_completeResearch cat t s) = lastSaveAt s"
  "structures (sm_completeResearch cat t s) = structures s"
  "constructionQueue (sm_completeResearch cat t s) = constructionQueue s"
  "maxResearchSlots (sm_completeResearch cat t s) = maxResearchSlots s"
  "autoResearch (sm_completeResearch cat t s) = autoResearch s"
  "currentEra (sm_completeResearch cat t s) = currentEra s"
  "autoBuildProgress (sm_completeResearch cat t s) = autoBuildProgress s"
  "offlineProgress (sm_completeResearch cat t s) = offlineProgress s"
  by (simp_all add: sm_completeResearch_def Let_def)

lemma completeResearch_frame [simp]:
  "lastSaveAt (completeResearch cat t s) = lastSaveAt s"
  "structures (completeResearch cat t s) = structures s"
  "constructionQueue (completeResearch cat t s) = constructionQueue s"
  "autoResearch (completeResearch cat t s) = autoResearch s"
  "currentEra (completeResearch cat t s) = currentEra s"
  "autoBuildProgress (completeResearch cat t s) = autoBuildProgress s"
  "offlineProgress (completeResearch cat t s) = offlineProgress s"
  by (simp_all add: completeResearch_def Let_def split: option.splits)

lemma completeAll_frame [simp]:
  "lastSaveAt (foldl (\<lambda>s' techId. completeResearch cat techId s') s ts) = lastSaveAt s"
  "structures (foldl (\<lambda>s' techId. completeResearch cat techId s') s ts) = structures s"
  "constructionQueue (foldl (\<lambda>s' techId. completeResearch cat techId s') s ts) = constructionQueue s"
  "autoResearch (foldl (\<lambda>s' techId. completeResearch cat techId s') s ts) = autoResearch s"
  "currentEra (foldl (\<lambda>s' techId. completeResearch cat techId s') s ts) = currentEra s"
  "autoBuildProgress (foldl (\<lambda>s' techId. completeResearch cat techId s') s ts) = autoBuildProgress s"
  "offlineProgress (foldl (\<lambda>s' techId. completeResearch cat techId s') s ts) = offlineProgress s"
  by (induction ts arbitrary: s) simp_all

lemma accrue_frame [simp]:
  "lastSaveAt (snd (accrue cat r dt q c s)) = lastSaveAt s"
  "resources (snd (accrue cat r dt q c s)) = resources s"
  "production (snd (accrue cat r dt q c s)) = production s"
  "structures (snd (accrue cat r dt q c s)) = structures s"
  "constructionQueue (snd (accrue cat r dt q c s)) = constructionQueue s"
  "completedResearch (snd (accrue cat r dt q c s)) = completedResearch s"
  "researchQueue (snd (accrue cat r dt q c s)) = researchQueue s"
  "researchProgressMap (snd (accrue cat r dt q c s)) = researchProgressMap s"
  "maxResearchSlots (snd (accrue cat r dt q c s)) = maxResearchSlots s"
  "autoResearch (snd (accrue cat r dt q c s)) = autoResearch s"
  "currentEra (snd (accrue cat r dt q c s)) = currentEra s"
  "solarCapture (snd (accrue cat r dt q c s)) = solarCapture s"
  "claimedMilestones (snd (accrue cat r dt q c s)) = claimedMilestones s"
  "stats (snd (accrue cat r dt q c s)) = stats s"
  "flags (snd (accrue cat r dt q c s)) = flags s"
  "rs_modifiers (snd (accrue cat r dt q c s)) = rs_modifiers s"
  "rs_logistics (snd (accrue cat r dt q c s)) = rs_logistics s"
  "autoBuildProgress (snd (accrue cat r dt q c s)) = autoBuildProgress s"
  "ps_researchQueue (snd (accrue cat r dt q c s)) = ps_researchQueue s"
  "offlineProgress (snd (accrue cat r dt q c s)) = offlineProgress s"
  by (induction cat r dt q c s rule: accrue.induct; simp add: Let_def split: option.splits)+

lemma progressAllResearch_frame [simp]:
  "lastSaveAt (progressAllResearch cat dt s) = lastSaveAt s"
  "structures (progressAllResearch cat dt s) = structures s"
  "constructionQueue (progressAllResearch cat dt s) = constructionQueue s"
  "autoResearch (progressAllResearch cat dt s) = autoResearch s"
  "currentEra (progressAllResearch cat dt s) = currentEra s"
  "autoBuildProgress (progressAllResearch cat dt s) = autoBuildProgress s"
  "offlineProgress (progressAllResearch cat dt s) = offlineProgress s"
  by (auto simp: progressAllResearch_def Let_def split: prod.splits dest!: pairD)

lemma cancelResearch_frame [simp]:
  "lastSaveAt (snd (cancelResearch t s)) = lastSaveAt s"
  "resources (snd (cancelResearch t s)) = resources s"
  "production (snd (cancelResearch t s)) = production s"
  "structures (snd (cancelResearch t s)) = structures s"
  "constructionQueue (snd (cancelResearch t s)) = constructionQueue s"
  "completedResearch (snd (cancelResearch t s)) = completedResearch s"
  "maxResearchSlots (snd (cancelResearch t s)) = maxResearchSlots s"
  "autoResearch (snd (cancelResearch t s)) = autoResearch s"
  "currentEra (snd (cancelResearch t s)) = currentEra s"
  "solarCapture (snd (cancelResearch t s)) = solarCapture s"
  "claimedMilestones (snd (cancelResearch t s)) = claimedMilestones s"
  "stats (snd (cancelResearch t s)) = stats s"
  "flags (snd (cancelResearch t s)) = flags s"
  "rs_modifiers (snd (cancelResearch t s)) = rs_modifiers s"
  "rs_logistics (snd (cancelResearch t s)) = rs_logistics s"
  "autoBuildProgress (snd (cancelResearch t s)) = autoBuildProgress s"
  "offlineProgress (snd (cancelResearch t s)) = offlineProgress s"
  by (simp_all add: cancelResearch_def Let_def)

lemma setAutoResearch_frame [simp]:
  "lastSaveAt (setAutoResearch cat b s) = lastSaveAt s"
  "resources (setAutoResearch cat b s) = resources s"
  "production (setAutoResearch cat b s) = production s"
  "structures (setAutoResearch cat b s) = structures s"
  "constructionQueue (setAutoResearch cat b s) = constructionQueue s"
  "completedResearch (setAutoResearch cat b s) = completedResearch s"
  "maxResearchSlots (setAutoResearch cat b s) = maxResearchSlots s"
  "currentEra (setAutoResearch cat b s) = currentEra s"
  "solarCapture (setAutoResearch cat b s) = solarCapture s"
  "claimedMilestones (setAutoResearch cat b s) = claimedMilestones s"
  "stats (setAutoResearch cat b s) = stats s"
  "flags (setAutoResearch cat b s) = flags s"
  "rs_modifiers (setAutoResearch cat b s) = rs_modifiers s"
  "rs_logistics (setAutoResearch cat b s) = rs_logistics s"
  "autoBuildProgress (setAutoResearch cat b s) = autoBuildProgress s"
  "offlineProgress (setAutoResearch cat b s) = offlineProgress s"
  by (simp_all add: setAutoResearch_def Let_def)

section \<open>Resource ledger\<close>

lemma get0_update: "get0 (AList.update k v ob) k' = (if k' = k then v else get0 ob k')"
  by (simp add: get0_def update_conv')

lemma get0_Cons: "get0 ((k, a) # ob) k' = (if k' = k then a else get0 ob k')"
  by (simp add: get0_def)

lemma get0_absent: "k \<notin> fst ` set ob \<Longrightarrow> get0 ob k = 0"
  by (simp add: get0_def map_of_eq_None_iff[THEN iffD2])

lemma spendResource_True:
  "get0 (resources s) k \<ge> a \<Longrightarrow>
     fst (spendResource k a s) \<and>
     get0 (resources (snd (spendResource k a s))) k' =
       (if k' = k then get0 (resources s) k - a else get0 (resources s) k')"
  by (simp add: spendResource_def Let_def get0_update)

lemma spendResource_False:
  "get0 (resources s) k < a \<Longrightarrow> spendResource k a s = (False, s)"
  by (simp add: spendResource_def Let_def)

lemma spend_canAfford:
  "distinct (map fst costs) \<Longrightarrow> canAfford costs s \<Longrightarrow>
     fst (spend costs s) \<and>
     (\<forall>k. get0 (resources (snd (spend costs s))) k = get0 (resources s) k - get0 costs k)"
proof (induction costs arbitrary: s)
  case Nil
  then show ?case by (simp add: get0_def)
next
  case (Cons c costs)
  obtain k a where c: "c = (k, a)" by (cases c)
  from Cons.prems c have ge: "get0 (resources s) k \<ge> a" and rest: "canAfford costs s"
    by (auto split: if_splits)
  define s1 where "s1 = snd (spendResource k a s)"
  from spendResource_True [OF ge] have sp: "spendResource k a s = (True, s1)"
    and r1: "\<And>k'. get0 (resources s1) k' = (if k' = k then get0 (resources s) k - a else get0 (resources s) k')"
    by (auto simp: s1_def prod_eq_iff)
  from Cons.prems c have nk: "k \<notin> fst ` set costs" and d: "distinct (map fst costs)" by auto
  have aff: "canAfford costs s1"
    using rest nk 
  proof (induction costs)
    case Nil then show ?case by simp
  next
    case (Cons x xs)
    then show ?case by (cases x) (auto simp: r1 split: if_splits)
  qed
  from Cons.IH [OF d aff] have ih1: "fst (spend costs s1)"
    and ih2: "\<And>k'. get0 (resources (snd (spend costs s1))) k' = get0 (resources s1) k' - get0 costs k'"
    by auto
  have nk0: "get0 costs k = 0" using nk by (rule get0_absent)
  show ?case
    using ih1 ih2 nk0 by (auto simp: c sp r1 get0_Cons)
qed

lemma spend_fails:
  "\<not> canAfford costs s \<Longrightarrow> distinct (map fst costs) \<Longrightarrow> \<not> fst (spend costs s)"
proof (induction costs arbitrary: s)
  case Nil then show ?case by simp
next
  case (Cons c costs)
  obtain k a where c: "c = (k, a)" by (cases c)
  show ?case
  proof (cases "get0 (resources s) k < a")
    case True
    then show ?thesis by (simp add: c spendResource_False)
  next
    case False
    then have ge: "get0 (resources s) k \<ge> a" by simp
    define s1 where "s1 = snd (spendResource k a s)"
    from spendResource_True [OF ge] have sp: "spendResource k a s = (True, s1)"
      and r1: "\<And>k'. get0 (resources s1) k' = (if k' = k then get0 (resources s) k - a else get0 (resources s) k')"
      by (auto simp: s1_def prod_eq_iff)
    from Cons.prems c have nk: "k \<notin> fst ` set costs" and d: "distinct (map fst costs)" by auto
    from Cons.prems c False have rest: "\<not> canAfford costs s" by simp
    have "\<not> canAfford costs s1" using rest nk
    proof (induction costs)
      case Nil then show ?case by simp
    next
      case (Cons x xs)
      then show ?case by (cases x) (auto simp: r1 split: if_splits)
    qed
    from Cons.IH [OF this d] show ?thesis by (simp add: c sp)
  qed
qed

text \<open>
  C1. Claimed: spending a cost bundle is all-or-nothing; when some kind is insufficient
  the operation fails and no resource quantity is mutated. The success half is lemma
  \<open>spend_canAfford\<close>. The failure half does not hold for \<open>ResourceSystem.spend\<close>:
  with the starting resources and the bundle energy 50, materials 100, the loop deducts
  the 50 energy, then meets the refusal for materials and returns false, leaving energy
  at 50 instead of 100.
\<close>

theorem C1_spend_partial_deduction:
  "\<not> canAfford [(''energy'', 50), (''materials'', 100)] getDefaultState
   \<and> fst (spend [(''energy'', 50), (''materials'', 100)] getDefaultState) = False
   \<and> resources getDefaultState = [(''energy'', 100), (''materials'', 50), (''research'', 0)]
   \<and> resources (snd (spend [(''energy'', 50), (''materials'', 100)] getDefaultState))
       = [(''energy'', 50), (''materials'', 50), (''research'', 0)]"
  by (simp add: getDefaultState_def STARTING_RESOURCES_def spendResource_def get0_def emit_def)

section \<open>Construction requests\<close>

lemma launch_pad_repo:
  "map_of (STRUCTURES repo) ''launch_pad'' =
     Some \<lparr>st_cost = [(''energy'', 50), (''materials'', 100)], st_buildTime = 10,
       st_production = no_production\<lparr>up_launchCapacity := 1\<rparr>,
       st_limit = Some 5, st_requiresTech = ''basic_rocketry''\<rparr>"
  by (simp add: repo_def repo_STRUCTURES_def)

text \<open>
  C5. With the starting resources (energy 100, materials 50, research 0), a build request
  for a structure that costs energy 50 and materials 100, and that passes the checks
  made before the affordability check (known type, technology unlocked, limit not
  reached), fails with \<open>cannot_afford\<close> and leaves the whole state, in particular
  every resource quantity, unchanged.
\<close>

theorem C5_build_cannot_afford:
  assumes "map_of (STRUCTURES cat) structureId = Some structure"
    and "st_cost structure = [(''energy'', 50), (''materials'', 100)]"
    and "resources s = STARTING_RESOURCES"
    and "isTechUnlocked (st_requiresTech structure) s"
    and "\<forall>limit. st_limit structure = Some limit \<longrightarrow>
           geti0 (structures s) structureId + getQueuedCount structureId s < limit"
  shows "build cat now structureId s = (Failure cannot_afford, s)"
  using assms
  by (auto simp: build_def STARTING_RESOURCES_def get0_def split: option.splits)

text \<open>The scenario on the repository's tables: a launch pad requested in the default state.\<close>

theorem C5_build_cannot_afford_witness:
  "build repo 0 ''launch_pad'' getDefaultState = (Failure cannot_afford, getDefaultState)
   \<and> resources getDefaultState = [(''energy'', 100), (''materials'', 50), (''research'', 0)]"
proof -
  have "build repo 0 ''launch_pad'' getDefaultState = (Failure cannot_afford, getDefaultState)"
    by (rule C5_build_cannot_afford [OF launch_pad_repo])
       (simp_all add: getDefaultState_def isTechUnlocked_def getQueuedCount_def geti0_def)
  then show ?thesis by (simp add: getDefaultState_def STARTING_RESOURCES_def)
qed

text \<open>
  C10. In \<open>build\<close> the failure branch of the deduction is unreachable: a build that
  succeeds has passed \<open>canAfford\<close> on the same bundle in the same state, so its
  \<open>spend\<close> returns true and every kind loses exactly its listed amount (kinds that
  are not listed lose 0). The keys of the cost object are distinct, as the keys of a
  JavaScript object are.
\<close>

theorem C10_build_spend_succeeds:
  assumes "map_of (STRUCTURES cat) structureId = Some structure"
    and "distinct (map fst (st_cost structure))"
    and "build cat now structureId s = (Success item, s')"
  shows "canAfford (st_cost structure) s
     \<and> fst (spend (st_cost structure) s) = True
     \<and> (\<forall>k. get0 (resources s') k = get0 (resources s) k - get0 (st_cost structure) k)"
proof -
  from assms(1,3) have aff: "canAfford (st_cost structure) s"
    by (auto simp: build_def Let_def split: if_splits)
  from assms(1,3) aff have s': "resources s' = resources (snd (spend (st_cost structure) s))"
    by (auto simp: build_def Let_def split: if_splits)
  from spend_canAfford [OF assms(2) aff] s' aff show ?thesis by simp
qed

text \<open>A launch pad requested with energy 100 and materials 150 in hand.\<close>

theorem C10_build_spend_succeeds_witness:
  "fst (build repo 7 ''launch_pad'' rich)
     = Success \<lparr>qi_structureId = ''launch_pad'', qi_stamp = 7, qi_buildTime = 10, qi_progress = 0\<rparr>
   \<and> fst (spend [(''energy'', 50), (''materials'', 100)] rich) = True
   \<and> get0 (resources (snd (build repo 7 ''launch_pad'' rich))) ''energy'' = 50
   \<and> get0 (resources (snd (build repo 7 ''launch_pad'' rich))) ''materials'' = 50"
proof -
  have fb: "fst (build repo 7 ''launch_pad'' rich)
     = Success \<lparr>qi_structureId = ''launch_pad'', qi_stamp = 7, qi_buildTime = 10, qi_progress = 0\<rparr>"
    by (simp add: build_def launch_pad_repo rich_def getDefaultState_def isTechUnlocked_def
        getQueuedCount_def geti0_def get0_def getMaxQueueSize_def Let_def)
  then have b: "build repo 7 ''launch_pad'' rich
     = (Success \<lparr>qi_structureId = ''launch_pad'', qi_stamp = 7, qi_buildTime = 10, qi_progress = 0\<rparr>,
        snd (build repo 7 ''launch_pad'' rich))"
    by (simp add: prod_eq_iff)
  have d: "distinct (map fst (st_cost \<lparr>st_cost = [(''energy'', 50), (''materials'', 100)], st_buildTime = 10,
       st_production = no_production\<lparr>up_launchCapacity := 1\<rparr>,
       st_limit = Some 5, st_requiresTech = ''basic_rocketry''\<rparr>))"
    by simp
  have r: "get0 (resources rich) ''energy'' = 100" "get0 (resources rich) ''materials'' = 150"
    by (simp_all add: rich_def getDefaultState_def get0_def)
  from C10_build_spend_succeeds [OF launch_pad_repo d b] fb r
  show ?thesis by (simp add: get0_Cons)
qed

section \<open>Auto-construction\<close>

lemma geti0_update: "geti0 (AList.update k v ob) k' = (if k' = k then v else geti0 ob k')"
  by (simp add: geti0_def update_conv')

lemma structures_addStructure:
  "geti0 (structures (addStructure cat sid s)) k = geti0 (structures s) k + (if k = sid then 1 else 0)"
  by (simp add: addStructure_def Let_def geti0_update)

lemma completeConstruction_known:
  assumes "known cat item" and "constructionQueue s = item # rest"
  shows "\<exists>s'. completeConstruction cat item s = Inr s' \<and> constructionQueue s' = rest
      \<and> autoBuildProgress s' = autoBuildProgress s
      \<and> (\<forall>k. geti0 (structures s') k = geti0 (structures s) k + (if k = qi_structureId item then 1 else 0))"
  using assms
  by (auto simp: known_def completeConstruction_def Let_def removeFromQueue_def structures_addStructure)

lemma autoLoop_drains:
  "list_all (known cat) (constructionQueue s) \<Longrightarrow>
   \<exists>s'. autoLoop cat s = Inr s'
      \<and> constructionQueue s' = drop (drained s) (constructionQueue s)
      \<and> autoBuildProgress s' = autoBuildProgress s - of_nat (drained s)
      \<and> (\<forall>k. geti0 (structures s') k = geti0 (structures s) k
            + int (length (filter (\<lambda>item. qi_structureId item = k) (take (drained s) (constructionQueue s)))))"
proof (induction cat s rule: autoLoop.induct)
  case (1 cat s)
  show ?case
  proof (cases "autoBuildProgress s \<ge> 1 \<and> length (constructionQueue s) > 0")
    case False
    then have "drained s = 0"
      by (auto simp: drained_def completions_def)
    with False show ?thesis by (subst autoLoop.simps) auto
  next
    case True
    then obtain item rest where q: "constructionQueue s = item # rest"
      by (cases "constructionQueue s") auto
    from "1.prems" q have k: "known cat item" and kr: "list_all (known cat) rest" by auto
    from completeConstruction_known [OF k q] obtain s1 where
      cc: "completeConstruction cat item s = Inr s1" and q1: "constructionQueue s1 = rest"
      and a1: "autoBuildProgress s1 = autoBuildProgress s"
      and st1: "\<And>k. geti0 (structures s1) k = geti0 (structures s) k + (if k = qi_structureId item then 1 else 0)"
      by blast
    define s2 where "s2 = s1\<lparr>autoBuildProgress := autoBuildProgress s1 - 1\<rparr>"
    have kn2: "list_all (known cat) (constructionQueue s2)" by (simp add: s2_def q1 kr)
    have cc': "completeConstruction cat (hd (constructionQueue s)) s = Inr s1" by (simp add: q cc)
    from "1.IH" [OF True cc' kn2 [unfolded s2_def]] obtain s' where
      al: "autoLoop cat s2 = Inr s'"
      and q': "constructionQueue s' = drop (drained s2) (constructionQueue s2)"
      and a': "autoBuildProgress s' = autoBuildProgress s2 - of_nat (drained s2)"
      and st': "\<And>k. geti0 (structures s') k = geti0 (structures s2) k
            + int (length (filter (\<lambda>item. qi_structureId item = k) (take (drained s2) (constructionQueue s2))))"
      unfolding s2_def by blast
    have "1 \<le> \<lfloor>autoBuildProgress s\<rfloor>"
      using True by (simp add: le_floor_iff)
    moreover have "\<lfloor>autoBuildProgress s - 1\<rfloor> = \<lfloor>autoBuildProgress s\<rfloor> - 1"
      by (rule floor_diff_one)
    ultimately have fl: "nat \<lfloor>autoBuildProgress s\<rfloor> = Suc (nat \<lfloor>autoBuildProgress s - 1\<rfloor>)"
      by linarith
    have d: "drained s = Suc (drained s2)"
      by (simp add: drained_def completions_def s2_def q q1 a1 fl)
    have "autoLoop cat s = Inr s'"
      using True cc' al by (subst autoLoop.simps) (simp add: s2_def)
    moreover have "constructionQueue s' = drop (drained s) (constructionQueue s)"
      by (simp add: q' d q s2_def q1)
    moreover have "autoBuildProgress s' = autoBuildProgress s - of_nat (drained s)"
      by (simp add: a' d s2_def a1)
    moreover have "\<And>k. geti0 (structures s') k = geti0 (structures s) k
            + int (length (filter (\<lambda>item. qi_structureId item = k) (take (drained s) (constructionQueue s))))"
      by (simp add: st' d q s2_def q1 st1)
    ultimately show ?thesis by blast
  qed
qed

text \<open>
  C4 as claimed: on every tick, whether or not the queue is empty, the counter grows by
  \<open>autoConstructionRate / 60 * deltaTime\<close>. It does not: \<open>applyAutoConstruction\<close>
  returns at once when the queue is empty. With one replicator hub, an empty queue and
  a one-second tick the counter stays 0, where the claim has it at 1/60.
\<close>

theorem C4_counterexample:
  "constructionQueue idle_hub = []
   \<and> autoConstruction (rs_logistics idle_hub) = 1
   \<and> cs_update repo 1 idle_hub = Inr idle_hub
   \<and> autoBuildProgress idle_hub = 0
   \<and> autoBuildProgress idle_hub + autoConstruction (rs_logistics idle_hub) / 60 * 1 = 1 / 60"
  by (simp add: idle_hub_def getDefaultState_def cs_update_def applyAutoConstruction_def)

lemma applyAutoConstruction_idle:
  "constructionQueue s = [] \<or> autoConstruction (rs_logistics s) \<le> 0
     \<Longrightarrow> applyAutoConstruction cat deltaTime s = Inr s"
  by (auto simp: applyAutoConstruction_def Let_def)

lemma applyAutoConstruction_drains:
  assumes "list_all (known cat) (constructionQueue s)"
    and "constructionQueue s \<noteq> []" and "autoConstruction (rs_logistics s) > 0"
  shows "\<exists>s'. applyAutoConstruction cat deltaTime s = Inr s'
          \<and> constructionQueue s' =
              drop (completions (autoBuildProgress s + autoConstruction (rs_logistics s) / 60 * deltaTime)
                     (constructionQueue s)) (constructionQueue s)
          \<and> autoBuildProgress s' =
              autoBuildProgress s + autoConstruction (rs_logistics s) / 60 * deltaTime
              - of_nat (completions (autoBuildProgress s + autoConstruction (rs_logistics s) / 60 * deltaTime)
                     (constructionQueue s))
          \<and> (\<forall>k. geti0 (structures s') k = geti0 (structures s) k
                + int (length (filter (\<lambda>item. qi_structureId item = k)
                   (take (completions (autoBuildProgress s + autoConstruction (rs_logistics s) / 60 * deltaTime)
                     (constructionQueue s)) (constructionQueue s)))))"
proof -
  define s0 where "s0 = s\<lparr>autoBuildProgress :=
      autoBuildProgress s + autoConstruction (rs_logistics s) / 60 * deltaTime\<rparr>"
  have k0: "list_all (known cat) (constructionQueue s0)"
    using assms(1) by (simp add: s0_def)
  have ap: "applyAutoConstruction cat deltaTime s = autoLoop cat s0"
    using assms(2,3) by (auto simp: applyAutoConstruction_def Let_def s0_def)
  from autoLoop_drains [OF k0] ap show ?thesis
    by (auto simp: s0_def drained_def)
qed

lemma cs_update_steps:
  assumes "constructionQueue s = item0 # rest"
  shows "cs_update cat deltaTime s =
     (if qi_progress (progressedHead deltaTime s item0) \<ge> qi_buildTime item0
      then (case completeConstruction cat (progressedHead deltaTime s item0) (afterProgress deltaTime s) of
              Inl e \<Rightarrow> Inl e
            | Inr s1 \<Rightarrow> applyAutoConstruction cat deltaTime s1)
      else applyAutoConstruction cat deltaTime (afterProgress deltaTime s))"
  using assms by (simp add: cs_update_def afterProgress_def progressedHead_def Let_def)

text \<open>
  C4 amended, for a queue whose items are all of known structure types. A tick of the
  construction system with an empty queue changes nothing: the counter does not
  accumulate. With a non-empty queue the head first accrues \<open>deltaTime * buildSpeed\<close>
  and, if that reaches its build time, is completed (removed from the queue and counted
  as built); auto-construction then runs on the state \<open>s1\<close> this leaves, with the
  counter at its old value. If the queue of \<open>s1\<close> is empty, or the auto-construction
  rate of \<open>s1\<close> is not positive, the tick ends in \<open>s1\<close> and nothing is accumulated.
  Otherwise the counter grows by \<open>rate / 60 * deltaTime\<close>, and then one head item is
  completed per whole unit of the counter, as long as items remain, the counter losing
  1 for each: the queue loses its first \<open>n\<close> items, each counted as a built
  structure, so one tick can drain several items. The last two conjuncts say the same
  of \<open>applyAutoConstruction\<close> called on any state.
\<close>

theorem C4_auto_construction:
  assumes "list_all (known cat) (constructionQueue s)"
  shows "(constructionQueue s = [] \<longrightarrow> cs_update cat deltaTime s = Inr s)
   \<and> (\<forall>item0 rest. constructionQueue s = item0 # rest \<longrightarrow>
        (\<exists>s1. (if qi_progress (progressedHead deltaTime s item0) \<ge> qi_buildTime item0
               then completeConstruction cat (progressedHead deltaTime s item0) (afterProgress deltaTime s) = Inr s1
                    \<and> constructionQueue s1 = rest
                    \<and> (\<forall>k. geti0 (structures s1) k =
                          geti0 (structures s) k + (if k = qi_structureId item0 then 1 else 0))
               else s1 = afterProgress deltaTime s
                    \<and> constructionQueue s1 = progressedHead deltaTime s item0 # rest
                    \<and> structures s1 = structures s)
          \<and> autoBuildProgress s1 = autoBuildProgress s
          \<and> (constructionQueue s1 = [] \<or> autoConstruction (rs_logistics s1) \<le> 0
                \<longrightarrow> cs_update cat deltaTime s = Inr s1)
          \<and> (constructionQueue s1 \<noteq> [] \<and> autoConstruction (rs_logistics s1) > 0 \<longrightarrow>
               (\<exists>s'. cs_update cat deltaTime s = Inr s'
                 \<and> constructionQueue s' =
                     drop (completions (autoBuildProgress s + autoConstruction (rs_logistics s1) / 60 * deltaTime)
                            (constructionQueue s1)) (constructionQueue s1)
                 \<and> autoBuildProgress s' =
                     autoBuildProgress s + autoConstruction (rs_logistics s1) / 60 * deltaTime
                     - of_nat (completions (autoBuildProgress s + autoConstruction (rs_logistics s1) / 60 * deltaTime)
                            (constructionQueue s1))
                 \<and> (\<forall>k. geti0 (structures s') k = geti0 (structures s1) k
                       + int (length (filter (\<lambda>item. qi_structureId item = k)
                          (take (completions (autoBuildProgress s + autoConstruction (rs_logistics s1) / 60 * deltaTime)
                            (constructionQueue s1)) (constructionQueue s1)))))))))
   \<and> (constructionQueue s = [] \<or> autoConstruction (rs_logistics s) \<le> 0
        \<longrightarrow> applyAutoConstruction cat deltaTime s = Inr s)
   \<and> (constructionQueue s \<noteq> [] \<and> autoConstruction (rs_logistics s) > 0 \<longrightarrow>
        (\<exists>s'. applyAutoConstruction cat deltaTime s = Inr s'
          \<and> constructionQueue s' =
              drop (completions (autoBuildProgress s + autoConstruction (rs_logistics s) / 60 * deltaTime)
                     (constructionQueue s)) (constructionQueue s)
          \<and> autoBuildProgress s' =
              autoBuildProgress s + autoConstruction (rs_logistics s) / 60 * deltaTime
              - of_nat (completions (autoBuildProgress s + autoConstruction (rs_logistics s) / 60 * deltaTime)
                     (constructionQueue s))
          \<and> (\<forall>k. geti0 (structures s') k = geti0 (structures s) k
                + int (length (filter (\<lambda>item. qi_structureId item = k)
                   (take (completions (autoBuildProgress s + autoConstruction (rs_logistics s) / 60 * deltaTime)
                     (constructionQueue s)) (constructionQueue s)))))))"
proof -
  have a: "constructionQueue s = [] \<longrightarrow> cs_update cat deltaTime s = Inr s"
    by (simp add: cs_update_def applyAutoConstruction_def)
  have c: "constructionQueue s = [] \<or> autoConstruction (rs_logistics s) \<le> 0
        \<longrightarrow> applyAutoConstruction cat deltaTime s = Inr s"
    using applyAutoConstruction_idle by blast
  have d: "constructionQueue s \<noteq> [] \<and> autoConstruction (rs_logistics s) > 0 \<longrightarrow>
        (\<exists>s'. applyAutoConstruction cat deltaTime s = Inr s'
          \<and> constructionQueue s' =
              drop (completions (autoBuildProgress s + autoConstruction (rs_logistics s) / 60 * deltaTime)
                     (constructionQueue s)) (constructionQueue s)
          \<and> autoBuildProgress s' =
              autoBuildProgress s + autoConstruction (rs_logistics s) / 60 * deltaTime
              - of_nat (completions (autoBuildProgress s + autoConstruction (rs_logistics s) / 60 * deltaTime)
                     (constructionQueue s))
          \<and> (\<forall>k. geti0 (structures s') k = geti0 (structures s) k
                + int (length (filter (\<lambda>item. qi_structureId item = k)
                   (take (completions (autoBuildProgress s + autoConstruction (rs_logistics s) / 60 * deltaTime)
                     (constructionQueue s)) (constructionQueue s))))))"
    using applyAutoConstruction_drains [OF assms] by blast
  have b: "\<exists>s1. (if qi_progress (progressedHead deltaTime s item0) \<ge> qi_buildTime item0
               then completeConstruction cat (progressedHead deltaTime s item0) (afterProgress deltaTime s) = Inr s1
                    \<and> constructionQueue s1 = rest
                    \<and> (\<forall>k. geti0 (structures s1) k =
                          geti0 (structures s) k + (if k = qi_structureId item0 then 1 else 0))
               else s1 = afterProgress deltaTime s
                    \<and> constructionQueue s1 = progressedHead deltaTime s item0 # rest
                    \<and> structures s1 = structures s)
          \<and> autoBuildProgress s1 = autoBuildProgress s
          \<and> (constructionQueue s1 = [] \<or> autoConstruction (rs_logistics s1) \<le> 0
                \<longrightarrow> cs_update cat deltaTime s = Inr s1)
          \<and> (constructionQueue s1 \<noteq> [] \<and> autoConstruction (rs_logistics s1) > 0 \<longrightarrow>
               (\<exists>s'. cs_update cat deltaTime s = Inr s'
                 \<and> constructionQueue s' =
                     drop (completions (autoBuildProgress s + autoConstruction (rs_logistics s1) / 60 * deltaTime)
                            (constructionQueue s1)) (constructionQueue s1)
                 \<and> autoBuildProgress s' =
                     autoBuildProgress s + autoConstruction (rs_logistics s1) / 60 * deltaTime
                     - of_nat (completions (autoBuildProgress s + autoConstruction (rs_logistics s1) / 60 * deltaTime)
                            (constructionQueue s1))
                 \<and> (\<forall>k. geti0 (structures s') k = geti0 (structures s1) k
                       + int (length (filter (\<lambda>item. qi_structureId item = k)
                          (take (completions (autoBuildProgress s + autoConstruction (rs_logistics s1) / 60 * deltaTime)
                            (constructionQueue s1)) (constructionQueue s1)))))))"
    if q: "constructionQueue s = item0 # rest" for item0 rest
  proof -
    let ?item = "progressedHead deltaTime s item0"
    let ?sp = "afterProgress deltaTime s"
    from assms q have k0: "known cat item0" and kr: "list_all (known cat) rest" by auto
    have ki: "known cat ?item" using k0 by (simp add: known_def progressedHead_def)
    have qp: "constructionQueue ?sp = ?item # rest"
      and ap: "autoBuildProgress ?sp = autoBuildProgress s"
      and sp: "structures ?sp = structures s"
      by (simp_all add: afterProgress_def q)
    have bt: "qi_structureId ?item = qi_structureId item0" "qi_buildTime ?item = qi_buildTime item0"
      by (simp_all add: progressedHead_def)
    show ?thesis
    proof (cases "qi_progress ?item \<ge> qi_buildTime item0")
      case True
      from completeConstruction_known [OF ki qp] obtain s1 where
        cc: "completeConstruction cat ?item ?sp = Inr s1" and q1: "constructionQueue s1 = rest"
        and a1: "autoBuildProgress s1 = autoBuildProgress ?sp"
        and st1: "\<forall>k. geti0 (structures s1) k = geti0 (structures ?sp) k
              + (if k = qi_structureId ?item then 1 else 0)"
        by blast
      have cs: "cs_update cat deltaTime s = applyAutoConstruction cat deltaTime s1"
        using True cc by (simp add: cs_update_steps [OF q])
      have k1: "list_all (known cat) (constructionQueue s1)" using kr by (simp add: q1)
      have idle: "constructionQueue s1 = [] \<or> autoConstruction (rs_logistics s1) \<le> 0
                \<longrightarrow> cs_update cat deltaTime s = Inr s1"
        using applyAutoConstruction_idle [of s1 cat deltaTime] by (simp add: cs)
      from applyAutoConstruction_drains [OF k1, of deltaTime] True cc q1 a1 st1 idle
      show ?thesis
        by (intro exI [of _ s1]) (simp add: cs ap sp bt)
    next
      case False
      have cs: "cs_update cat deltaTime s = applyAutoConstruction cat deltaTime ?sp"
        using False by (simp add: cs_update_steps [OF q])
      have k1: "list_all (known cat) (constructionQueue ?sp)" using ki kr by (simp add: qp)
      have idle: "constructionQueue ?sp = [] \<or> autoConstruction (rs_logistics ?sp) \<le> 0
                \<longrightarrow> cs_update cat deltaTime s = Inr ?sp"
        using applyAutoConstruction_idle [of ?sp cat deltaTime] by (simp add: cs)
      from applyAutoConstruction_drains [OF k1, of deltaTime] False idle
      show ?thesis
        by (intro exI [of _ ?sp]) (simp add: cs ap sp qp)
    qed
  qed
  from a b c d show ?thesis by blast
qed

lemma rs_logistics_recalculateProduction:
  "rs_logistics (recalculateProduction cat s) =
     tt_logistics (foldl (\<lambda>t entry. addStructureProduction cat entry t) initialTotals (structures s))"
  by (simp add: recalculateProduction_def Let_def)

lemma rs_logistics_completeConstruction:
  assumes "completeConstruction cat item s = Inr s1"
  shows "rs_logistics s1 =
     tt_logistics (foldl (\<lambda>t entry. addStructureProduction cat entry t) initialTotals
       (AList.update (qi_structureId item) (geti0 (structures s) (qi_structureId item) + 1) (structures s)))"
proof -
  from assms have "s1 = after (completeConstruction cat item s)" by simp
  then show ?thesis
    by (simp add: completeConstruction_def addStructure_def Let_def
        rs_logistics_recalculateProduction split: option.splits)
qed

text \<open>
  Ten hubs, three solar collectors queued, a 12-second step: the head completes by
  progress, the counter reaches 2 and drains the other two, so three are built.
\<close>

theorem C4_auto_construction_witness:
  "\<exists>s'. cs_update repo 12 busy_hubs = Inr s'
     \<and> constructionQueue s' = []
     \<and> autoBuildProgress s' = 0
     \<and> geti0 (structures s') ''solar_collector'' = 3"
proof -
  let ?item = "progressedHead 12 busy_hubs collector"
  have k: "list_all (known repo) (constructionQueue busy_hubs)"
    by (simp add: busy_hubs_def known_def collector_def repo_def repo_STRUCTURES_def)
  have q: "constructionQueue busy_hubs = collector # [collector, collector]"
    and a: "autoBuildProgress busy_hubs = 0"
    and st: "geti0 (structures busy_hubs) ''solar_collector'' = 0"
    and sts: "structures (afterProgress 12 busy_hubs) = [(''replicator_hub'', 10)]"
    by (simp_all add: busy_hubs_def getDefaultState_def geti0_def afterProgress_def)
  have fin: "qi_progress ?item \<ge> qi_buildTime collector"
    and id: "qi_structureId collector = ''solar_collector''" "qi_structureId ?item = ''solar_collector''"
    by (simp_all add: progressedHead_def collector_def busy_hubs_def getDefaultState_def)
  from C4_auto_construction [OF k, of 12] q fin obtain s1 where
    cc: "completeConstruction repo ?item (afterProgress 12 busy_hubs) = Inr s1"
    and q1: "constructionQueue s1 = [collector, collector]"
    and st1: "\<forall>k. geti0 (structures s1) k =
                geti0 (structures busy_hubs) k + (if k = qi_structureId collector then 1 else 0)"
    and a1: "autoBuildProgress s1 = autoBuildProgress busy_hubs"
    and dr: "constructionQueue s1 \<noteq> [] \<and> autoConstruction (rs_logistics s1) > 0 \<longrightarrow>
               (\<exists>s'. cs_update repo 12 busy_hubs = Inr s'
                 \<and> constructionQueue s' =
                     drop (completions (autoBuildProgress busy_hubs + autoConstruction (rs_logistics s1) / 60 * 12)
                            (constructionQueue s1)) (constructionQueue s1)
                 \<and> autoBuildProgress s' =
                     autoBuildProgress busy_hubs + autoConstruction (rs_logistics s1) / 60 * 12
                     - of_nat (completions (autoBuildProgress busy_hubs + autoConstruction (rs_logistics s1) / 60 * 12)
                            (constructionQueue s1))
                 \<and> (\<forall>k. geti0 (structures s') k = geti0 (structures s1) k
                       + int (length (filter (\<lambda>item. qi_structureId item = k)
                          (take (completions (autoBuildProgress busy_hubs + autoConstruction (rs_logistics s1) / 60 * 12)
                            (constructionQueue s1)) (constructionQueue s1))))))"
    by auto
  have rate: "autoConstruction (rs_logistics s1) = 10"
    by (simp add: rs_logistics_completeConstruction [OF cc] sts id geti0_def initialTotals_def
        repo_def repo_STRUCTURES_def no_production_def plus_if_def)
  have c: "completions (autoBuildProgress busy_hubs + autoConstruction (rs_logistics s1) / 60 * 12)
            (constructionQueue s1) = 2"
    by (simp add: rate a q1 completions_def)
  from dr obtain s' where r: "cs_update repo 12 busy_hubs = Inr s'"
    and "constructionQueue s' = drop 2 (constructionQueue s1)"
    and "autoBuildProgress s' = autoBuildProgress busy_hubs + autoConstruction (rs_logistics s1) / 60 * 12 - of_nat 2"
    and "\<forall>k. geti0 (structures s') k = geti0 (structures s1) k
           + int (length (filter (\<lambda>item. qi_structureId item = k) (take 2 (constructionQueue s1))))"
    unfolding c by (auto simp: q1 rate)
  then have "constructionQueue s' = [] \<and> autoBuildProgress s' = 0
      \<and> geti0 (structures s') ''solar_collector'' = 3"
    using st1 by (simp add: q1 rate a st id)
  with r show ?thesis by blast
qed

section \<open>Crediting resources\<close>

lemma resources_addResource:
  "get0 (resources (addResource k a s)) k' =
     (if k' = k then get0 (resources s) k + a else get0 (resources s) k')"
  by (simp add: addResource_def Let_def get0_update)

lemma resources_rs_update:
  "get0 (resources (rs_update deltaTime s)) k =
     get0 (resources s) k
       + (if rate_of (production s) k > 0 then rate_of (production s) k * deltaTime else 0)"
  by (simp add: rs_update_def Let_def resources_addResource rate_of_def)

lemma resources_refund:
  "distinct (map fst cost) \<Longrightarrow>
     get0 (resources (refund cost m s)) k = get0 (resources s) k + of_int \<lfloor>get0 cost k * m\<rfloor>"
proof (induction cost m s rule: refund.induct)
  case (1 m s)
  then show ?case by (simp add: get0_def)
next
  case (2 resource amount cost m s)
  then have "resource \<notin> fst ` set cost" by auto
  then have "get0 cost resource = 0" by (rule get0_absent)
  with 2 show ?case by (simp add: resources_addResource get0_Cons)
qed

lemma resources_grantRewards:
  "distinct (map fst reward) \<Longrightarrow> k \<noteq> ''sandbox_mode'' \<Longrightarrow>
     get0 (resources (grantRewards reward s)) k = get0 (resources s) k + get0 reward k"
proof (induction reward s rule: grantRewards.induct)
  case (1 s)
  then show ?case by (simp add: get0_def)
next
  case (2 resource amount reward s)
  then have "resource \<notin> fst ` set reward" by auto
  then have "get0 reward resource = 0" by (rule get0_absent)
  with 2 show ?case by (auto simp: resources_addResource get0_Cons set_sandboxMode_def)
qed

lemma calculateOfflineProgress_applies:
  assumes "lastSaveAt s = Some saved" "saved \<noteq> 0" "now - saved \<ge> 60000"
  shows "calculateOfflineProgress now s =
     emit (OfflineProgress (reportOf now saved s))
       ((applyGains (gainsOf (production s) (effectiveOf now saved)) s)
          \<lparr>offlineProgress := Some (reportOf now saved s)\<rparr>)"
  using assms
  by (simp add: calculateOfflineProgress_def Let_def reportOf_def gainsOf_def effectiveOf_def
      offlineMsOf_def rate_of_def min_def)

lemma resources_applyGains:
  "distinct (map fst gs) \<Longrightarrow>
     get0 (resources (applyGains gs s)) k = get0 (resources s) k + max 0 (get0 gs k)"
proof (induction gs s rule: applyGains.induct)
  case (1 s)
  then show ?case by (simp add: get0_def)
next
  case (2 resource amount gs s)
  then have "resource \<notin> fst ` set gs" by auto
  then have "get0 gs resource = 0" by (rule get0_absent)
  with 2 show ?case by (auto simp: resources_addResource get0_Cons)
qed

lemma distinct_gainsOf: "distinct (map fst (gainsOf p e))"
  by (simp add: gainsOf_def)

lemma get0_gainsOf: "get0 (gainsOf p e) k = of_int \<lfloor>rate_of p k * e\<rfloor>"
  by (simp add: gainsOf_def get0_def rate_of_def)

lemma resources_offline:
  assumes "lastSaveAt s = Some saved" "saved \<noteq> 0" "now - saved \<ge> 60000"
  shows "get0 (resources (calculateOfflineProgress now s)) k =
     get0 (resources s) k + max 0 (of_int \<lfloor>rate_of (production s) k * effectiveOf now saved\<rfloor>)"
  by (simp add: calculateOfflineProgress_applies [OF assms] resources_applyGains distinct_gainsOf
      get0_gainsOf)

text \<open>
  C8. With a gap below 60 seconds (60000 ms) offline reconciliation adds no resources and
  produces no report: the state is unchanged but for the report slot, which is cleared,
  and no event is emitted. With a gap above the configured maximum of 24 hours the
  elapsed time is clamped to 24 hours before anything else: the report carries 86400
  offline seconds, that many times the efficiency factor as effective seconds, gains
  computed from the production rates and these effective seconds, and the flag that
  the cap was hit; the gains are what is added to the resources.
\<close>

theorem C8_offline_reconciliation:
  assumes "lastSaveAt s = Some saved"
  shows "(now - saved < 60000 \<longrightarrow>
            calculateOfflineProgress now s = s\<lparr>offlineProgress := None\<rparr>)
    \<and> (saved \<noteq> 0 \<and> now - saved > MAX_OFFLINE_HOURS * 60 * 60 * 1000 \<longrightarrow>
         (\<exists>report. offlineProgress (calculateOfflineProgress now s) = Some report
            \<and> last (emitted (calculateOfflineProgress now s)) = OfflineProgress report
            \<and> offlineSeconds report = of_int (MAX_OFFLINE_HOURS * 60 * 60)
            \<and> effectiveSeconds report = of_int (MAX_OFFLINE_HOURS * 60 * 60) * OFFLINE_EFFICIENCY
            \<and> wasMaxed report
            \<and> gains report =
                gainsOf (production s) (of_int (MAX_OFFLINE_HOURS * 60 * 60) * OFFLINE_EFFICIENCY)
            \<and> (\<forall>k. get0 (resources (calculateOfflineProgress now s)) k =
                  get0 (resources s) k + max 0 (get0 (gains report) k))))"
proof -
  have a: "now - saved < 60000 \<longrightarrow> calculateOfflineProgress now s = s\<lparr>offlineProgress := None\<rparr>"
    using assms by (simp add: calculateOfflineProgress_def)
  have b: ?thesis if c: "saved \<noteq> 0" "now - saved > MAX_OFFLINE_HOURS * 60 * 60 * 1000"
  proof -
    from c have ge: "now - saved \<ge> 60000" by (simp add: MAX_OFFLINE_HOURS_def)
    from c have m: "offlineMsOf now saved = MAX_OFFLINE_HOURS * 60 * 60 * 1000"
      by (simp add: offlineMsOf_def)
    have sec: "(of_int (offlineMsOf now saved) :: rat) / 1000 = of_int (MAX_OFFLINE_HOURS * 60 * 60)"
      unfolding m by simp
    have eff: "effectiveOf now saved = of_int (MAX_OFFLINE_HOURS * 60 * 60) * OFFLINE_EFFICIENCY"
      unfolding effectiveOf_def sec ..
    define report where "report = reportOf now saved s"
    have r1: "offlineProgress (calculateOfflineProgress now s) = Some report"
      and r2: "last (emitted (calculateOfflineProgress now s)) = OfflineProgress report"
      by (simp_all add: calculateOfflineProgress_applies [OF assms c(1) ge] report_def emit_def)
    have r3: "offlineSeconds report = of_int (MAX_OFFLINE_HOURS * 60 * 60)"
      unfolding report_def reportOf_def using sec by simp
    have r4: "effectiveSeconds report = of_int (MAX_OFFLINE_HOURS * 60 * 60) * OFFLINE_EFFICIENCY"
      unfolding report_def reportOf_def using eff by simp
    have r5: "wasMaxed report"
      unfolding report_def reportOf_def using c(2) by simp
    have r6: "gains report = gainsOf (production s) (of_int (MAX_OFFLINE_HOURS * 60 * 60) * OFFLINE_EFFICIENCY)"
      unfolding report_def reportOf_def using eff by simp
    have r7: "\<forall>k. get0 (resources (calculateOfflineProgress now s)) k =
                  get0 (resources s) k + max 0 (get0 (gains report) k)"
      unfolding r6 using resources_offline [OF assms c(1) ge] by (simp add: get0_gainsOf eff)
    from a r1 r2 r3 r4 r5 r6 r7 show ?thesis by blast
  qed
  from a b show ?thesis by blast
qed

text \<open>A gap of 30 seconds, and a gap of more than 27 hours, in the default state.\<close>

theorem C8_offline_reconciliation_witness:
  "calculateOfflineProgress 31000 away = away\<lparr>offlineProgress := None\<rparr>
   \<and> (\<exists>report. offlineProgress (calculateOfflineProgress 100000000 away) = Some report
        \<and> last (emitted (calculateOfflineProgress 100000000 away)) = OfflineProgress report
        \<and> offlineSeconds report = 86400
        \<and> effectiveSeconds report = 43200
        \<and> wasMaxed report
        \<and> gains report = [(''energy'', 43200), (''materials'', 21600), (''research'', 8640)]
        \<and> get0 (resources (calculateOfflineProgress 100000000 away)) ''energy'' = 43300
        \<and> get0 (resources (calculateOfflineProgress 100000000 away)) ''materials'' = 21650
        \<and> get0 (resources (calculateOfflineProgress 100000000 away)) ''research'' = 8640)"
proof -
  have l: "lastSaveAt away = Some 1000" by (simp add: away_def)
  have p: "production away = BASE_PRODUCTION" "resources away = STARTING_RESOURCES"
    by (simp_all add: away_def getDefaultState_def)
  have g: "gainsOf BASE_PRODUCTION 43200
      = [(''energy'', 43200), (''materials'', 21600), (''research'', 8640)]"
    by (simp add: gainsOf_def rate_of_def BASE_PRODUCTION_def)
  have r: "get0 STARTING_RESOURCES ''energy'' = 100" "get0 STARTING_RESOURCES ''materials'' = 50"
      "get0 STARTING_RESOURCES ''research'' = 0"
    by (simp_all add: STARTING_RESOURCES_def get0_def)
  from C8_offline_reconciliation [OF l, of 31000]
  have a: "calculateOfflineProgress 31000 away = away\<lparr>offlineProgress := None\<rparr>" by simp
  from C8_offline_reconciliation [OF l, of 100000000]
  obtain report where
    "offlineProgress (calculateOfflineProgress 100000000 away) = Some report"
    "last (emitted (calculateOfflineProgress 100000000 away)) = OfflineProgress report"
    "offlineSeconds report = of_int (MAX_OFFLINE_HOURS * 60 * 60)"
    "effectiveSeconds report = of_int (MAX_OFFLINE_HOURS * 60 * 60) * OFFLINE_EFFICIENCY"
    "wasMaxed report"
    "gains report = gainsOf (production away) (of_int (MAX_OFFLINE_HOURS * 60 * 60) * OFFLINE_EFFICIENCY)"
    "\<forall>k. get0 (resources (calculateOfflineProgress 100000000 away)) k =
          get0 (resources away) k + max 0 (get0 (gains report) k)"
    by (auto simp: MAX_OFFLINE_HOURS_def)
  then have "offlineProgress (calculateOfflineProgress 100000000 away) = Some report
        \<and> last (emitted (calculateOfflineProgress 100000000 away)) = OfflineProgress report
        \<and> offlineSeconds report = 86400
        \<and> effectiveSeconds report = 43200
        \<and> wasMaxed report
        \<and> gains report = [(''energy'', 43200), (''materials'', 21600), (''research'', 8640)]
        \<and> get0 (resources (calculateOfflineProgress 100000000 away)) ''energy'' = 43300
        \<and> get0 (resources (calculateOfflineProgress 100000000 away)) ''materials'' = 21650
        \<and> get0 (resources (calculateOfflineProgress 100000000 away)) ''research'' = 8640"
    by (simp add: p g r get0_Cons MAX_OFFLINE_HOURS_def OFFLINE_EFFICIENCY_def)
  with a show ?thesis by blast
qed

text \<open>
  C9 as claimed: flooring happens only in the cancellation refund, in particular not when
  offline gains are credited. It does happen there: \<open>calculateOfflineProgress\<close> floors
  each gain before adding it. After a gap of 61 seconds at the base materials rate of
  0.5 per second and efficiency 0.5 the exact gain would be 15.25; the code credits 15.
\<close>

theorem C9_counterexample:
  "get0 (resources away) ''materials'' = 50
   \<and> p_materials (production away) * (61 * OFFLINE_EFFICIENCY) = 61 / 4
   \<and> get0 (resources (calculateOfflineProgress 62000 away)) ''materials'' = 65
   \<and> get0 (resources (calculateOfflineProgress 62000 away)) ''materials''
       \<noteq> get0 (resources away) ''materials'' + p_materials (production away) * (61 * OFFLINE_EFFICIENCY)"
proof -
  have l: "lastSaveAt away = Some 1000" by (simp add: away_def)
  have p: "production away = BASE_PRODUCTION" "resources away = STARTING_RESOURCES"
    by (simp_all add: away_def getDefaultState_def)
  have fl: "\<lfloor>61 / 4 :: rat\<rfloor> = 15" by (simp add: floor_eq_iff)
  have e: "effectiveOf 62000 1000 = 61 / 2"
    by (simp add: effectiveOf_def offlineMsOf_def MAX_OFFLINE_HOURS_def OFFLINE_EFFICIENCY_def)
  have "get0 (resources (calculateOfflineProgress 62000 away)) ''materials'' =
      get0 (resources away) ''materials''
        + max 0 (of_int \<lfloor>rate_of (production away) ''materials'' * effectiveOf 62000 1000\<rfloor>)"
    by (rule resources_offline [OF l]) simp_all
  also have "\<dots> = 65"
    by (simp add: e p fl rate_of_def BASE_PRODUCTION_def STARTING_RESOURCES_def get0_def)
  finally show ?thesis
    by (simp add: p BASE_PRODUCTION_def STARTING_RESOURCES_def get0_def OFFLINE_EFFICIENCY_def)
qed

text \<open>
  C9 amended. \<open>addResource\<close> credits exactly the amount it is given, and so do the
  per-tick income and the milestone rewards, which pass their amounts unrounded. Two
  callers floor to whole units before they add: the cancellation refund
  (\<open>floor(amount * multiplier)\<close> per cost kind, multiplier 0.5 once progress is positive,
  else 1) and the offline reconciliation (\<open>floor(rate * effectiveSeconds)\<close> per kind,
  credited when positive).
\<close>

theorem C9_rounding:
  "get0 (resources (addResource k a s)) k = get0 (resources s) k + a
   \<and> (\<forall>k. get0 (resources (rs_update deltaTime s)) k =
          get0 (resources s) k
            + (if rate_of (production s) k > 0 then rate_of (production s) k * deltaTime else 0))
   \<and> (distinct (map fst reward) \<longrightarrow>
        (\<forall>k. k \<noteq> ''sandbox_mode'' \<longrightarrow>
           get0 (resources (grantRewards reward s)) k = get0 (resources s) k + get0 reward k))
   \<and> (0 \<le> index \<and> index < int (length (constructionQueue s))
        \<and> map_of (STRUCTURES cat) (qi_structureId (constructionQueue s ! nat index)) = Some structure
        \<and> distinct (map fst (st_cost structure)) \<longrightarrow>
        (\<exists>s'. cancel cat index s = Inr (True, s')
           \<and> (\<forall>k. get0 (resources s') k =
                 get0 (resources s) k
                   + of_int \<lfloor>get0 (st_cost structure) k
                       * (if qi_progress (constructionQueue s ! nat index) > 0 then 1 / 2 else 1)\<rfloor>)))
   \<and> (lastSaveAt s = Some saved \<and> saved \<noteq> 0 \<and> now - saved \<ge> 60000 \<longrightarrow>
        (\<forall>k. get0 (resources (calculateOfflineProgress now s)) k =
           get0 (resources s) k
             + max 0 (of_int \<lfloor>rate_of (production s) k * effectiveOf now saved\<rfloor>)))"
proof -
  have c: "\<exists>s'. cancel cat index s = Inr (True, s')
           \<and> (\<forall>k. get0 (resources s') k =
                 get0 (resources s) k
                   + of_int \<lfloor>get0 (st_cost structure) k
                       * (if qi_progress (constructionQueue s ! nat index) > 0 then 1 / 2 else 1)\<rfloor>)"
    if "0 \<le> index" "index < int (length (constructionQueue s))"
      "map_of (STRUCTURES cat) (qi_structureId (constructionQueue s ! nat index)) = Some structure"
      "distinct (map fst (st_cost structure))"
    using that by (simp add: cancel_def Let_def resources_refund)
  show ?thesis
    using c by (simp add: resources_addResource resources_rs_update resources_grantRewards
        resources_offline)
qed

text \<open>One state that exercises all five parts.\<close>

theorem C9_rounding_witness:
  "get0 (resources (addResource ''energy'' (1 / 3) away_building)) ''energy'' = 100 + 1 / 3
   \<and> get0 (resources (rs_update (1 / 60) away_building)) ''materials'' = 50 + 1 / 120
   \<and> get0 (resources (grantRewards [(''energy'', 100), (''materials'', 50)] away_building)) ''materials'' = 100
   \<and> (\<exists>s'. cancel repo 0 away_building = Inr (True, s')
         \<and> get0 (resources s') ''energy'' = 125 \<and> get0 (resources s') ''materials'' = 100)
   \<and> get0 (resources (calculateOfflineProgress 62000 away_building)) ''materials'' = 65"
proof -
  let ?pad = "\<lparr>st_cost = [(''energy'', 50), (''materials'', 100)], st_buildTime = 10,
       st_production = no_production\<lparr>up_launchCapacity := 1\<rparr>,
       st_limit = Some 5, st_requiresTech = ''basic_rocketry''\<rparr>"
  have fl: "\<lfloor>61 / 4 :: rat\<rfloor> = 15" by (simp add: floor_eq_iff)
  have e: "effectiveOf 62000 1000 = 61 / 2"
    by (simp add: effectiveOf_def offlineMsOf_def MAX_OFFLINE_HOURS_def OFFLINE_EFFICIENCY_def)
  have st: "lastSaveAt away_building = Some 1000" "constructionQueue away_building = [pad_started]"
      "production away_building = BASE_PRODUCTION" "resources away_building = STARTING_RESOURCES"
    by (simp_all add: away_building_def getDefaultState_def)
  have r: "get0 STARTING_RESOURCES ''energy'' = 100" "get0 STARTING_RESOURCES ''materials'' = 50"
    by (simp_all add: STARTING_RESOURCES_def get0_def)
  have rt: "rate_of BASE_PRODUCTION ''materials'' = 1 / 2"
    by (simp add: rate_of_def BASE_PRODUCTION_def)
  have pad: "map_of (STRUCTURES repo) (qi_structureId (constructionQueue away_building ! nat 0)) = Some ?pad"
    by (simp add: st pad_started_def launch_pad_repo)
  have pr: "qi_progress (constructionQueue away_building ! nat 0) = 3"
    by (simp add: st pad_started_def)
  note inst = C9_rounding [of "''energy''" "1 / 3" away_building "1 / 60"
      "[(''energy'', 100), (''materials'', 50)]" 0 repo ?pad 1000 62000]
  from inst have 1: "get0 (resources (addResource ''energy'' (1 / 3) away_building)) ''energy'' = 100 + 1 / 3"
    by (simp add: st r)
  from inst have "get0 (resources (rs_update (1 / 60) away_building)) ''materials'' =
      get0 (resources away_building) ''materials''
        + (if rate_of (production away_building) ''materials'' > 0
           then rate_of (production away_building) ''materials'' * (1 / 60) else 0)"
    by blast
  then have 2: "get0 (resources (rs_update (1 / 60) away_building)) ''materials'' = 50 + 1 / 120"
    by (simp add: st r rt)
  from inst have "get0 (resources (grantRewards [(''energy'', 100), (''materials'', 50)] away_building)) ''materials''
      = get0 (resources away_building) ''materials'' + get0 [(''energy'', 100), (''materials'', 50)] ''materials''"
    by simp
  then have 3: "get0 (resources (grantRewards [(''energy'', 100), (''materials'', 50)] away_building)) ''materials'' = 100"
    by (simp add: st r get0_Cons)
  from inst pad have "\<exists>s'. cancel repo 0 away_building = Inr (True, s')
           \<and> (\<forall>k. get0 (resources s') k =
                 get0 (resources away_building) k
                   + of_int \<lfloor>get0 (st_cost ?pad) k
                       * (if qi_progress (constructionQueue away_building ! nat 0) > 0 then 1 / 2 else 1)\<rfloor>)"
    by (simp add: st)
  then obtain s' where c: "cancel repo 0 away_building = Inr (True, s')"
    and cr: "\<And>k. get0 (resources s') k =
                 get0 (resources away_building) k
                   + of_int \<lfloor>get0 (st_cost ?pad) k
                       * (if qi_progress (constructionQueue away_building ! nat 0) > 0 then 1 / 2 else 1)\<rfloor>"
    by blast
  have 4: "get0 (resources s') ''energy'' = 125" "get0 (resources s') ''materials'' = 100"
    by (simp_all add: cr st r get0_Cons pad_started_def)
  from inst have "get0 (resources (calculateOfflineProgress 62000 away_building)) ''materials'' =
           get0 (resources away_building) ''materials''
             + max 0 (of_int \<lfloor>rate_of (production away_building) ''materials'' * effectiveOf 62000 1000\<rfloor>)"
    by (simp add: st)
  then have 5: "get0 (resources (calculateOfflineProgress 62000 away_building)) ''materials'' = 65"
    by (simp add: st r rt e fl)
  from 1 2 3 c 4 5 show ?thesis by blast
qed

section \<open>Eras\<close>

lemma setEra_frame [simp]:
  "lastSaveAt (setEra era s) = lastSaveAt s"
  "resources (setEra era s) = resources s"
  "production (setEra era s) = production s"
  "structures (setEra era s) = structures s"
  "constructionQueue (setEra era s) = constructionQueue s"
  "completedResearch (setEra era s) = completedResearch s"
  "researchQueue (setEra era s) = researchQueue s"
  "researchProgressMap (setEra era s) = researchProgressMap s"
  "maxResearchSlots (setEra era s) = maxResearchSlots s"
  "autoResearch (setEra era s) = autoResearch s"
  "solarCapture (setEra era s) = solarCapture s"
  "claimedMilestones (setEra era s) = claimedMilestones s"
  "stats (setEra era s) = stats s"
  "flags (setEra era s) = flags s"
  "rs_modifiers (setEra era s) = rs_modifiers s"
  "rs_logistics (setEra era s) = rs_logistics s"
  "autoBuildProgress (setEra era s) = autoBuildProgress s"
  "ps_researchQueue (setEra era s) = ps_researchQueue s"
  "ps_researchProgressMap (setEra era s) = ps_researchProgressMap s"
  "offlineProgress (setEra era s) = offlineProgress s"
  by (simp_all add: setEra_def Let_def)

lemma advanceToEra_frame [simp]:
  "lastSaveAt (advanceToEra era s) = lastSaveAt s"
  "resources (advanceToEra era s) = resources s"
  "production (advanceToEra era s) = production s"
  "structures (advanceToEra era s) = structures s"
  "constructionQueue (advanceToEra era s) = constructionQueue s"
  "completedResearch (advanceToEra era s) = completedResearch s"
  "researchQueue (advanceToEra era s) = researchQueue s"
  "researchProgressMap (advanceToEra era s) = researchProgressMap s"
  "maxResearchSlots (advanceToEra era s) = maxResearchSlots s"
  "autoResearch (advanceToEra era s) = autoResearch s"
  "solarCapture (advanceToEra era s) = solarCapture s"
  "claimedMilestones (advanceToEra era s) = claimedMilestones s"
  "stats (advanceToEra era s) = stats s"
  "flags (advanceToEra era s) = flags s"
  "rs_modifiers (advanceToEra era s) = rs_modifiers s"
  "rs_logistics (advanceToEra era s) = rs_logistics s"
  "autoBuildProgress (advanceToEra era s) = autoBuildProgress s"
  "ps_researchQueue (advanceToEra era s) = ps_researchQueue s"
  "ps_researchProgressMap (advanceToEra era s) = ps_researchProgressMap s"
  "offlineProgress (advanceToEra era s) = offlineProgress s"
  by (simp_all add: advanceToEra_def split: option.splits)

lemma eraLoop_frame [simp]:
  "lastSaveAt (eraLoop eras c0 sc s) = lastSaveAt s"
  "resources (eraLoop eras c0 sc s) = resources s"
  "production (eraLoop eras c0 sc s) = production s"
  "structures (eraLoop eras c0 sc s) = structures s"
  "constructionQueue (eraLoop eras c0 sc s) = constructionQueue s"
  "completedResearch (eraLoop eras c0 sc s) = completedResearch s"
  "researchQueue (eraLoop eras c0 sc s) = researchQueue s"
  "researchProgressMap (eraLoop eras c0 sc s) = researchProgressMap s"
  "maxResearchSlots (eraLoop eras c0 sc s) = maxResearchSlots s"
  "autoResearch (eraLoop eras c0 sc s) = autoResearch s"
  "solarCapture (eraLoop eras c0 sc s) = solarCapture s"
  "claimedMilestones (eraLoop eras c0 sc s) = claimedMilestones s"
  "stats (eraLoop eras c0 sc s) = stats s"
  "flags (eraLoop eras c0 sc s) = flags s"
  "rs_modifiers (eraLoop eras c0 sc s) = rs_modifiers s"
  "rs_logistics (eraLoop eras c0 sc s) = rs_logistics s"
  "autoBuildProgress (eraLoop eras c0 sc s) = autoBuildProgress s"
  "ps_researchQueue (eraLoop eras c0 sc s) = ps_researchQueue s"
  "ps_researchProgressMap (eraLoop eras c0 sc s) = ps_researchProgressMap s"
  "offlineProgress (eraLoop eras c0 sc s) = offlineProgress s"
  by (induction eras c0 sc s rule: eraLoop.induct) simp_all

lemma checkEraProgression_frame [simp]:
  "lastSaveAt (checkEraProgression s) = lastSaveAt s"
  "resources (checkEraProgression s) = resources s"
  "production (checkEraProgression s) = production s"
  "structures (checkEraProgression s) = structures s"
  "constructionQueue (checkEraProgression s) = constructionQueue s"
  "completedResearch (checkEraProgression s) = completedResearch s"
  "researchQueue (checkEraProgression s) = researchQueue s"
  "researchProgressMap (checkEraProgression s) = researchProgressMap s"
  "maxResearchSlots (checkEraProgression s) = maxResearchSlots s"
  "autoResearch (checkEraProgression s) = autoResearch s"
  "solarCapture (checkEraProgression s) = solarCapture s"
  "claimedMilestones (checkEraProgression s) = claimedMilestones s"
  "stats (checkEraProgression s) = stats s"
  "flags (checkEraProgression s) = flags s"
  "rs_modifiers (checkEraProgression s) = rs_modifiers s"
  "rs_logistics (checkEraProgression s) = rs_logistics s"
  "autoBuildProgress (checkEraProgression s) = autoBuildProgress s"
  "ps_researchQueue (checkEraProgression s) = ps_researchQueue s"
  "ps_researchProgressMap (checkEraProgression s) = ps_researchProgressMap s"
  "offlineProgress (checkEraProgression s) = offlineProgress s"
  by (simp_all add: checkEraProgression_def)

lemma currentEra_setEra: "currentEra (setEra era s) = max (currentEra s) era"
  by (simp add: setEra_def Let_def emit_def)

lemma currentEra_advanceToEra:
  "currentEra (advanceToEra era s) =
     (if map_of ERAS era = None then currentEra s else max (currentEra s) era)"
  by (auto simp: advanceToEra_def currentEra_setEra emit_def split: option.splits)

lemma Max_insert_max:
  fixes a e :: int
  assumes "finite R"
  shows "Max (insert (max a e) R) = Max (insert a (insert e R))"
  using assms by (cases "R = {}") (simp_all add: max.assoc)

lemma Max_insert_below:
  fixes a e :: int
  assumes "finite R" and "e \<le> a"
  shows "Max (insert a R) = Max (insert a (insert e R))"
proof -
  from assms(2) have "max a e = a" by simp
  with Max_insert_max [OF assms(1), of a e] show ?thesis by simp
qed

lemma eraLoop_currentEra:
  assumes "\<forall>x \<in> set eras. map_of ERAS (fst x) \<noteq> None" and "c0 \<le> currentEra s"
  shows "currentEra (eraLoop eras c0 sc s) =
     Max (insert (currentEra s) (set (map fst (filter (\<lambda>(era, threshold). sc \<ge> threshold) eras))))"
  using assms
proof (induction eras arbitrary: s)
  case Nil
  then show ?case by simp
next
  case (Cons x eras)
  obtain e th where x: "x = (e, th)" by (cases x)
  define R where "R = set (map fst (filter (\<lambda>(era, threshold). sc \<ge> threshold) eras))"
  have fin: "finite R" by (simp add: R_def)
  define s1 where "s1 = (if e > c0 \<and> sc \<ge> th then advanceToEra e s else s)"
  from Cons.prems x have known: "map_of ERAS e \<noteq> None" by simp
  have c1: "currentEra s1 = (if e > c0 \<and> sc \<ge> th then max (currentEra s) e else currentEra s)"
    using known by (auto simp: s1_def currentEra_advanceToEra)
  have le1: "c0 \<le> currentEra s1" using Cons.prems(2) by (auto simp: c1)
  from Cons.prems have "\<forall>x \<in> set eras. map_of ERAS (fst x) \<noteq> None" by simp
  from Cons.IH [OF this le1]
  have ih: "currentEra (eraLoop eras c0 sc s1) = Max (insert (currentEra s1) R)"
    by (simp add: R_def)
  have step: "Max (insert (currentEra s1) R) =
        Max (insert (currentEra s) (if sc \<ge> th then insert e R else R))"
  proof (cases "sc \<ge> th")
    case False
    then show ?thesis by (simp add: c1)
  next
    case True
    show ?thesis
    proof (cases "e > c0")
      case True
      with \<open>sc \<ge> th\<close> have "currentEra s1 = max (currentEra s) e" by (simp add: c1)
      with Max_insert_max [OF fin] \<open>sc \<ge> th\<close> show ?thesis by simp
    next
      case False
      with Cons.prems(2) have le: "e \<le> currentEra s" by simp
      from False have "currentEra s1 = currentEra s" by (simp add: c1)
      with Max_insert_below [OF fin le] \<open>sc \<ge> th\<close> show ?thesis by simp
    qed
  qed
  have "set (map fst (filter (\<lambda>(era, threshold). sc \<ge> threshold) (x # eras)))
      = (if sc \<ge> th then insert e R else R)"
    by (simp add: x R_def)
  moreover have "eraLoop (x # eras) c0 sc s = eraLoop eras c0 sc s1"
    by (simp add: x s1_def)
  ultimately show ?case using ih step by simp
qed

lemma checkEraProgression_currentEra:
  "currentEra (checkEraProgression s) =
     Max (insert (currentEra s) (set (qualifyingEras (solarCapture s))))"
  unfolding checkEraProgression_def qualifyingEras_def
  by (rule eraLoop_currentEra) (simp_all add: map_of_eq_None_iff)

lemma checkEraProgression_mono: "currentEra s \<le> currentEra (checkEraProgression s)"
  by (simp add: checkEraProgression_currentEra)

lemma ps_update_currentEra: "currentEra s \<le> currentEra (ps_update cat deltaTime s)"
proof -
  define s1 where "s1 = (if length (ps_researchQueue s) > 0 then progressAllResearch cat deltaTime s else s)"
  have "currentEra s = currentEra s1" by (simp add: s1_def)
  also have "\<dots> \<le> currentEra (checkEraProgression s1)" by (rule checkEraProgression_mono)
  also have "\<dots> = currentEra (ps_update cat deltaTime s)" by (simp add: ps_update_def s1_def)
  finally show ?thesis .
qed

lemma tick_currentEra: "currentEra s \<le> currentEra (after (tick cat deltaTime s))"
proof (cases "cs_update cat deltaTime (rs_update deltaTime s)")
  case (Inl e)
  then obtain err s' where "cs_update cat deltaTime (rs_update deltaTime s) = Inl (err, s')"
    by (cases e) auto
  then show ?thesis
    using cs_update_frame(7) [of cat deltaTime "rs_update deltaTime s"]
    by (simp add: tick_def)
next
  case (Inr s')
  then show ?thesis
    using cs_update_frame(7) [of cat deltaTime "rs_update deltaTime s"]
      ps_update_currentEra [of s' cat deltaTime]
    by (simp add: tick_def)
qed

lemma cancel_currentEra:
  "currentEra (case cancel cat index s of Inl (e, s') \<Rightarrow> s' | Inr (b, s') \<Rightarrow> s') = currentEra s"
  by (simp add: cancel_def Let_def split: option.splits)

lemma exec_currentEra: "currentEra s \<le> currentEra (exec cat cmd s)"
  by (cases cmd) (simp_all add: tick_currentEra cancel_currentEra)

lemma run_currentEra: "currentEra s \<le> currentEra (run cat cmds s)"
  unfolding run_def
proof (induction cmds arbitrary: s)
  case Nil
  then show ?case by simp
next
  case (Cons c cmds)
  have "currentEra s \<le> currentEra (exec cat c s)" by (rule exec_currentEra)
  also have "\<dots> \<le> currentEra (foldl (\<lambda>s' cmd. exec cat cmd s') (exec cat c s) cmds)"
    by (rule Cons.IH)
  finally show ?case by simp
qed

text \<open>
  C7. The current era never decreases: \<open>setEra\<close> never lowers it, whatever era it is
  given; setting the solar capture, to a lower value or not, leaves it alone; and every
  inbound command, and so every sequence of commands, leaves it at least as high as
  before. One evaluation of \<open>checkEraProgression\<close> ends at the highest era among the
  current one and all eras whose threshold the solar capture meets, however many
  thresholds were crossed.
\<close>

theorem C7_era_monotone:
  "currentEra s \<le> currentEra (setEra era s)
   \<and> currentEra (setSolarCapture cat capture s) = currentEra s
   \<and> currentEra s \<le> currentEra (exec cat cmd s)
   \<and> currentEra s \<le> currentEra (run cat cmds s)
   \<and> currentEra (checkEraProgression s) =
       Max (insert (currentEra s) (set (qualifyingEras (solarCapture s))))"
  by (simp add: currentEra_setEra exec_currentEra run_currentEra checkEraProgression_currentEra)

text \<open>
  From era 1 with 5% capture one evaluation goes straight to era 3; a later \<open>setEra 0\<close>
  or a drop of the capture to 0 leaves era 3.
\<close>

theorem C7_era_monotone_witness:
  "currentEra crossing = 1 \<and> qualifyingEras (solarCapture crossing) = [1, 2, 3]
   \<and> currentEra (checkEraProgression crossing) = 3
   \<and> currentEra (setEra 0 (checkEraProgression crossing)) = 3
   \<and> currentEra (setSolarCapture repo 0 (checkEraProgression crossing)) = 3"
proof -
  have q: "qualifyingEras (solarCapture crossing) = [1, 2, 3]" and c: "currentEra crossing = 1"
    by (simp_all add: qualifyingEras_def crossing_def getDefaultState_def ERAS_def)
  from C7_era_monotone [of crossing 0 repo 0 "Tick 1" "[]"]
  have e: "currentEra (checkEraProgression crossing) = 3"
    by (simp add: q c)
  from C7_era_monotone [of "checkEraProgression crossing" 0 repo 0 "Tick 1" "[]"]
  have "currentEra (setSolarCapture repo 0 (checkEraProgression crossing)) = 3" by (simp add: e)
  moreover have "currentEra (setEra 0 (checkEraProgression crossing)) = 3"
    by (simp add: currentEra_setEra e)
  ultimately show ?thesis using q c e by simp
qed

section \<open>Milestones\<close>

lemma claimedEvents_append: "claimedEvents (es @ es') = claimedEvents es @ claimedEvents es'"
  by (induction es rule: claimedEvents.induct) simp_all

lemma victories_append: "victories (es @ es') = victories es + victories es'"
  by (simp add: victories_def)

lemma claimedEvents_neutral: "neutral e \<Longrightarrow> claimedEvents [e] = []"
  by (cases e) simp_all

lemma victories_neutral: "neutral e \<Longrightarrow> victories [e] = 0"
  by (cases e) (simp_all add: victories_def)

lemma mview_emit [simp]: "neutral e \<Longrightarrow> mview (emit e s) = mview s"
  by (simp add: mview_def emit_def claimedEvents_append victories_append
      claimedEvents_neutral victories_neutral)

lemma mview_update [simp]:
  "mview (s\<lparr>resources := r\<rparr>) = mview s"
  "mview (s\<lparr>flags := fl\<rparr>) = mview s"
  "mview (s\<lparr>stats := st\<rparr>) = mview s"
  "mview (s\<lparr>structures := sts\<rparr>) = mview s"
  "mview (s\<lparr>constructionQueue := q\<rparr>) = mview s"
  "mview (s\<lparr>production := p\<rparr>) = mview s"
  "mview (s\<lparr>solarCapture := sc\<rparr>) = mview s"
  "mview (s\<lparr>rs_modifiers := md\<rparr>) = mview s"
  "mview (s\<lparr>rs_logistics := lg\<rparr>) = mview s"
  "mview (s\<lparr>autoBuildProgress := ab\<rparr>) = mview s"
  "mview (s\<lparr>offlineProgress := op\<rparr>) = mview s"
  "mview (s\<lparr>completedResearch := cr\<rparr>) = mview s"
  "mview (s\<lparr>currentResearch := cu\<rparr>) = mview s"
  "mview (s\<lparr>researchProgress := rp\<rparr>) = mview s"
  "mview (s\<lparr>researchQueue := rq\<rparr>) = mview s"
  "mview (s\<lparr>researchProgressMap := rpm\<rparr>) = mview s"
  "mview (s\<lparr>ps_researchQueue := pq\<rparr>) = mview s"
  "mview (s\<lparr>ps_researchProgressMap := pm\<rparr>) = mview s"
  "mview (s\<lparr>maxResearchSlots := ms\<rparr>) = mview s"
  "mview (s\<lparr>autoResearch := ar\<rparr>) = mview s"
  "mview (s\<lparr>currentEra := ce\<rparr>) = mview s"
  by (simp_all add: mview_def)

lemma mview_addResource [simp]: "mview (addResource k a s) = mview s"
  by (simp add: addResource_def Let_def)

lemma mview_set_sandboxMode [simp]: "mview (set_sandboxMode s) = mview s"
  by (simp add: set_sandboxMode_def)

lemma mview_grantRewards [simp]: "mview (grantRewards rw s) = mview s"
  by (induction rw s rule: grantRewards.induct) simp_all

lemma mview_spendResource [simp]: "mview (snd (spendResource k a s)) = mview s"
  by (simp add: spendResource_def Let_def)

lemma mview_spend [simp]: "mview (snd (spend costs s)) = mview s"
  by (induction costs s rule: spend.induct) (auto split: prod.splits bool.splits dest!: pairD)

lemma mview_build [simp]: "mview (snd (build cat now sid s)) = mview s"
  by (simp add: build_def Let_def addToQueue_def split: option.splits)

lemma mview_refund [simp]: "mview (refund cost m s) = mview s"
  by (induction cost m s rule: refund.induct) simp_all

lemma mview_cancel [simp]:
  "mview (case cancel cat index s of Inl (e, s') \<Rightarrow> s' | Inr (b, s') \<Rightarrow> s') = mview s"
  by (simp add: cancel_def Let_def removeFromQueue_def split: option.splits)

lemma mview_rs_update [simp]: "mview (rs_update dt s) = mview s"
  by (simp add: rs_update_def Let_def)

lemma mview_applyGains [simp]: "mview (applyGains gs s) = mview s"
  by (induction gs s rule: applyGains.induct) simp_all

lemma mview_calculateOfflineProgress [simp]: "mview (calculateOfflineProgress now s) = mview s"
  by (simp add: calculateOfflineProgress_def Let_def split: option.splits)

lemma mview_syncStateWithQueue [simp]: "mview (syncStateWithQueue s) = mview s"
  by (simp add: syncStateWithQueue_def)

lemma mview_startResearch [simp]: "mview (snd (startResearch cat t s)) = mview s"
  by (simp add: startResearch_def Let_def split: option.splits)

lemma mview_tryAutoResearch [simp]: "mview (tryAutoResearch cat s) = mview s"
  by (simp add: tryAutoResearch_def split: list.splits)

lemma mview_addResearchSlot [simp]: "mview (addResearchSlot s) = mview s"
  by (simp add: addResearchSlot_def)

lemma mview_addResearchSlots [simp]: "mview ((addResearchSlot ^^ n) s) = mview s"
  by (induction n) simp_all

lemma mview_accrue [simp]: "mview (snd (accrue cat r dt q c s)) = mview s"
  by (induction cat r dt q c s rule: accrue.induct) (simp_all add: Let_def split: option.splits)

lemma mview_cancelResearch [simp]: "mview (snd (cancelResearch t s)) = mview s"
  by (simp add: cancelResearch_def Let_def)

lemma mview_setAutoResearch [simp]: "mview (setAutoResearch cat b s) = mview s"
  by (simp add: setAutoResearch_def Let_def)

lemma mview_setEra [simp]: "mview (setEra era s) = mview s"
  by (simp add: setEra_def Let_def)

lemma mview_advanceToEra [simp]: "mview (advanceToEra era s) = mview s"
  by (simp add: advanceToEra_def split: option.splits)

lemma mview_eraLoop [simp]: "mview (eraLoop eras c0 sc s) = mview s"
  by (induction eras c0 sc s rule: eraLoop.induct) simp_all

lemma mview_checkEraProgression [simp]: "mview (checkEraProgression s) = mview s"
  by (simp add: checkEraProgression_def)


lemma mview_triggerVictory:
  "mview (triggerVictory s) = (case mview s of (claimed, evs, n) \<Rightarrow> (claimed, evs, Suc n))"
  by (simp add: triggerVictory_def set_victoryAchieved_def mview_def emit_def
      claimedEvents_append victories_append victories_def)

lemma mview_claimMilestone:
  "mview (claimMilestone m s) =
     (if ms_id m \<in> set (claimedMilestones s) then mview s
      else (claimedMilestones s @ [ms_id m], claimedEvents (emitted s) @ [ms_id m],
            victories (emitted s) + (if ms_isVictory m then 1 else 0)))"
proof (cases "ms_id m \<in> set (claimedMilestones s)")
  case True
  then show ?thesis by (simp add: claimMilestone_def sm_claimMilestone_def)
next
  case False
  define s1 where "s1 = emit (MilestoneClaimed (ms_id m))
      (s\<lparr>claimedMilestones := claimedMilestones s @ [ms_id m]\<rparr>)"
  define s3 where "s3 = emit (Notification ''achievement'' (ms_id m)) (grantRewards (ms_reward m) s1)"
  have v1: "mview s1 = (claimedMilestones s @ [ms_id m], claimedEvents (emitted s) @ [ms_id m],
      victories (emitted s))"
    by (simp add: s1_def mview_def emit_def claimedEvents_append victories_append victories_def)
  have v3: "mview s3 = mview s1" by (simp add: s3_def)
  have c: "claimMilestone m s = (if ms_isVictory m then triggerVictory s3 else s3)"
    using False by (simp add: claimMilestone_def sm_claimMilestone_def s1_def s3_def Let_def)
  have "mview (triggerVictory s3) = (claimedMilestones s @ [ms_id m],
      claimedEvents (emitted s) @ [ms_id m], Suc (victories (emitted s)))"
    unfolding mview_triggerVictory v3 v1 by simp
  with False c v3 v1 show ?thesis by simp
qed

lemma claimMilestone_claimed:
  "ms_id m \<in> set (claimedMilestones s) \<Longrightarrow> claimMilestone m s = s"
  by (simp add: claimMilestone_def sm_claimMilestone_def)

lemma victoryId_member:
  assumes "distinct (map (\<lambda>entry. ms_id (snd entry)) (MILESTONES cat))"
    and "m \<in> set (map snd (MILESTONES cat))"
  shows "victoryId cat (ms_id m) = ms_isVictory m"
proof -
  from assms(1) have "distinct (map ms_id (map snd (MILESTONES cat)))"
    by (simp add: comp_def)
  then have inj: "inj_on ms_id (set (map snd (MILESTONES cat)))"
    by (rule distinct_map [THEN iffD1, THEN conjunct2])
  have "victoryId cat (ms_id m) =
      (\<exists>m' \<in> set (map snd (MILESTONES cat)). ms_id m' = ms_id m \<and> ms_isVictory m')"
    by (simp add: victoryId_def list_ex_iff)
  also have "\<dots> = ms_isVictory m"
    using inj assms(2) by (auto dest: inj_onD)
  finally show ?thesis .
qed

lemma claimMilestone_sinv:
  assumes "sinv cat c0 (mview s)" and "m \<in> set (map snd (MILESTONES cat))"
  shows "sinv cat c0 (mview (claimMilestone m s))"
proof (cases "ms_id m \<in> set (claimedMilestones s)")
  case True
  with assms(1) show ?thesis by (simp add: mview_claimMilestone)
next
  case False
  from assms(1) have d: "distinct (map (\<lambda>entry. ms_id (snd entry)) (MILESTONES cat))"
    by (simp add: sinv_def mview_def)
  from False have mv: "mview (claimMilestone m s) =
      (claimedMilestones s @ [ms_id m], claimedEvents (emitted s) @ [ms_id m],
       victories (emitted s) + (if ms_isVictory m then 1 else 0))"
    by (simp add: mview_claimMilestone)
  from victoryId_member [OF d assms(2)] assms(1) False show ?thesis
    unfolding mv by (auto simp: sinv_def mview_def)
qed

lemma claimAll_sinv:
  "sinv cat c0 (mview s) \<Longrightarrow> set ms \<subseteq> set (map snd (MILESTONES cat)) \<Longrightarrow>
     sinv cat c0 (mview (foldl (\<lambda>s' m. claimMilestone m s') s ms))"
  by (induction ms arbitrary: s) (simp_all add: claimMilestone_sinv)

lemma checkMilestones_sinv [simp]:
  "sinv cat c0 (mview s) \<Longrightarrow> sinv cat c0 (mview (checkMilestones cat s))"
  unfolding checkMilestones_def
  by (rule claimAll_sinv) (auto simp: getNewlyAchievedMilestones_def)

lemma setSolarCapture_sinv [simp]:
  "sinv cat c0 (mview s) \<Longrightarrow> sinv cat c0 (mview (setSolarCapture cat p s))"
  by (simp add: setSolarCapture_def Let_def)

lemma recalculateProduction_sinv [simp]:
  "sinv cat c0 (mview s) \<Longrightarrow> sinv cat c0 (mview (recalculateProduction cat s))"
  by (simp add: recalculateProduction_def Let_def)

lemma addStructure_sinv [simp]:
  "sinv cat c0 (mview s) \<Longrightarrow> sinv cat c0 (mview (addStructure cat sid s))"
  by (simp add: addStructure_def Let_def)

lemma completeConstruction_sinv [simp]:
  "sinv cat c0 (mview s) \<Longrightarrow> sinv cat c0 (mview (after (completeConstruction cat item s)))"
  by (simp add: completeConstruction_def Let_def removeFromQueue_def split: option.splits)

lemma autoLoop_sinv [simp]:
  "sinv cat c0 (mview s) \<Longrightarrow> sinv cat c0 (mview (after (autoLoop cat s)))"
proof (induction cat s rule: autoLoop.induct)
  case (1 cat s)
  show ?case
  proof (cases "autoBuildProgress s \<ge> 1 \<and> length (constructionQueue s) > 0")
    case False
    with "1.prems" show ?thesis by (subst autoLoop.simps) auto
  next
    case True
    show ?thesis
    proof (cases "completeConstruction cat (hd (constructionQueue s)) s")
      case (Inl e)
      obtain err s' where e: "e = (err, s')" by (cases e)
      from completeConstruction_sinv [OF "1.prems", of "hd (constructionQueue s)"] Inl e
      have "sinv cat c0 (mview s')" by simp
      with True Inl e show ?thesis by (subst autoLoop.simps) simp
    next
      case (Inr s')
      from completeConstruction_sinv [OF "1.prems", of "hd (constructionQueue s)"] Inr
      have "sinv cat c0 (mview (s'\<lparr>autoBuildProgress := autoBuildProgress s' - 1\<rparr>))" by simp
      from "1.IH" [OF True Inr this] True Inr show ?thesis
        by (subst autoLoop.simps) simp
    qed
  qed
qed

lemma applyAutoConstruction_sinv [simp]:
  "sinv cat c0 (mview s) \<Longrightarrow> sinv cat c0 (mview (after (applyAutoConstruction cat dt s)))"
  by (simp add: applyAutoConstruction_def Let_def)

lemma cs_update_sinv [simp]:
  "sinv cat c0 (mview s) \<Longrightarrow> sinv cat c0 (mview (after (cs_update cat dt s)))"
proof (cases "constructionQueue s")
  case Nil
  then show "sinv cat c0 (mview s) \<Longrightarrow> ?thesis" by (simp add: cs_update_def)
next
  case (Cons item0 rest)
  assume inv: "sinv cat c0 (mview s)"
  define item where "item = item0\<lparr>qi_progress := qi_progress item0 + dt * m_buildSpeed (rs_modifiers s)\<rparr>"
  define s1 where "s1 = emit (ConstructionProgress (qi_structureId item) (qi_progress item) (qi_buildTime item))
                      (s\<lparr>constructionQueue := item # rest\<rparr>)"
  have i1: "sinv cat c0 (mview s1)" using inv by (simp add: s1_def)
  show ?thesis
  proof (cases "qi_progress item \<ge> qi_buildTime item")
    case False
    with Cons i1 show ?thesis
      by (simp add: cs_update_def Let_def item_def s1_def)
  next
    case True
    show ?thesis
    proof (cases "completeConstruction cat item s1")
      case (Inl e)
      obtain err s' where e: "e = (err, s')" by (cases e)
      from completeConstruction_sinv [OF i1, of item] Inl e have "sinv cat c0 (mview s')" by simp
      with Cons True Inl e show ?thesis
        by (simp add: cs_update_def Let_def item_def s1_def)
    next
      case (Inr s2)
      from completeConstruction_sinv [OF i1, of item] Inr have "sinv cat c0 (mview s2)" by simp
      then have "sinv cat c0 (mview (after (applyAutoConstruction cat dt s2)))" by simp
      with Cons True Inr show ?thesis
        by (simp add: cs_update_def Let_def item_def s1_def)
    qed
  qed
qed

lemma onResearchComplete_sinv [simp]:
  "sinv cat c0 (mview s) \<Longrightarrow> sinv cat c0 (mview (onResearchComplete cat s))"
  by (simp add: onResearchComplete_def)

lemma sm_completeResearch_sinv [simp]:
  "sinv cat c0 (mview s) \<Longrightarrow> sinv cat c0 (mview (sm_completeResearch cat t s))"
  by (simp add: sm_completeResearch_def Let_def)

lemma completeResearch_sinv [simp]:
  "sinv cat c0 (mview s) \<Longrightarrow> sinv cat c0 (mview (completeResearch cat t s))"
  by (simp add: completeResearch_def Let_def split: option.splits)

lemma completeAll_sinv [simp]:
  "sinv cat c0 (mview s) \<Longrightarrow>
     sinv cat c0 (mview (foldl (\<lambda>s' techId. completeResearch cat techId s') s ts))"
  by (induction ts arbitrary: s) simp_all

lemma progressAllResearch_sinv [simp]:
  "sinv cat c0 (mview s) \<Longrightarrow> sinv cat c0 (mview (progressAllResearch cat dt s))"
proof -
  assume inv: "sinv cat c0 (mview s)"
  obtain completed s1 where a: "accrue cat (p_research (production s) / of_nat (length (ps_researchQueue s))) dt
      (ps_researchQueue s) [] s = (completed, s1)"
    by (cases "accrue cat (p_research (production s) / of_nat (length (ps_researchQueue s))) dt
      (ps_researchQueue s) [] s")
  from a have "s1 = snd (accrue cat (p_research (production s) / of_nat (length (ps_researchQueue s))) dt
      (ps_researchQueue s) [] s)" by simp
  with inv have "sinv cat c0 (mview s1)" by simp
  with inv a show ?thesis by (simp add: progressAllResearch_def Let_def)
qed

lemma ps_update_sinv [simp]:
  "sinv cat c0 (mview s) \<Longrightarrow> sinv cat c0 (mview (ps_update cat dt s))"
  by (simp add: ps_update_def Let_def)

lemma tick_sinv [simp]:
  "sinv cat c0 (mview s) \<Longrightarrow> sinv cat c0 (mview (after (tick cat dt s)))"
proof -
  assume inv: "sinv cat c0 (mview s)"
  then have i1: "sinv cat c0 (mview (after (cs_update cat dt (rs_update dt s))))" by simp
  show ?thesis
  proof (cases "cs_update cat dt (rs_update dt s)")
    case (Inl e)
    obtain err s' where e: "e = (err, s')" by (cases e)
    with i1 Inl show ?thesis by (simp add: tick_def)
  next
    case (Inr s')
    with i1 show ?thesis by (simp add: tick_def)
  qed
qed

lemma exec_sinv: "sinv cat c0 (mview s) \<Longrightarrow> sinv cat c0 (mview (exec cat cmd s))"
  by (cases cmd) simp_all

lemma run_sinv: "sinv cat c0 (mview s) \<Longrightarrow> sinv cat c0 (mview (run cat cmds s))"
  unfolding run_def by (induction cmds arbitrary: s) (simp_all add: exec_sinv)

lemma checkMilestoneCondition_claimMilestone:
  "checkMilestoneCondition cat c (claimMilestone m s) = checkMilestoneCondition cat c s"
  by (cases c) simp_all

lemma checkMilestones_again:
  "checkMilestones cat (checkMilestones cat s) = checkMilestones cat s"
proof -
  have cond: "checkMilestoneCondition cat c (foldl (\<lambda>s' m. claimMilestone m s') s ms)
      = checkMilestoneCondition cat c s" for c ms s
    by (induction ms arbitrary: s) (simp_all add: checkMilestoneCondition_claimMilestone)
  have grow: "set (claimedMilestones s) \<subseteq> set (claimedMilestones (claimMilestone m s))
      \<and> ms_id m \<in> set (claimedMilestones (claimMilestone m s))" for m s
    using mview_claimMilestone [of m s] by (auto simp: mview_def split: if_splits)
  have all: "set (claimedMilestones s) \<union> ms_id ` set ms
      \<subseteq> set (claimedMilestones (foldl (\<lambda>s' m. claimMilestone m s') s ms))" for ms s
  proof (induction ms arbitrary: s)
    case Nil
    then show ?case by simp
  next
    case (Cons m ms)
    from Cons.IH [of "claimMilestone m s"] grow [of s m] show ?case by auto
  qed
  define s' where "s' = checkMilestones cat s"
  have "getNewlyAchievedMilestones cat s' = []"
  proof -
    have "\<not> (ms_id m \<notin> set (claimedMilestones s') \<and> checkMilestoneCondition cat (ms_condition m) s')"
      if "m \<in> set (map snd (MILESTONES cat))" for m
    proof
      assume h: "ms_id m \<notin> set (claimedMilestones s') \<and> checkMilestoneCondition cat (ms_condition m) s'"
      then have c: "checkMilestoneCondition cat (ms_condition m) s"
        by (simp add: s'_def checkMilestones_def cond)
      from h all [of s "getNewlyAchievedMilestones cat s"]
      have n0: "ms_id m \<notin> set (claimedMilestones s)"
        and n1: "m \<notin> set (getNewlyAchievedMilestones cat s)"
        by (auto simp: s'_def checkMilestones_def)
      from n0 c that have "m \<in> set (getNewlyAchievedMilestones cat s)"
        by (simp add: getNewlyAchievedMilestones_def)
      with n1 show False by simp
    qed
    then show ?thesis
      by (auto simp: getNewlyAchievedMilestones_def filter_empty_conv)
  qed
  then have "checkMilestones cat s' = s'" by (simp add: checkMilestones_def)
  then show ?thesis by (simp add: s'_def)
qed

lemmas eval_defs = run_def tick_def rs_update_def cs_update_def ps_update_def
  applyAutoConstruction_def completeConstruction_def removeFromQueue_def addStructure_def
  recalculateProduction_def setSolarCapture_def getTechModifiers_def initialTotals_def
  plus_if_def times_if_def applyEffects_def
  checkMilestones_def getNewlyAchievedMilestones_def
  getDefaultState_def geti0_def get0_def claimMilestone_def sm_claimMilestone_def emit_def
  set_sandboxMode_def triggerVictory_def set_victoryAchieved_def addResource_def Let_def
  checkEraProgression_def ERAS_def advanceToEra_def setEra_def tryAutoResearch_def
  progressAllResearch_def BASE_PRODUCTION_def STARTING_RESOURCES_def no_production_def
  no_effects_def getTotalStructures_def after_def

lemma near_victory_run:
  "claimedMilestones (run repo [Tick (1 / 60), Tick (1 / 60)] near_victory) =
     claimedMilestones near_victory @ [''capture_100'', ''dyson_10000'']"
  by (simp add: eval_defs repo_def repo_MILESTONES_def repo_STRUCTURES_def repo_TECH_TREE_def
      near_victory_def satellite_def cong: let_weak_cong)

text \<open>
  C6. Every milestone is claimed at most once. Starting a session from a state whose
  claimed list has no duplicates (the trace of the session is empty at its start), with a
  milestone catalog whose ids are distinct, after any sequence of commands: the claimed
  list still has no duplicates; it is the initial list followed by exactly the ids of the
  \<open>milestone:claimed\<close> events of the session, so no id is announced twice and none that
  was claimed before is announced again; the number of \<open>game:victory\<close> events equals the
  number of victory-flagged milestones claimed in the session, so each of them raises the
  event once; claiming a milestone that is in the claimed list changes nothing, neither
  the resources nor the trace; and evaluating the milestones a second time on the same
  state changes nothing.
\<close>

theorem C6_milestones_once:
  assumes "distinct (map (\<lambda>entry. ms_id (snd entry)) (MILESTONES cat))"
    and "distinct (claimedMilestones s0)"
    and "emitted s0 = []"
  shows "distinct (claimedMilestones (run cat cmds s0))
    \<and> claimedMilestones (run cat cmds s0) = claimedMilestones s0 @ claimedEvents (emitted (run cat cmds s0))
    \<and> victories (emitted (run cat cmds s0))
        = length (filter (victoryId cat) (claimedEvents (emitted (run cat cmds s0))))
    \<and> (\<forall>m. ms_id m \<in> set (claimedMilestones (run cat cmds s0))
          \<longrightarrow> claimMilestone m (run cat cmds s0) = run cat cmds s0)
    \<and> checkMilestones cat (checkMilestones cat (run cat cmds s0)) = checkMilestones cat (run cat cmds s0)"
proof -
  from assms have "sinv cat (claimedMilestones s0) (mview s0)"
    by (simp add: sinv_def mview_def victories_def)
  then have "sinv cat (claimedMilestones s0) (mview (run cat cmds s0))" by (rule run_sinv)
  then show ?thesis
    by (auto simp: sinv_def mview_def claimMilestone_claimed checkMilestones_again)
qed

theorem C6_milestones_once_witness:
  "distinct (claimedMilestones (run repo [Tick (1 / 60), Tick (1 / 60)] near_victory))
   \<and> claimedEvents (emitted (run repo [Tick (1 / 60), Tick (1 / 60)] near_victory))
       = [''capture_100'', ''dyson_10000'']
   \<and> victories (emitted (run repo [Tick (1 / 60), Tick (1 / 60)] near_victory)) = 1
   \<and> checkMilestones repo (checkMilestones repo (run repo [Tick (1 / 60), Tick (1 / 60)] near_victory))
       = checkMilestones repo (run repo [Tick (1 / 60), Tick (1 / 60)] near_victory)"
proof -
  have ids: "distinct (map (\<lambda>entry. ms_id (snd entry)) (MILESTONES repo))"
    by (simp add: repo_def repo_MILESTONES_def)
  have start: "distinct (claimedMilestones near_victory)" "emitted near_victory = []"
    by (simp_all add: near_victory_def getDefaultState_def)
  note inst = C6_milestones_once [OF ids start, of "[Tick (1 / 60), Tick (1 / 60)]"]
  have evs: "claimedEvents (emitted (run repo [Tick (1 / 60), Tick (1 / 60)] near_victory))
      = [''capture_100'', ''dyson_10000'']"
    using inst near_victory_run by simp
  have "victories (emitted (run repo [Tick (1 / 60), Tick (1 / 60)] near_victory))
      = length (filter (victoryId repo) [''capture_100'', ''dyson_10000''])"
    using inst [THEN conjunct2, THEN conjunct2, THEN conjunct1] evs by simp
  also have "\<dots> = 1"
    by (simp add: victoryId_def repo_def repo_MILESTONES_def)
  finally have once: "victories (emitted (run repo [Tick (1 / 60), Tick (1 / 60)] near_victory)) = 1" .
  show ?thesis
    using inst [THEN conjunct1] evs once
      inst [THEN conjunct2, THEN conjunct2, THEN conjunct2, THEN conjunct2]
    by blast
qed

section \<open>Research progress\<close>

lemma get0_delete: "get0 (AList.delete k ob) k' = (if k' = k then 0 else get0 ob k')"
  by (simp add: get0_def delete_conv')

lemma accrue_progress:
  assumes "distinct queue" and "list_all (inTable cat) queue"
  shows "get0 (ps_researchProgressMap (snd (accrue cat r dt queue completed s))) t
    = (if t \<in> set queue then get0 (ps_researchProgressMap s) t + r * dt
       else get0 (ps_researchProgressMap s) t)"
  using assms
proof (induction queue arbitrary: completed s t)
  case Nil
  then show ?case by simp
next
  case (Cons a queue)
  then obtain tech where tech: "map_of (TECH_TREE cat) a = Some tech"
    by (auto simp: inTable_def)
  from Cons.prems have rest: "distinct queue" "list_all (inTable cat) queue" "a \<notin> set queue"
    by simp_all
  show ?case
    using rest(3) by (auto simp: tech Let_def Cons.IH [OF rest(1,2)] get0_update)
qed

lemma accrue_completed:
  assumes "distinct queue" and "list_all (inTable cat) queue"
  shows "fst (accrue cat r dt queue completed s)
    = completed @ filter (\<lambda>t. costOf cat t \<le> get0 (ps_researchProgressMap s) t + r * dt) queue"
  using assms
proof (induction queue arbitrary: completed s)
  case Nil
  then show ?case by simp
next
  case (Cons a queue)
  then obtain tech where tech: "map_of (TECH_TREE cat) a = Some tech"
    by (auto simp: inTable_def)
  from Cons.prems have rest: "distinct queue" "list_all (inTable cat) queue" "a \<notin> set queue"
    by simp_all
  have same: "filter (\<lambda>t. costOf cat t \<le> get0 (ps_researchProgressMap (f (s\<lparr>ps_researchProgressMap :=
         AList.update a p (ps_researchProgressMap s)\<rparr>))) t + r * dt) queue
      = filter (\<lambda>t. costOf cat t \<le> get0 (ps_researchProgressMap s) t + r * dt) queue"
    if "\<And>x. ps_researchProgressMap (f x) = ps_researchProgressMap x"
    for f :: "world \<Rightarrow> world" and p
    using rest(3) by (intro filter_cong) (auto simp: that get0_update)
  show ?case
    using same [of "\<lambda>x. x"] same [of "emit e" for e]
    by (simp add: tech Let_def Cons.IH [OF rest(1,2)] costOf_def)
qed


text \<open>What starting a technology does to the queue of the system.\<close>

lemma startResearch_queue:
  "ps_researchQueue (snd (startResearch cat t s)) = ps_researchQueue s
   \<and> ps_researchProgressMap (snd (startResearch cat t s)) = ps_researchProgressMap s
   \<or> t \<notin> set (ps_researchQueue s) \<and> t \<notin> set (completedResearch s) \<and> inTable cat t
     \<and> ps_researchQueue (snd (startResearch cat t s)) = ps_researchQueue s @ [t]
     \<and> ps_researchProgressMap (snd (startResearch cat t s))
         = AList.update t 0 (ps_researchProgressMap s)"
  by (simp add: startResearch_def Let_def isResearched_def syncStateWithQueue_def emit_def
      inTable_def split: option.splits)

lemma tryAutoResearch_queue:
  "ps_researchQueue (tryAutoResearch cat s) = ps_researchQueue s
   \<and> ps_researchProgressMap (tryAutoResearch cat s) = ps_researchProgressMap s
   \<or> (\<exists>t. t \<notin> set (ps_researchQueue s) \<and> t \<notin> set (completedResearch s) \<and> inTable cat t
     \<and> ps_researchQueue (tryAutoResearch cat s) = ps_researchQueue s @ [t]
     \<and> ps_researchProgressMap (tryAutoResearch cat s)
         = AList.update t 0 (ps_researchProgressMap s))"
proof (cases "tryAutoResearch cat s = s")
  case True
  then show ?thesis by simp
next
  case False
  then obtain t where "tryAutoResearch cat s = snd (startResearch cat t s)"
    by (auto simp: tryAutoResearch_def split: if_splits list.splits)
  then show ?thesis using startResearch_queue [of cat t s] by auto
qed

lemma completedResearch_sm_completeResearch:
  "set (completedResearch (sm_completeResearch cat t s)) = insert t (set (completedResearch s))"
  by (auto simp: sm_completeResearch_def Let_def onResearchComplete_def emit_def)

lemma sm_completeResearch_queue:
  "ps_researchQueue (sm_completeResearch cat t s) = ps_researchQueue s
   \<and> ps_researchProgressMap (sm_completeResearch cat t s) = ps_researchProgressMap s
   \<or> (\<exists>t'. t' \<notin> set (ps_researchQueue s) \<and> inTable cat t'
       \<and> t' \<notin> set (completedResearch (sm_completeResearch cat t s))
     \<and> ps_researchQueue (sm_completeResearch cat t s) = ps_researchQueue s @ [t']
     \<and> ps_researchProgressMap (sm_completeResearch cat t s)
         = AList.update t' 0 (ps_researchProgressMap s))"
proof (cases "t \<in> set (completedResearch s)")
  case True
  then show ?thesis by (simp add: sm_completeResearch_def)
next
  case False
  define s2 where "s2 = checkMilestones cat (recalculateProduction cat
      (emit (ResearchCompleteEv t)
        (s\<lparr>completedResearch := completedResearch s @ [t], currentResearch := None,
            researchProgress := 0,
            stats := (stats s)\<lparr>totalResearchCompleted := totalResearchCompleted (stats s) + 1\<rparr>\<rparr>)))"
  have eq: "sm_completeResearch cat t s = tryAutoResearch cat s2"
    using False by (simp add: sm_completeResearch_def Let_def onResearchComplete_def s2_def)
  have s2: "ps_researchQueue s2 = ps_researchQueue s"
    "ps_researchProgressMap s2 = ps_researchProgressMap s"
    "completedResearch s2 = completedResearch s @ [t]"
    by (simp_all add: s2_def emit_def)
  show ?thesis
    using tryAutoResearch_queue [of cat s2] by (auto simp: eq s2)
qed

text \<open>
  Completing one technology: the others that were in progress stay in progress with
  their progress; it is completed and out of the queue; nothing completed is in progress.
\<close>

lemma completeResearch_others:
  assumes "b \<in> set (ps_researchQueue s)" and "b \<noteq> t"
  shows "b \<in> set (ps_researchQueue (completeResearch cat t s))
    \<and> get0 (ps_researchProgressMap (completeResearch cat t s)) b = get0 (ps_researchProgressMap s) b"
proof (cases "map_of (TECH_TREE cat) t")
  case None
  then show ?thesis using assms by (simp add: completeResearch_def)
next
  case (Some tech)
  define s1 where "s1 = s\<lparr>ps_researchQueue := remove1 t (ps_researchQueue s),
      ps_researchProgressMap := AList.delete t (ps_researchProgressMap s)\<rparr>"
  have s1: "b \<in> set (ps_researchQueue s1)"
    "get0 (ps_researchProgressMap s1) b = get0 (ps_researchProgressMap s) b"
    using assms by (simp_all add: s1_def get0_delete)
  have q: "ps_researchQueue (completeResearch cat t s) = ps_researchQueue (sm_completeResearch cat t s1)"
    and p: "ps_researchProgressMap (completeResearch cat t s)
      = ps_researchProgressMap (sm_completeResearch cat t s1)"
    by (simp_all add: completeResearch_def Some Let_def s1_def emit_def)
  show ?thesis
    using sm_completeResearch_queue [of cat t s1] s1 by (auto simp: q p get0_update)
qed

lemma completeResearch_distinct:
  assumes "distinct (ps_researchQueue s)"
  shows "distinct (ps_researchQueue (completeResearch cat t s))"
proof (cases "map_of (TECH_TREE cat) t")
  case None
  then show ?thesis using assms by (simp add: completeResearch_def)
next
  case (Some tech)
  define s1 where "s1 = s\<lparr>ps_researchQueue := remove1 t (ps_researchQueue s),
      ps_researchProgressMap := AList.delete t (ps_researchProgressMap s)\<rparr>"
  have s1: "distinct (ps_researchQueue s1)" using assms by (simp add: s1_def)
  have q: "ps_researchQueue (completeResearch cat t s) = ps_researchQueue (sm_completeResearch cat t s1)"
    by (simp_all add: completeResearch_def Some Let_def s1_def emit_def)
  show ?thesis
    using sm_completeResearch_queue [of cat t s1] s1 by (auto simp: q)
qed

lemma completedResearch_completeResearch:
  "set (completedResearch (completeResearch cat t s))
     = (if inTable cat t then insert t (set (completedResearch s)) else set (completedResearch s))"
  by (auto simp: completeResearch_def Let_def inTable_def completedResearch_sm_completeResearch
      emit_def split: option.splits)

lemma completeResearch_queue_fresh:
  assumes "distinct (ps_researchQueue s)" and "inTable cat t"
    and "x \<in> set (ps_researchQueue (completeResearch cat t s))"
  shows "x \<noteq> t \<and> (x \<in> set (ps_researchQueue s)
     \<or> x \<notin> set (completedResearch (completeResearch cat t s)))"
proof -
  from assms(2) obtain tech where Some: "map_of (TECH_TREE cat) t = Some tech"
    by (auto simp: inTable_def)
  define s1 where "s1 = s\<lparr>ps_researchQueue := remove1 t (ps_researchQueue s),
      ps_researchProgressMap := AList.delete t (ps_researchProgressMap s)\<rparr>"
  have s1: "t \<notin> set (ps_researchQueue s1)" "set (ps_researchQueue s1) \<subseteq> set (ps_researchQueue s)"
    using assms(1) by (auto simp: s1_def)
  have q: "ps_researchQueue (completeResearch cat t s) = ps_researchQueue (sm_completeResearch cat t s1)"
    and c: "completedResearch (completeResearch cat t s) = completedResearch (sm_completeResearch cat t s1)"
    by (simp_all add: completeResearch_def Some Let_def s1_def emit_def)
  have t: "t \<in> set (completedResearch (sm_completeResearch cat t s1))"
    by (simp add: completedResearch_sm_completeResearch)
  show ?thesis
    using sm_completeResearch_queue [of cat t s1] s1 assms(3) t by (auto simp: q c)
qed


lemma completeResearch_inTable:
  assumes "list_all (inTable cat) (ps_researchQueue s)"
  shows "list_all (inTable cat) (ps_researchQueue (completeResearch cat t s))"
proof (cases "map_of (TECH_TREE cat) t")
  case None
  then show ?thesis using assms by (simp add: completeResearch_def)
next
  case (Some tech)
  define s1 where "s1 = s\<lparr>ps_researchQueue := remove1 t (ps_researchQueue s),
      ps_researchProgressMap := AList.delete t (ps_researchProgressMap s)\<rparr>"
  have s1: "list_all (inTable cat) (ps_researchQueue s1)"
    using assms by (auto simp: s1_def list_all_iff dest: notin_set_remove1)
  have q: "ps_researchQueue (completeResearch cat t s) = ps_researchQueue (sm_completeResearch cat t s1)"
    by (simp_all add: completeResearch_def Some Let_def s1_def emit_def)
  show ?thesis
    using sm_completeResearch_queue [of cat t s1] s1 by (auto simp: q)
qed

lemma completeResearch_finished:
  assumes "distinct (ps_researchQueue s)" and "inTable cat t"
  shows "finished (completeResearch cat t s) t"
    and "finished s d \<Longrightarrow> finished (completeResearch cat t s) d"
  using completeResearch_queue_fresh [OF assms] assms(2)
  by (auto simp: finished_def completedResearch_completeResearch)

lemma completeAll_invariant:
  assumes "distinct (ps_researchQueue s)" and "list_all (inTable cat) (ps_researchQueue s)"
    and "list_all (inTable cat) ts"
  shows "distinct (ps_researchQueue (foldl (\<lambda>s' techId. completeResearch cat techId s') s ts))
    \<and> list_all (inTable cat) (ps_researchQueue (foldl (\<lambda>s' techId. completeResearch cat techId s') s ts))
    \<and> (\<forall>d. finished s d \<or> d \<in> set ts
          \<longrightarrow> finished (foldl (\<lambda>s' techId. completeResearch cat techId s') s ts) d)
    \<and> (\<forall>b. b \<in> set (ps_researchQueue s) \<and> b \<notin> set ts
          \<longrightarrow> b \<in> set (ps_researchQueue (foldl (\<lambda>s' techId. completeResearch cat techId s') s ts))
            \<and> get0 (ps_researchProgressMap (foldl (\<lambda>s' techId. completeResearch cat techId s') s ts)) b
                = get0 (ps_researchProgressMap s) b)"
  using assms
proof (induction ts arbitrary: s)
  case Nil
  then show ?case by simp
next
  case (Cons t ts)
  let ?s = "completeResearch cat t s"
  have t: "inTable cat t" and ts: "list_all (inTable cat) ts" using Cons.prems(3) by simp_all
  note IH = Cons.IH [OF completeResearch_distinct [OF Cons.prems(1)]
      completeResearch_inTable [OF Cons.prems(2)] ts, of t]
  note fin = completeResearch_finished [OF Cons.prems(1) t]
  show ?case
    using IH fin completeResearch_others [of _ s t cat] by simp
qed


lemma progressAllResearch_advanced:
  assumes "distinct (ps_researchQueue s)" and "list_all (inTable cat) (ps_researchQueue s)"
    and "ps_researchQueue s \<noteq> []" and "0 < p_research (production s)"
  shows "distinct (ps_researchQueue (progressAllResearch cat deltaTime s))"
    and "list_all (inTable cat) (ps_researchQueue (progressAllResearch cat deltaTime s))"
    and "techId \<in> set (ps_researchQueue s)
      \<Longrightarrow> advanced cat deltaTime s (progressAllResearch cat deltaTime s) techId"
proof -
  define r where "r = p_research (production s) / of_nat (length (ps_researchQueue s))"
  define s1 where "s1 = snd (accrue cat r deltaTime (ps_researchQueue s) [] s)"
  define ts where "ts = filter (\<lambda>t. costOf cat t \<le> get0 (ps_researchProgressMap s) t + r * deltaTime)
      (ps_researchQueue s)"
  define s2 where "s2 = foldl (\<lambda>s' techId. completeResearch cat techId s') s1 ts"
  have acc: "accrue cat r deltaTime (ps_researchQueue s) [] s = (ts, s1)"
    using accrue_completed [OF assms(1,2), of r deltaTime "[]" s]
    by (simp add: s1_def ts_def prod_eq_iff)
  have eq: "progressAllResearch cat deltaTime s = syncStateWithQueue s2"
    using assms(3,4) by (simp add: progressAllResearch_def Let_def r_def [symmetric] acc s2_def)
  have q1: "ps_researchQueue s1 = ps_researchQueue s" by (simp add: s1_def)
  have p1: "get0 (ps_researchProgressMap s1) t = get0 (ps_researchProgressMap s) t + r * deltaTime"
    if "t \<in> set (ps_researchQueue s)" for t
    using accrue_progress [OF assms(1,2), of r deltaTime "[]" s t] that by (simp add: s1_def)
  have ts: "list_all (inTable cat) ts"
    using assms(2) by (simp add: ts_def list_all_iff)
  note inv = completeAll_invariant [of s1 cat ts, unfolded q1, OF assms(1,2) ts, folded s2_def]
  show "distinct (ps_researchQueue (progressAllResearch cat deltaTime s))"
    and "list_all (inTable cat) (ps_researchQueue (progressAllResearch cat deltaTime s))"
    using inv by (simp_all add: eq)
  show "advanced cat deltaTime s (progressAllResearch cat deltaTime s) techId"
    if "techId \<in> set (ps_researchQueue s)"
  proof (cases "techId \<in> set ts")
    case True
    then have "finished s2 techId" using inv by blast
    moreover have "\<not> get0 (ps_researchProgressMap s) techId + share s deltaTime < costOf cat techId"
      using True by (simp add: ts_def share_def r_def)
    ultimately show ?thesis by (simp add: advanced_def eq finished_def)
  next
    case False
    then have "techId \<in> set (ps_researchQueue s2)
        \<and> get0 (ps_researchProgressMap s2) techId = get0 (ps_researchProgressMap s1) techId"
      using inv that by blast
    moreover have "get0 (ps_researchProgressMap s) techId + share s deltaTime < costOf cat techId"
      using False that by (simp add: ts_def share_def r_def)
    ultimately show ?thesis using p1 [OF that] by (simp add: advanced_def eq share_def r_def)
  qed
qed

lemma tryAutoResearch_advanced:
  assumes "distinct (ps_researchQueue s)" and "list_all (inTable cat) (ps_researchQueue s)"
  shows "distinct (ps_researchQueue (tryAutoResearch cat s))"
    and "list_all (inTable cat) (ps_researchQueue (tryAutoResearch cat s))"
    and "advanced cat deltaTime s0 s techId \<Longrightarrow> advanced cat deltaTime s0 (tryAutoResearch cat s) techId"
  using tryAutoResearch_queue [of cat s] assms
  by (auto simp: advanced_def finished_def get0_update split: if_splits)

lemma ps_update_advanced:
  assumes "distinct (ps_researchQueue s)" and "list_all (inTable cat) (ps_researchQueue s)"
    and "ps_researchQueue s \<noteq> []" and "0 < p_research (production s)"
  shows "distinct (ps_researchQueue (ps_update cat deltaTime s))"
    and "list_all (inTable cat) (ps_researchQueue (ps_update cat deltaTime s))"
    and "techId \<in> set (ps_researchQueue s) \<Longrightarrow> advanced cat deltaTime s (ps_update cat deltaTime s) techId"
proof -
  define s1 where "s1 = checkEraProgression (progressAllResearch cat deltaTime s)"
  have eq: "ps_update cat deltaTime s = tryAutoResearch cat s1"
    using assms(3) by (simp add: ps_update_def s1_def)
  have q: "ps_researchQueue s1 = ps_researchQueue (progressAllResearch cat deltaTime s)"
    "ps_researchProgressMap s1 = ps_researchProgressMap (progressAllResearch cat deltaTime s)"
    "completedResearch s1 = completedResearch (progressAllResearch cat deltaTime s)"
    by (simp_all add: s1_def)
  note p = progressAllResearch_advanced [OF assms, where deltaTime = deltaTime]
  have d: "distinct (ps_researchQueue s1)" and i: "list_all (inTable cat) (ps_researchQueue s1)"
    using p(1,2) by (simp_all add: q)
  show "distinct (ps_researchQueue (ps_update cat deltaTime s))"
    and "list_all (inTable cat) (ps_researchQueue (ps_update cat deltaTime s))"
    using tryAutoResearch_advanced(1,2) [OF d i] by (simp_all add: eq)
  show "advanced cat deltaTime s (ps_update cat deltaTime s) techId"
    if "techId \<in> set (ps_researchQueue s)"
  proof -
    have "advanced cat deltaTime s s1 techId"
      using p(3) [OF that] by (auto simp: advanced_def finished_def q split: if_splits)
    then show ?thesis unfolding eq by (rule tryAutoResearch_advanced(3) [OF d i])
  qed
qed

lemma tick_idle_construction:
  assumes "constructionQueue s = []"
  shows "after (tick cat deltaTime s) = ps_update cat deltaTime (rs_update deltaTime s)"
  using assms by (simp add: tick_def cs_update_def applyAutoConstruction_def Let_def after_def)

lemmas research_defs = run_def tick_def rs_update_def cs_update_def ps_update_def
  applyAutoConstruction_def recalculateProduction_def setSolarCapture_def getTechModifiers_def
  initialTotals_def plus_if_def times_if_def applyEffects_def
  checkMilestones_def getNewlyAchievedMilestones_def
  getDefaultState_def get0_def emit_def addResource_def Let_def
  checkEraProgression_def ERAS_def tryAutoResearch_def
  progressAllResearch_def BASE_PRODUCTION_def STARTING_RESOURCES_def no_production_def
  no_effects_def after_def startResearch_def canResearch_def isResearched_def
  syncStateWithQueue_def maxSlots_def completeResearch_def sm_completeResearch_def
  onResearchComplete_def lab_def two_slots_def two_items_def

lemma two_items_start:
  "ps_researchQueue two_items = [''alpha'', ''beta'']
   \<and> ps_researchProgressMap two_items = [(''alpha'', 0), (''beta'', 0)]
   \<and> p_research (production two_items) = 10
   \<and> constructionQueue two_items = []"
  by (simp add: research_defs cong: let_weak_cong)

lemma two_items_2:
  "ps_researchQueue (run lab [Tick 1, Tick 1] two_items) = [''alpha'', ''beta'']
   \<and> ps_researchProgressMap (run lab [Tick 1, Tick 1] two_items) = [(''alpha'', 10), (''beta'', 10)]"
  by (simp add: research_defs cong: let_weak_cong)

lemma two_items_4:
  "ps_researchQueue (run lab [Tick 1, Tick 1, Tick 1, Tick 1] two_items) = [''beta'']
   \<and> ps_researchProgressMap (run lab [Tick 1, Tick 1, Tick 1, Tick 1] two_items) = [(''beta'', 20)]
   \<and> completedResearch (run lab [Tick 1, Tick 1, Tick 1, Tick 1] two_items) = [''basic_rocketry'', ''alpha'']
   \<and> p_research (production (run lab [Tick 1, Tick 1, Tick 1, Tick 1] two_items)) = 10
   \<and> constructionQueue (run lab [Tick 1, Tick 1, Tick 1, Tick 1] two_items) = []"
  by (simp add: research_defs cong: let_weak_cong)

text \<open>
  C3. Research progress divides the research rate evenly. In a state whose research queue
  is non-empty, has no duplicates and holds only technologies of the table, and whose
  research production is positive, one update of the progression system adds to every
  queued technology exactly the research production divided by the number of queued
  technologies, times \<open>deltaTime\<close>: a technology that stays below its cost is still queued
  with that much more progress, and one that reaches its cost is completed and leaves the
  queue. The queue still has no duplicates and holds only technologies of the table
  afterwards, so the same holds on the next tick with the divisor of that tick: once a
  technology has left the queue the remaining ones share the rate among fewer. With an
  empty construction queue the same is true of the whole game tick.
\<close>

theorem C3_research_share:
  assumes "distinct (ps_researchQueue s)" and "list_all (inTable cat) (ps_researchQueue s)"
    and "ps_researchQueue s \<noteq> []" and "0 < p_research (production s)"
  shows "(\<forall>techId \<in> set (ps_researchQueue s).
            advanced cat deltaTime s (ps_update cat deltaTime s) techId)
    \<and> distinct (ps_researchQueue (ps_update cat deltaTime s))
    \<and> list_all (inTable cat) (ps_researchQueue (ps_update cat deltaTime s))
    \<and> (constructionQueue s = [] \<longrightarrow>
         (\<forall>techId \<in> set (ps_researchQueue s).
            advanced cat deltaTime s (exec cat (Tick deltaTime) s) techId)
         \<and> distinct (ps_researchQueue (exec cat (Tick deltaTime) s))
         \<and> list_all (inTable cat) (ps_researchQueue (exec cat (Tick deltaTime) s)))"
proof -
  let ?s = "rs_update deltaTime s"
  have same: "ps_researchQueue ?s = ps_researchQueue s"
    "ps_researchProgressMap ?s = ps_researchProgressMap s" "production ?s = production s"
    by simp_all
  have pre: "distinct (ps_researchQueue ?s)" "list_all (inTable cat) (ps_researchQueue ?s)"
    "ps_researchQueue ?s \<noteq> []" "0 < p_research (production ?s)"
    using assms by (simp_all add: same)
  have "advanced cat deltaTime s (ps_update cat deltaTime ?s) techId"
    if "techId \<in> set (ps_researchQueue s)" for techId
    using ps_update_advanced(3) [OF pre that [folded same(1)], where deltaTime = deltaTime]
    by (simp add: advanced_def share_def same)
  then show ?thesis
    using ps_update_advanced [OF assms, where deltaTime = deltaTime]
      ps_update_advanced(1,2) [OF pre, where deltaTime = deltaTime]
    by (simp add: tick_idle_construction)
qed

theorem C3_research_share_witness:
  "get0 (ps_researchProgressMap (exec lab (Tick 1) two_items)) ''alpha'' = 5
   \<and> get0 (ps_researchProgressMap (exec lab (Tick 1) two_items)) ''beta'' = 5
   \<and> ps_researchProgressMap (run lab [Tick 1, Tick 1] two_items) = [(''alpha'', 10), (''beta'', 10)]
   \<and> ps_researchQueue (run lab [Tick 1, Tick 1, Tick 1, Tick 1] two_items) = [''beta'']
   \<and> completedResearch (run lab [Tick 1, Tick 1, Tick 1, Tick 1] two_items)
       = [''basic_rocketry'', ''alpha'']
   \<and> ps_researchProgressMap (run lab [Tick 1, Tick 1, Tick 1, Tick 1] two_items) = [(''beta'', 20)]
   \<and> share two_items 1 = 5
   \<and> share (run lab [Tick 1, Tick 1, Tick 1, Tick 1] two_items) 1 = 10
   \<and> finished (exec lab (Tick 1) (run lab [Tick 1, Tick 1, Tick 1, Tick 1] two_items)) ''beta''"
proof -
  let ?s4 = "run lab [Tick 1, Tick 1, Tick 1, Tick 1] two_items"
  have known: "inTable lab ''alpha''" "inTable lab ''beta''"
    by (simp_all add: inTable_def lab_def)
  have cost: "costOf lab ''alpha'' = 20" "costOf lab ''beta'' = 30"
    by (simp_all add: costOf_def lab_def)
  have sh: "share two_items 1 = 5" "share ?s4 1 = 10"
    using two_items_start two_items_4 by (simp_all add: share_def)
  have "\<forall>techId \<in> set (ps_researchQueue two_items).
      advanced lab 1 two_items (exec lab (Tick 1) two_items) techId"
    using C3_research_share [where s = two_items and cat = lab and deltaTime = 1]
      two_items_start known by simp
  then have first: "get0 (ps_researchProgressMap (exec lab (Tick 1) two_items)) ''alpha'' = 5"
    "get0 (ps_researchProgressMap (exec lab (Tick 1) two_items)) ''beta'' = 5"
    using two_items_start by (simp_all add: advanced_def sh cost get0_Cons del: exec.simps)
  have "\<forall>techId \<in> set (ps_researchQueue ?s4). advanced lab 1 ?s4 (exec lab (Tick 1) ?s4) techId"
    using C3_research_share [where s = ?s4 and cat = lab and deltaTime = 1]
      two_items_4 known by simp
  then have last: "finished (exec lab (Tick 1) ?s4) ''beta''"
    using two_items_4 by (simp add: advanced_def sh cost get0_Cons del: exec.simps)
  show ?thesis
    using first last sh two_items_2 two_items_4 by simp
qed

section \<open>Research slots\<close>




























end
